theory Spec2Isabelle
  imports Complex_Main
begin

section \<open>Python values the pipeline relies on\<close>

text \<open>
  The exceptions the modelled code raises itself or lets through. \<open>ConnectionError\<close> is
  raised by \<open>blobstore.ensure_connected\<close>, \<open>NotImplementedError\<close> by
  \<open>CaptureDaemon.main\<close>, \<open>NameError\<close> and \<open>SyntaxError\<close> by a template that cannot be
  evaluated, \<open>ValueError\<close> by \<open>int()\<close> and the date parser, \<open>FileNotFoundError\<close> by
  \<open>zipfile.ZipFile\<close> on a missing file, \<open>AttributeError\<close> by a method called on
  \<open>None\<close>, \<open>KeyError\<close> by \<open>dict.pop\<close>, \<open>TypeError\<close> by a comparison with \<open>None\<close>,
  \<open>IndexError\<close> by list indexing. \<open>OtherError\<close> stands for any exception of a
  collaborator (database driver, file system) that the code does not catch.
\<close>

datatype error =
    ConnectionError string
  | NotImplementedError string
  | NameError string
  | SyntaxError
  | ValueError
  | FileNotFoundError
  | AttributeError
  | KeyError string
  | TypeError
  | IndexError
  | OtherError string


subsection \<open>Whitespace\<close>

text \<open>
  \<open>str.isspace\<close> on the ASCII range: tab, line feed, vertical tab, form feed, carriage
  return, the four separators \<open>0x1c\<close> to \<open>0x1f\<close>, and the space.
\<close>

definition is_space :: "char \<Rightarrow> bool" where
  "is_space c = (let n = (of_char c :: nat) in (9 \<le> n \<and> n \<le> 13) \<or> (28 \<le> n \<and> n \<le> 32))"

definition lstrip :: "string \<Rightarrow> string" where
  "lstrip s = dropWhile is_space s"

definition rstrip :: "string \<Rightarrow> string" where
  "rstrip s = rev (dropWhile is_space (rev s))"

definition strip :: "string \<Rightarrow> string" where
  "strip s = rstrip (lstrip s)"

subsection \<open>Decimal text: \<open>str(n)\<close>, \<open>f'{n:0w}'\<close> and \<open>int(text)\<close>\<close>

text \<open>
  \<open>f'{n:0w}'\<close> pads with zeros and is sign aware: the sign comes first and counts
  towards the width (\<open>f'{-7:04}' == '-007'\<close>). \<open>int(text)\<close> in base ten on ASCII text:
  surrounding whitespace is stripped, one sign is allowed, then digits, where single
  underscores may separate digits; anything else raises \<open>ValueError\<close> (the value
  \<open>None\<close>).
\<close>

definition digit_char :: "nat \<Rightarrow> char" where
  "digit_char d = char_of (48 + d)"

fun str_nat :: "nat \<Rightarrow> string" where
  "str_nat n = (if n < 10 then [digit_char n] else str_nat (n div 10) @ [digit_char (n mod 10)])"

declare str_nat.simps [simp del]

definition zfill :: "nat \<Rightarrow> string \<Rightarrow> string" where
  "zfill w s = replicate (w - length s) (CHR ''0'') @ s"

definition fmt_zero :: "nat \<Rightarrow> int \<Rightarrow> string" where
  "fmt_zero w n =
     (if n < 0 then CHR ''-'' # zfill (w - 1) (str_nat (nat (- n)))
      else zfill w (str_nat (nat n)))"

definition is_digit :: "char \<Rightarrow> bool" where
  "is_digit c = (let n = (of_char c :: nat) in 48 \<le> n \<and> n \<le> 57)"

definition digit_val :: "char \<Rightarrow> nat" where
  "digit_val c = of_char c - 48"

fun parse_digits :: "nat \<Rightarrow> string \<Rightarrow> nat option" where
  "parse_digits acc [] = Some acc"
| "parse_digits acc [c] = (if is_digit c then Some (10 * acc + digit_val c) else None)"
| "parse_digits acc (c # d # cs) =
     (if is_digit c then parse_digits (10 * acc + digit_val c) (d # cs)
      else if c = CHR ''_'' \<and> is_digit d then parse_digits acc (d # cs)
      else None)"

definition parse_unsigned :: "string \<Rightarrow> nat option" where
  "parse_unsigned s =
     (case s of [] \<Rightarrow> None | c # cs \<Rightarrow> if is_digit c then parse_digits 0 s else None)"

definition py_int :: "string \<Rightarrow> int option" where
  "py_int s =
     (case strip s of
        [] \<Rightarrow> None
      | c # cs \<Rightarrow>
          if c = CHR ''-'' then map_option (\<lambda>n. - int n) (parse_unsigned cs)
          else if c = CHR ''+'' then map_option int (parse_unsigned cs)
          else map_option int (parse_unsigned (c # cs)))"

subsection \<open>Text methods of \<open>str\<close>\<close>

fun startswith :: "string \<Rightarrow> string \<Rightarrow> bool" where
  "startswith s [] = True"
| "startswith [] (p # ps) = False"
| "startswith (c # cs) (p # ps) = (c = p \<and> startswith cs ps)"

definition endswith :: "string \<Rightarrow> string \<Rightarrow> bool" where
  "endswith s p = startswith (rev s) (rev p)"

text \<open>\<open>sub in s\<close>\<close>

fun contains :: "string \<Rightarrow> string \<Rightarrow> bool" where
  "contains sub [] = (sub = [])"
| "contains sub (c # cs) = (startswith (c # cs) sub \<or> contains sub cs)"

text \<open>
  \<open>s.replace(old, new)\<close>: every occurrence, left to right, not overlapping. With an
  empty \<open>old\<close> Python puts \<open>new\<close> before every character and at the end.
\<close>

function replace_str :: "string \<Rightarrow> string \<Rightarrow> string \<Rightarrow> string" where
  "replace_str old new [] = (if old = [] then new else [])"
| "replace_str old new (c # cs) =
     (if old = [] then new @ c # replace_str old new cs
      else if startswith (c # cs) old
        then new @ replace_str old new (drop (length old) (c # cs))
        else c # replace_str old new cs)"
  by pat_completeness auto
termination
  by (relation "measure (\<lambda>(old, new, s). length s)") auto

text \<open>
  \<open>s.partition(sep)\<close> for a non-empty separator: the text before the first occurrence,
  the separator, the text after it; \<open>(s, '', '')\<close> when it does not occur.
\<close>

fun partition_str :: "string \<Rightarrow> string \<Rightarrow> string \<times> string \<times> string" where
  "partition_str sep [] = ([], [], [])"
| "partition_str sep (c # cs) =
     (if startswith (c # cs) sep then ([], sep, drop (length sep) (c # cs))
      else (case partition_str sep cs of (h, m, t) \<Rightarrow> (c # h, m, t)))"

text \<open>\<open>s.split(sep)\<close> for a separator of one character.\<close>

fun split_char :: "char \<Rightarrow> string \<Rightarrow> string list" where
  "split_char sep [] = [[]]"
| "split_char sep (c # cs) =
     (if c = sep then [] # split_char sep cs
      else (case split_char sep cs of
              [] \<Rightarrow> [[c]]
            | w # ws \<Rightarrow> (c # w) # ws))"

text \<open>\<open>s.rsplit(sep, 1)\<close> for a separator of one character: split at its last occurrence.\<close>

definition rsplit1 :: "char \<Rightarrow> string \<Rightarrow> string list" where
  "rsplit1 sep s =
     (if sep \<in> set s
      then [rev (drop 1 (dropWhile (\<lambda>c. c \<noteq> sep) (rev s))), rev (takeWhile (\<lambda>c. c \<noteq> sep) (rev s))]
      else [s])"

text \<open>\<open>s.split()\<close>: the words between runs of whitespace.\<close>

fun words_from :: "string \<Rightarrow> string \<Rightarrow> string list" where
  "words_from cur [] = (if cur = [] then [] else [cur])"
| "words_from cur (c # cs) =
     (if is_space c then (if cur = [] then words_from [] cs else cur # words_from [] cs)
      else words_from (cur @ [c]) cs)"

definition split_ws :: "string \<Rightarrow> string list" where
  "split_ws s = words_from [] s"

text \<open>
  \<open>s.splitlines()\<close> on ASCII text. Line boundaries are line feed, carriage return, the
  pair of both, vertical tab, form feed and the separators \<open>0x1c\<close> to \<open>0x1e\<close>; a final
  line break opens no further line.
\<close>

definition is_linebreak :: "char \<Rightarrow> bool" where
  "is_linebreak c = (let n = (of_char c :: nat) in (10 \<le> n \<and> n \<le> 13) \<or> (28 \<le> n \<and> n \<le> 30))"

fun lines_from :: "string \<Rightarrow> string \<Rightarrow> string list" where
  "lines_from cur [] = (if cur = [] then [] else [cur])"
| "lines_from cur [c] = (if is_linebreak c then [cur] else [cur @ [c]])"
| "lines_from cur (c # d # cs) =
     (if c = CHR 0x0D \<and> d = CHR 0x0A then cur # lines_from [] cs
      else if is_linebreak c then cur # lines_from [] (d # cs)
      else lines_from (cur @ [c]) (d # cs))"

definition splitlines :: "string \<Rightarrow> string list" where
  "splitlines s = lines_from [] s"

fun str_join :: "string \<Rightarrow> string list \<Rightarrow> string" where
  "str_join sep [] = []"
| "str_join sep [x] = x"
| "str_join sep (x # y # ys) = x @ sep @ str_join sep (y # ys)"

definition lower_char :: "char \<Rightarrow> char" where
  "lower_char c = (let n = (of_char c :: nat) in if 65 \<le> n \<and> n \<le> 90 then char_of (n + 32) else c)"

definition lower :: "string \<Rightarrow> string" where
  "lower s = map lower_char s"

definition is_alpha :: "char \<Rightarrow> bool" where
  "is_alpha c = (let n = (of_char c :: nat) in (65 \<le> n \<and> n \<le> 90) \<or> (97 \<le> n \<and> n \<le> 122))"

text \<open>\<open>s.strip(chars)\<close>\<close>

definition strip_chars :: "string \<Rightarrow> string \<Rightarrow> string" where
  "strip_chars chars s =
     rev (dropWhile (\<lambda>c. c \<in> set chars) (rev (dropWhile (\<lambda>c. c \<in> set chars) s)))"

subsection \<open>\<open>common.py\<close>\<close>

definition spaces :: "nat \<Rightarrow> string" where
  "spaces n = replicate n (CHR '' '')"

lemma startswith_length: "startswith s p \<Longrightarrow> length p \<le> length s"
  by (induction s p rule: startswith.induct) auto

lemma replace_str_le:
  "old \<noteq> [] \<Longrightarrow> length new \<le> length old \<Longrightarrow> length (replace_str old new s) \<le> length s"
proof (induction old new s rule: replace_str.induct)
  case (1 old new)
  then show ?case by simp
next
  case (2 old new c cs)
  show ?case
  proof (cases "startswith (c # cs) old")
    case True
    have "length (replace_str old new (drop (length old) (c # cs))) \<le> length (drop (length old) (c # cs))"
      using 2 True by simp
    moreover have "length old \<le> length (c # cs)" using True by (rule startswith_length)
    ultimately show ?thesis using 2 True by simp
  next
    case False
    then show ?thesis using 2 by simp
  qed
qed

lemma replace_str_shorter:
  "length new < length old \<Longrightarrow> contains old s \<Longrightarrow> length (replace_str old new s) < length s"
proof (induction old new s rule: replace_str.induct)
  case (1 old new)
  then show ?case by simp
next
  case (2 old new c cs)
  have ne: "old \<noteq> []" using 2(4) by auto
  show ?case
  proof (cases "startswith (c # cs) old")
    case True
    have "length (replace_str old new (drop (length old) (c # cs))) \<le> length (drop (length old) (c # cs))"
      using ne 2(4) by (intro replace_str_le) auto
    moreover have "length old \<le> length (c # cs)" using True by (rule startswith_length)
    ultimately show ?thesis using 2(4) True ne by simp
  next
    case False
    then have "contains old cs" using 2(5) by simp
    then show ?thesis using 2 False ne by simp
  qed
qed

function compress_char :: "char \<Rightarrow> string \<Rightarrow> string" where
  "compress_char ch text =
     (if contains [ch, ch] text then compress_char ch (replace_str [ch, ch] [ch] text) else text)"
  by pat_completeness auto
termination
  by (relation "measure (\<lambda>(ch, text). length text)") (auto intro: replace_str_shorter)

declare compress_char.simps [simp del]

definition split_py :: "string \<Rightarrow> string \<Rightarrow> string list" where
  "split_py items delimiters =
     (let items = fold (\<lambda>delimiter text. replace_str [delimiter] [CHR 0x00] text) delimiters items;
          items = compress_char (CHR 0x00) items;
          items = strip_chars [CHR 0x00] items
      in if items = [] then [] else map strip (split_char (CHR 0x00) items))"

definition delete_blank_lines :: "string \<Rightarrow> string" where
  "delete_blank_lines text = str_join ''\<newline>'' (filter (\<lambda>line. strip line \<noteq> []) (splitlines text))"

text \<open>
  \<open>just_file_name\<close> and \<open>just_file_stem\<close>: \<open>pathlib.Path(path).name\<close> and \<open>.stem\<close> for
  paths written with slashes. The name is the last component that is neither empty nor a
  single dot; the stem drops the name's last suffix, which starts at the last dot when
  that dot is neither the first nor the last character of the name.
\<close>

definition just_file_name :: "string \<Rightarrow> string" where
  "just_file_name path_name =
     (case filter (\<lambda>part. part \<noteq> [] \<and> part \<noteq> ''.'') (split_char (CHR ''/'') path_name) of
        [] \<Rightarrow> []
      | part # parts \<Rightarrow> last (part # parts))"

definition just_file_stem :: "string \<Rightarrow> string" where
  "just_file_stem path_name =
     (let name = just_file_name path_name;
          suffix = takeWhile (\<lambda>c. c \<noteq> CHR ''.'') (rev name);
          i = length name - length suffix - 1
      in if CHR ''.'' \<in> set name \<and> 0 < i \<and> suffix \<noteq> [] then take i name else name)"

subsection \<open>\<open>common.expand\<close>: a template evaluated as an f-string\<close>

text \<open>
  \<open>expand(expression)\<close> evaluates \<open>f'''expression'''\<close> in the caller's local variables.
  The templates of the modelled code hold plain text and replacement fields \<open>{name}\<close>
  only. \<open>env\<close> maps the caller's locals to their \<open>str()\<close>; a name that is not bound
  raises \<open>NameError\<close>, a brace without its partner \<open>SyntaxError\<close>; \<open>{{\<close> and \<open>}}\<close>
  stand for one brace. The second argument is \<open>None\<close> in plain text and holds the
  characters of the field's name read so far inside a replacement field.
\<close>

definition emit :: "string \<Rightarrow> error + string \<Rightarrow> error + string" where
  "emit s r = (case r of Inl e \<Rightarrow> Inl e | Inr t \<Rightarrow> Inr (s @ t))"

fun expand_from :: "(string \<rightharpoonup> string) \<Rightarrow> string option \<Rightarrow> string \<Rightarrow> error + string" where
  "expand_from env None [] = Inr []"
| "expand_from env (Some name) [] = Inl SyntaxError"
| "expand_from env None (c # cs) =
     (if c = CHR ''{'' then
        (case cs of
           [] \<Rightarrow> Inl SyntaxError
         | d # ds \<Rightarrow> if d = CHR ''{'' then emit ''{'' (expand_from env None ds)
                    else expand_from env (Some []) cs)
      else if c = CHR ''}'' then
        (case cs of
           [] \<Rightarrow> Inl SyntaxError
         | d # ds \<Rightarrow> if d = CHR ''}'' then emit ''}'' (expand_from env None ds)
                    else Inl SyntaxError)
      else emit [c] (expand_from env None cs))"
| "expand_from env (Some name) (c # cs) =
     (if c = CHR ''}'' then
        (case env name of
           None \<Rightarrow> Inl (NameError name)
         | Some v \<Rightarrow> emit v (expand_from env None cs))
      else expand_from env (Some (name @ [c])) cs)"

definition expand :: "(string \<rightharpoonup> string) \<Rightarrow> string \<Rightarrow> error + string" where
  "expand env expression = expand_from env None expression"

subsection \<open>\<open>cdc_select.py\<close> and \<open>cdc_merge.py\<close>: quoting and aliases\<close>

text \<open>\<open>q(items)\<close> on one name, \<open>q_list\<close> on a list of names.\<close>

definition q :: "string \<Rightarrow> string" where
  \<open>q items = (if startswith items ''"'' then items else ''"'' @ items @ ''"'')\<close>

definition q_list :: "string list \<Rightarrow> string list" where
  "q_list items = map q items"

definition add_alias :: "string \<Rightarrow> string \<Rightarrow> string" where
  \<open>add_alias column_name table_alias =
     (let column_name = replace_str ''"'' [] column_name
      in if contains ''.'' column_name
         then (case partition_str ''.'' column_name of
                 (table_alias, separator, column_name) \<Rightarrow> q table_alias @ ''.'' @ q column_name)
         else q table_alias @ ''.'' @ q column_name)\<close>

definition add_aliases :: "string list \<Rightarrow> string \<Rightarrow> string list" where
  "add_aliases column_names table_alias = map (\<lambda>column_name. add_alias column_name table_alias) column_names"

definition indent :: "string \<Rightarrow> string" where
  "indent text =
     str_join ''\<newline>''
       (map (\<lambda>line. let line = strip line
                   in if startswith line ''_ '' then drop 1 line
                      else if startswith line ''__'' then strip (drop 2 line)
                      else line)
            (splitlines (strip text)))"

subsection \<open>\<open>cdc_select.py\<close>: the join fragment\<close>

definition clean_sql :: "string \<Rightarrow> string" where
  \<open>clean_sql text =
     (let text = lower text;
          text = replace_str ''join['' ''join ['' text;
          text = replace_str '']'' [] (replace_str ''['' [] text);
          text = replace_str ''='' '' = '' text;
          text = replace_str ''('' '' ( '' text;
          text = replace_str '')'' '' ) '' text;
          text = str_join ''\<newline>'' (map (\<lambda>line. fst (partition_str ''--'' line)) (splitlines (strip text)));
          text = str_join '' '' (split_ws text);
          text = replace_str ''with ( nolock )'' [] text
      in text)\<close>

definition join_keyword_phrases :: "string list" where
  "join_keyword_phrases =
     splitlines (''\<newline>full inner join\<newline>full outer join\<newline>left inner join\<newline>left outer join\<newline>'' @
                 ''right inner join\<newline>right outer join\<newline>cross join\<newline>full join\<newline>left join\<newline>'' @
                 ''right join\<newline>inner join\<newline>outer join\<newline>join\<newline>'')"

text \<open>
  The first loop of \<open>format_join\<close>: \<open>last_token\<close> is the token as the previous round
  left it. \<open>text.split()\<close> yields no empty token, so \<open>token[0]\<close> exists; the model
  passes an empty token through unchanged.
\<close>

definition quote_token :: "string \<Rightarrow> string \<Rightarrow> string \<Rightarrow> string" where
  \<open>quote_token schema last_token token =
     (let token =
            (if contains ''..'' token then q (snd (snd (partition_str ''..'' token)))
             else if startswith token ''dbo.'' then q (drop 4 token)
             else if contains ''.'' token
               then (case partition_str ''.'' token of
                       (alias_name, separator, table_name) \<Rightarrow> q alias_name @ ''.'' @ q table_name)
             else q token)
      in if endswith last_token ''join'' \<and> \<not> contains ''.'' token
         then q schema @ ''.'' @ token else token)\<close>

fun quote_tokens :: "string \<Rightarrow> string list \<Rightarrow> string \<Rightarrow> string list \<Rightarrow> string list" where
  "quote_tokens schema join_keywords last_token [] = []"
| "quote_tokens schema join_keywords last_token (token # tokens) =
     (let token =
            (if token \<in> set join_keywords \<or> (case token of [] \<Rightarrow> True | c # cs \<Rightarrow> \<not> is_alpha c)
             then token else quote_token schema last_token token)
      in token # quote_tokens schema join_keywords token tokens)"

definition format_join :: "string \<Rightarrow> string \<Rightarrow> string" where
  \<open>format_join text schema =
     (let text = clean_sql text;
          join_keywords = split_py ''full, left, right, inner, outer, cross, join, on, and, or, not'' '', '';
          output = quote_tokens schema join_keywords [] (split_ws text);
          text = str_join '' '' output;
          text = fold (\<lambda>join_keyword_phrase text.
                          replace_str join_keyword_phrase
                            (replace_str '' '' ''::'' join_keyword_phrase) text)
                      join_keyword_phrases text;
          output = map (\<lambda>token.
                          (if endswith token ''join'' then ''\<newline>'' @ spaces 2 @ token
                           else if token = ''on'' then ''\<newline>'' @ spaces 4 @ token
                           else token) @ '' '')
                       (split_ws text);
          text = concat output;
          text = replace_str ''::'' '' '' text
      in text)\<close>

subsection \<open>Table configuration and the source database\<close>

text \<open>
  A \<open>[table:*]\<close> section of the project file (\<open>section.SectionTable\<close>), with the
  attributes the modelled code reads or assigns. Configuration values are text; a value
  is true in a condition when it is not empty. \<open>first_sequence\<close> is configured as text
  and replaced by the number 0 when empty, hence a \<open>pyval\<close>. The attributes \<open>join\<close>, \<open>where\<close> and
  \<open>order\<close> carry the suffix \<open>_sql\<close> here. \<open>column_names\<close> is the list that
  \<open>capture.py\<close> and \<open>stage.py\<close> assign (the alternative value \<open>'*'\<close> of the module's
  own usage note is never assigned by them).
\<close>

datatype pyval = PNone | PInt int | PStr string

fun truthy :: "pyval \<Rightarrow> bool" where
  "truthy PNone = False"
| "truthy (PInt n) = (n \<noteq> 0)"
| "truthy (PStr s) = (s \<noteq> [])"

record table_object =
  schema_name :: string
  table_name :: string
  drop_table :: string
  ignore_table :: string
  optional_table :: string
  ignore_columns :: string
  primary_key :: string
  cdc :: string
  timestamp :: string
  first_timestamp :: string
  filehash :: string
  rowhash :: string
  rowversion :: string
  sequence :: string
  first_sequence :: pyval
  join_sql :: string
  where_sql :: string
  order_sql :: string
  column_names :: "string list"

text \<open>
  A point in time is a count of microseconds. \<open>str(datetime)\<close>, the date parser
  \<open>common.iso_to_datetime\<close> (\<open>dateutil\<close>) and \<open>fnmatch.fnmatch(name, pattern)\<close> are
  parameters.
\<close>

type_synonym datetime = int

record pyenv =
  iso_to_datetime :: "string \<Rightarrow> error + datetime"
  datetime_str :: "datetime \<Rightarrow> string"
  fnmatch :: "string \<Rightarrow> string \<Rightarrow> bool"

text \<open>A column of a discovered table schema (\<open>tableschema.Column\<close>).\<close>

record column =
  data_type :: string
  is_nullable :: string
  character_maximum_length :: "int option"
  numeric_precision :: "int option"
  numeric_scale :: "int option"
  datetime_precision :: "int option"

text \<open>
  \<open>tableschema.TableSchema\<close>: the ordered dictionary of columns, as the list of its
  items in insertion order (column names are pairwise different).
\<close>

record table_schema =
  schema_table_name :: string
  columns :: "(string \<times> column) list"

text \<open>
  The source database as \<open>capture.py\<close> and \<open>cdc_select.py\<close> use it
  (\<open>database.Database\<close> and the cursor of its connection): every call answers or raises.
  \<open>select_table_schema\<close> answers \<open>None\<close> for a table that does not exist.
\<close>

record 'row db_engine =
  timestamp_literal :: "datetime \<Rightarrow> error + string"
  db_current_timestamp :: "error + datetime"
  current_sequence :: "string \<Rightarrow> error + int"
  select_table_schema :: "string \<Rightarrow> string \<Rightarrow> error + table_schema option"
  select_table_pk :: "string \<Rightarrow> string \<Rightarrow> error + string"
  cursor_execute :: "string \<Rightarrow> error + 'row list"

text \<open>
  \<open>Database.timestamp_literal(self, timestamp_value)\<close> of \<open>database.py\<close>: its first statement
  formats the name \<open>current_timestamp\<close>, which is neither a parameter nor a local of the method nor
  a global of the module, so every call raises \<open>NameError\<close>.
\<close>

definition Database_timestamp_literal :: "datetime \<Rightarrow> error + string" where
  "Database_timestamp_literal timestamp_value = Inl (NameError ''current_timestamp'')"

subsection \<open>\<open>cdc_select.SelectCDC\<close>\<close>

definition str_int :: "int \<Rightarrow> string" where
  "str_int n = (if n < 0 then CHR ''-'' # str_nat (nat (- n)) else str_nat (nat n))"

definition select_template :: string where
  \<open>select_template =
     ''\<newline>'' @
     ''      select\<newline>'' @
     ''        {column_names},\<newline>'' @
     ''        {job_id} as "udp_job",\<newline>'' @
     ''        {timestamp_value} as "udp_timestamp"\<newline>'' @
     ''        from "{schema_name}"."{table_name}" as "s"\<newline>'' @
     ''        {join_clause}\<newline>'' @
     ''        {where_clause}\<newline>'' @
     ''        {order_clause}\<newline>'' @
     ''    ''\<close>

definition timestamp_where_template :: string where
  \<open>timestamp_where_template =
     ''\<newline>'' @
     ''        (\<newline>'' @
     ''            {timestamp_value} >= '' @ [CHR 0x27] @ ''{last_timestamp}'' @ [CHR 0x27] @ '' and\<newline>'' @
     ''            {timestamp_value} < '' @ [CHR 0x27] @ ''{current_timestamp}'' @ [CHR 0x27] @ ''\<newline>'' @
     ''        )\<newline>'' @
     ''    ''\<close>

text \<open>
  \<open>sequence_where_template\<close> is declared by the class and used by none of its methods.
\<close>

definition sequence_where_template :: string where
  \<open>sequence_where_template =
     ''\<newline>'' @
     ''        (\<newline>'' @
     ''            {sequence_value} >= '' @ [CHR 0x27] @ ''{last_sequence}'' @ [CHR 0x27] @ '' and\<newline>'' @
     ''            {sequence_value} < '' @ [CHR 0x27] @ ''{current_sequence}'' @ [CHR 0x27] @ ''\<newline>'' @
     ''        )\<newline>'' @
     ''    ''\<close>

definition SelectCDC_column_names :: "table_object \<Rightarrow> string" where
  "SelectCDC_column_names table = str_join '', '' (add_aliases (column_names table) ''s'')"

text \<open>
  \<open>timestamp_logic\<close> assigns \<open>self.timestamp_value\<close> and
  \<open>self.timestamp_where_condition\<close>; the model returns the pair.
\<close>

definition SelectCDC_timestamp_logic ::
  "pyenv \<Rightarrow> 'row db_engine \<Rightarrow> table_object \<Rightarrow> datetime \<Rightarrow> datetime \<Rightarrow> error + string \<times> string"
where
  \<open>SelectCDC_timestamp_logic env db_engine table current_timestamp last_timestamp =
     (if timestamp table = [] then
        (case timestamp_literal db_engine current_timestamp of
           Inl e \<Rightarrow> Inl e
         | Inr timestamp_value \<Rightarrow> Inr (timestamp_value, []))
      else
        (let timestamp_columns = add_aliases (split_py (timestamp table) '', '') ''s'';
             timestamp_value =
               (case timestamp_columns of
                  [column_name] \<Rightarrow> q column_name
                | _ \<Rightarrow>
                    ''(select max("v") from (values '' @
                    str_join '', '' (map (\<lambda>column_name. ''('' @ q column_name @ '')'') timestamp_columns) @
                    '') as value("v"))'')
         in case expand [''timestamp_value'' \<mapsto> timestamp_value,
                         ''last_timestamp'' \<mapsto> datetime_str env last_timestamp,
                         ''current_timestamp'' \<mapsto> datetime_str env current_timestamp]
                   (indent timestamp_where_template) of
              Inl e \<Rightarrow> Inl e
            | Inr timestamp_where_condition \<Rightarrow> Inr (timestamp_value, timestamp_where_condition)))\<close>

definition SelectCDC_join_clause :: "table_object \<Rightarrow> string" where
  "SelectCDC_join_clause table =
     (let join_clause = strip_chars [CHR 0x5C] (join_sql table)
      in if join_clause \<noteq> [] then ''\<newline>'' @ format_join join_clause (schema_name table)
         else join_clause)"

definition SelectCDC_where_clause :: "table_object \<Rightarrow> string \<Rightarrow> string" where
  "SelectCDC_where_clause table timestamp_where_condition =
     (if where_sql table = [] \<and> timestamp_where_condition = [] then []
      else if where_sql table \<noteq> [] \<and> timestamp_where_condition = []
        then ''where\<newline>'' @ spaces 4 @ ''('' @ where_sql table @ '')''
      else if where_sql table = [] \<and> timestamp_where_condition \<noteq> []
        then ''where\<newline>'' @ spaces 4 @ timestamp_where_condition
      else ''where\<newline>'' @ spaces 4 @ ''('' @ where_sql table @ '') and\<newline>'' @ spaces 4 @
           timestamp_where_condition)"

definition SelectCDC_order_clause :: "table_object \<Rightarrow> string" where
  "SelectCDC_order_clause table =
     (if order_sql table \<noteq> []
      then ''order by '' @ str_join '', '' (add_aliases (split_py (order_sql table) '', '') ''s'')
      else [])"

definition SelectCDC_select ::
  "pyenv \<Rightarrow> 'row db_engine \<Rightarrow> table_object \<Rightarrow> int \<Rightarrow> datetime \<Rightarrow> datetime \<Rightarrow> error + string"
where
  "SelectCDC_select env db_engine table job current_timestamp last_timestamp =
     (case SelectCDC_timestamp_logic env db_engine table current_timestamp last_timestamp of
        Inl e \<Rightarrow> Inl e
      | Inr (timestamp_value, timestamp_where_condition) \<Rightarrow>
          (case expand [''schema_name'' \<mapsto> schema_name table,
                        ''table_name'' \<mapsto> table_name table,
                        ''column_names'' \<mapsto> SelectCDC_column_names table,
                        ''job_id'' \<mapsto> str_int job,
                        ''timestamp_value'' \<mapsto> timestamp_value,
                        ''join_clause'' \<mapsto> SelectCDC_join_clause table,
                        ''where_clause'' \<mapsto> SelectCDC_where_clause table timestamp_where_condition,
                        ''order_clause'' \<mapsto> SelectCDC_order_clause table]
                  (indent select_template) of
             Inl e \<Rightarrow> Inl e
           | Inr sql \<Rightarrow> Inr (delete_blank_lines (strip sql @ '';''))))"

subsection \<open>\<open>cdc_merge.MergeCDC\<close>\<close>

definition merge_template :: string where
  \<open>merge_template =
     ''\<newline>'' @
     [CHR 0x09] @ ''__ -- s:source, t:target\<newline>'' @
     [CHR 0x09] @ ''__ merge {schema_name}.{table_name} with (serializable) as t\<newline>'' @
     [CHR 0x09] @ ''_  using {schema_name}._{table_name} as s\<newline>'' @
     [CHR 0x09] @ ''_    on {match_condition}\<newline>'' @
     [CHR 0x09] @ ''_  when matched then\<newline>'' @
     [CHR 0x09] @ ''_    -- t.column1 = s.column1, ...\<newline>'' @
     [CHR 0x09] @ ''_    update set\<newline>'' @
     [CHR 0x09] @ ''__ {column_assignments}\<newline>'' @
     [CHR 0x09] @ ''_  when not matched by target then\<newline>'' @
     [CHR 0x09] @ ''_    insert\<newline>'' @
     [CHR 0x09] @ ''_      -- (column1, column2, ...)\<newline>'' @
     [CHR 0x09] @ ''_      ({column_names})\<newline>'' @
     [CHR 0x09] @ ''_      values\<newline>'' @
     [CHR 0x09] @ ''_      -- (s.column1, s.column2, ...)\<newline>'' @
     [CHR 0x09] @ ''_      ({source_column_names});\<newline>'' @
     [CHR 0x09]\<close>

text \<open>
  \<open>MergeCDC.__init__\<close> appends the names of the extended column definitions that the
  table's column list lacks. \<open>definition.split()[0]\<close> raises \<open>IndexError\<close> on a
  definition without a word.
\<close>

fun MergeCDC_init :: "table_object \<Rightarrow> string list \<Rightarrow> error + table_object" where
  "MergeCDC_init table [] = Inr table"
| "MergeCDC_init table (column_definition # extended_definitions) =
     (case split_ws column_definition of
        [] \<Rightarrow> Inl IndexError
      | column_name # attributes \<Rightarrow>
          MergeCDC_init
            (if column_name \<notin> set (column_names table)
             then table\<lparr>column_names := column_names table @ [column_name]\<rparr>
             else table)
            extended_definitions)"

definition MergeCDC_column_names :: "table_object \<Rightarrow> string" where
  "MergeCDC_column_names table = str_join '', '' (q_list (column_names table))"

definition MergeCDC_source_column_names :: "table_object \<Rightarrow> string" where
  "MergeCDC_source_column_names table = str_join '', '' (add_aliases (column_names table) ''s'')"

definition MergeCDC_column_assignments :: "table_object \<Rightarrow> string" where
  "MergeCDC_column_assignments table =
     str_join '',\<newline>''
       (map (\<lambda>column_name.
               let target_column_name = add_alias column_name ''t'';
                   source_column_name = add_alias column_name ''s''
               in spaces 6 @ target_column_name @ '' = '' @ source_column_name)
            (column_names table))"

definition MergeCDC_match_condition :: "string \<Rightarrow> string" where
  "MergeCDC_match_condition nk =
     str_join '' and ''
       (map (\<lambda>nk_column.
               let source_nk_column = add_alias nk_column ''s'';
                   target_nk_column = add_alias nk_column ''t''
               in target_nk_column @ ''='' @ source_nk_column)
            (split_py nk '', ''))"

definition MergeCDC_merge :: "table_object \<Rightarrow> string \<Rightarrow> string \<Rightarrow> error + string" where
  "MergeCDC_merge table schema nk =
     (case expand [''schema_name'' \<mapsto> schema,
                   ''nk'' \<mapsto> nk,
                   ''table_name'' \<mapsto> table_name table,
                   ''match_condition'' \<mapsto> MergeCDC_match_condition nk,
                   ''column_assignments'' \<mapsto> MergeCDC_column_assignments table,
                   ''column_names'' \<mapsto> MergeCDC_column_names table,
                   ''source_column_names'' \<mapsto> MergeCDC_source_column_names table]
             (indent merge_template) of
        Inl e \<Rightarrow> Inl e
      | Inr sql \<Rightarrow> Inr (delete_blank_lines (strip sql)))"

section \<open>\<open>capture.py\<close>\<close>

subsection \<open>The watermark store: \<open>TableHistory\<close> and \<open>JobHistory\<close>\<close>

record table_history =
  history_table_name :: string
  last_filehash :: "string option"
  last_rowhash :: "string option"
  last_rowversion :: "string option"
  last_sequence :: pyval
  last_timestamp :: "datetime option"

definition TableHistory :: "string \<Rightarrow> table_history" where
  "TableHistory name =
     \<lparr>history_table_name = name, last_filehash = None, last_rowhash = None,
      last_rowversion = None, last_sequence = PNone, last_timestamp = None\<rparr>"

text \<open>
  \<open>JobHistory\<close>: the job counter and the dictionary of table histories. The file
  \<open>capture.job\<close> of the state folder holds the pickled object, or does not exist.
\<close>

record job_history =
  file_name :: string
  job_id :: int
  tables :: "string \<rightharpoonup> table_history"

definition JobHistory :: "string \<Rightarrow> job_history" where
  "JobHistory name = \<lparr>file_name = name, job_id = 1, tables = Map.empty\<rparr>"

text \<open>
  \<open>get_table_history\<close> returns the history kept under the lower-case table name and
  creates it on first access. The caller changes the returned object in place, which
  changes the entry of the dictionary; in the model the caller stores the changed
  history back with \<open>put_table_history\<close>.
\<close>

definition get_table_history :: "job_history \<Rightarrow> string \<Rightarrow> table_history \<times> job_history" where
  "get_table_history self name =
     (let name = lower name
      in case tables self name of
           Some history \<Rightarrow> (history, self)
         | None \<Rightarrow> (TableHistory name, self\<lparr>tables := (tables self)(name \<mapsto> TableHistory name)\<rparr>))"

definition put_table_history :: "job_history \<Rightarrow> string \<Rightarrow> table_history \<Rightarrow> job_history" where
  "put_table_history self name history = self\<lparr>tables := (tables self)(lower name \<mapsto> history)\<rparr>"

definition JobHistory_load :: "job_history \<Rightarrow> job_history option \<Rightarrow> job_history" where
  "JobHistory_load self state_file =
     (case state_file of
        None \<Rightarrow> self\<lparr>job_id := 1, tables := Map.empty\<rparr>
      | Some obj \<Rightarrow> self\<lparr>job_id := job_id obj, tables := tables obj\<rparr>)"

text \<open>\<open>save\<close> returns the object as changed and the new content of the file.\<close>

definition JobHistory_save :: "job_history \<Rightarrow> bool \<Rightarrow> job_history \<times> job_history option" where
  "JobHistory_save self is_maintenance =
     (let self = (if \<not> is_maintenance then self\<lparr>job_id := job_id self + 1\<rparr> else self)
      in (self, Some self))"

subsection \<open>\<open>CaptureDaemon\<close>\<close>

text \<open>
  The files of the job's work folder, by their names inside the folder, in the order
  they were written.
\<close>

datatype 'row file_content =
    TableFile table_object
  | SchemaFile table_schema
  | TextFile string
  | RowsFile "'row list"

text \<open>
  The attributes of the daemon that \<open>process_table\<close> reads and changes. \<open>batch_size\<close>
  is \<open>self.project.batch_size\<close>. The metrics collector \<open>self.events\<close> (wall-clock times
  of the steps) and the progress messages are left out.
\<close>

record 'row capture_daemon =
  self_job_id :: int
  batch_size :: string
  work_files :: "(string \<times> 'row file_content) list"
  job_row_count :: nat
  job_data_size :: nat

definition current_timestamp_of :: "'row db_engine \<Rightarrow> error + datetime" where
  "current_timestamp_of db_engine =
     (case db_current_timestamp db_engine of
        Inl e \<Rightarrow> Inl e
      | Inr now \<Rightarrow>
          (let stepped_back = now - 60 * 1000000
           in Inr (stepped_back - stepped_back mod 1000000)))"

definition save_file :: "string \<Rightarrow> 'row file_content \<Rightarrow> 'row capture_daemon \<Rightarrow> 'row capture_daemon" where
  "save_file name content self = self\<lparr>work_files := work_files self @ [(name, content)]\<rparr>"

text \<open>Lines 194 to 199: the first timestamp of a table without a watermark.\<close>

definition init_last_timestamp ::
  "pyenv \<Rightarrow> table_object \<Rightarrow> table_history \<Rightarrow> error + table_object \<times> table_history"
where
  "init_last_timestamp env table history =
     (if last_timestamp history = None then
        (let table = (if first_timestamp table = []
                      then table\<lparr>first_timestamp := ''1900-01-01''\<rparr> else table)
         in case iso_to_datetime env (first_timestamp table) of
              Inl e \<Rightarrow> Inl e
            | Inr t \<Rightarrow> Inr (table, history\<lparr>last_timestamp := Some t\<rparr>))
      else Inr (table, history))"

text \<open>Lines 210 to 214.\<close>

definition init_last_sequence :: "table_object \<Rightarrow> table_history \<Rightarrow> table_object \<times> table_history" where
  "init_last_sequence table history =
     (if \<not> truthy (last_sequence history) then
        (let table = (if \<not> truthy (first_sequence table)
                      then table\<lparr>first_sequence := PInt 0\<rparr> else table)
         in (table, history\<lparr>last_sequence := first_sequence table\<rparr>))
      else (table, history))"

text \<open>
  Lines 237 to 249. \<open>is_glob_match(glob_pattern, text)\<close> of \<open>common.py\<close> is
  \<open>fnmatch(text.lower(), glob_pattern.lower())\<close>, and the loop calls it as
  \<open>is_glob_match(column_name, pattern)\<close>. A column is listed once for every pattern it
  matches; \<open>columns.pop\<close> of a name that is gone raises \<open>KeyError\<close>.
\<close>

definition is_glob_match :: "pyenv \<Rightarrow> string \<Rightarrow> string \<Rightarrow> bool" where
  "is_glob_match env glob_pattern text = fnmatch env (lower text) (lower glob_pattern)"

fun pop_columns :: "string list \<Rightarrow> (string \<times> column) list \<Rightarrow> error + (string \<times> column) list" where
  "pop_columns [] cols = Inr cols"
| "pop_columns (name # names) cols =
     (if name \<in> fst ` set cols then pop_columns names (filter (\<lambda>c. fst c \<noteq> name) cols)
      else Inl (KeyError name))"

definition remove_ignored_columns :: "pyenv \<Rightarrow> table_object \<Rightarrow> table_schema \<Rightarrow> error + table_schema" where
  "remove_ignored_columns env table schema =
     (if ignore_columns table \<noteq> [] then
        (let ignore =
               concat (map (\<lambda>column_name.
                              map (\<lambda>pattern. column_name)
                                (filter (\<lambda>pattern. is_glob_match env column_name pattern)
                                   (split_py (ignore_columns table) '', '')))
                           (map fst (columns schema)))
         in case pop_columns ignore (columns schema) of
              Inl e \<Rightarrow> Inl e
            | Inr cols \<Rightarrow> Inr (schema\<lparr>columns := cols\<rparr>))
      else Inr schema)"

text \<open>Lines 261 to 283: the CDC setting is normalised and cleared where it cannot be used.\<close>

definition normalize_cdc :: "table_object \<Rightarrow> string \<Rightarrow> table_object" where
  "normalize_cdc table pk_columns =
     (let table = table\<lparr>cdc := lower (cdc table)\<rparr>;
          table = (if cdc table = ''none'' then table\<lparr>cdc := []\<rparr> else table);
          table = (if cdc table \<noteq> [] \<and>
                      cdc table \<notin> {''filehash'', ''rowhash'', ''rowversion'', ''sequence'', ''timestamp''}
                   then table\<lparr>cdc := []\<rparr> else table);
          table = (if cdc table \<noteq> [] \<and> cdc table \<noteq> ''filehash'' \<and> pk_columns = []
                   then table\<lparr>cdc := []\<rparr> else table);
          table = (if cdc table = []
                   then table\<lparr>filehash := [], rowhash := [], rowversion := [],
                              sequence := [], timestamp := []\<rparr>
                   else table)
      in table)"

text \<open>
  Lines 304 to 329. The project's batch size is \<open>int(self.project.batch_size)\<close> when the
  configured text is not empty, 250,000 otherwise.
\<close>

definition batch_size_of :: "string \<Rightarrow> error + int" where
  "batch_size_of project_batch_size =
     (if project_batch_size \<noteq> []
      then (case py_int project_batch_size of None \<Rightarrow> Inl ValueError | Some b \<Rightarrow> Inr b)
      else Inr 250000)"

text \<open>
  The state of the \<open>while True\<close> loop that drains the cursor. The cursor is the list of
  rows not fetched yet; \<open>cursor.fetchmany(n)\<close> returns the next \<open>n\<close> of them (fewer at
  the end). \<open>written\<close> lists the batch files in the order \<open>save_jsonpickle\<close> wrote them:
  name inside the work folder and rows. The size in bytes of a written file is the
  parameter \<open>fsize\<close>. For a batch size below one the driver's answer is not modelled
  (the model fetches nothing); the theorems about batches assume a positive batch size.
\<close>

record 'row batch_state =
  cursor :: "'row list"
  batch_number :: nat
  row_count :: nat
  data_size :: nat
  written :: "(string \<times> 'row list) list"

definition fetchmany :: "int \<Rightarrow> 'row list \<Rightarrow> 'row list \<times> 'row list" where
  "fetchmany n rows = (take (nat n) rows, drop (nat n) rows)"

definition batch_file_name :: "string \<Rightarrow> nat \<Rightarrow> string" where
  "batch_file_name tname n = tname @ ''#'' @ fmt_zero 4 (int n) @ ''.json''"

function batch_loop ::
  "('row list \<Rightarrow> nat) \<Rightarrow> string \<Rightarrow> int \<Rightarrow> 'row batch_state \<Rightarrow> 'row batch_state"
where
  "batch_loop fsize tname bsize st =
     (let n = batch_number st + 1;
          rows = fst (fetchmany bsize (cursor st))
      in if rows = [] then st\<lparr>batch_number := n\<rparr>
         else batch_loop fsize tname bsize
                (st\<lparr>cursor := snd (fetchmany bsize (cursor st)),
                    batch_number := n,
                    row_count := row_count st + length rows,
                    data_size := data_size st + fsize rows,
                    written := written st @ [(batch_file_name tname n, rows)]\<rparr>))"
  by pat_completeness auto
termination
proof (relation "measure (\<lambda>(fsize, tname, bsize, st). length (cursor st))")
  show "wf (measure (\<lambda>(fsize :: 'row list \<Rightarrow> nat, tname :: string, bsize :: int,
                        st :: 'row batch_state). length (cursor st)))"
    by simp
next
  fix fsize :: "'row list \<Rightarrow> nat" and tname :: string
    and bsize :: int and st :: "'row batch_state" and n rows
  assume "rows = fst (fetchmany bsize (cursor st))" and "rows \<noteq> []"
  then have "0 < nat bsize" and "cursor st \<noteq> []"
    by (auto simp: fetchmany_def)
  then show "((fsize, tname, bsize,
               st\<lparr>cursor := snd (fetchmany bsize (cursor st)),
                  batch_number := n,
                  row_count := row_count st + length rows,
                  data_size := data_size st + fsize rows,
                  written := written st @ [(batch_file_name tname n, rows)]\<rparr>),
              (fsize, tname, bsize, st))
             \<in> measure (\<lambda>(fsize, tname, bsize, st). length (cursor st))"
    by (simp add: fetchmany_def)
qed

declare batch_loop.simps [simp del]

definition batch_init :: "'row list \<Rightarrow> 'row batch_state" where
  "batch_init rows =
     \<lparr>cursor = rows, batch_number = 0, row_count = 0, data_size = 0, written = []\<rparr>"

text \<open>
  \<open>process_table\<close> from line 216 on, for a table that is not skipped: the table, schema,
  key and SQL artifacts are written, the statement is run and its rows are written in
  batches, and only then the watermarks of the table's history are set. The function
  returns the table object and the history as it leaves them and the daemon's state.
  The table of the source that does not exist ends the function after the table
  artifact was written, with a log message only.
\<close>

definition extract_table ::
  "pyenv \<Rightarrow> 'row db_engine \<Rightarrow> ('row list \<Rightarrow> nat) \<Rightarrow> 'row capture_daemon \<Rightarrow> string \<Rightarrow> string \<Rightarrow>
   table_object \<Rightarrow> table_history \<Rightarrow> datetime \<Rightarrow> int \<Rightarrow> datetime \<Rightarrow>
   error + table_object \<times> table_history \<times> 'row capture_daemon"
where
  "extract_table env db_engine fsize self schema tname table history snapshot current_seq last_ts =
     (let self = save_file (tname @ ''.table'') (TableFile table) self
      in case select_table_schema db_engine schema tname of
           Inl e \<Rightarrow> Inl e
         | Inr None \<Rightarrow> Inr (table, history, self)
         | Inr (Some discovered) \<Rightarrow>
             (case remove_ignored_columns env table discovered of
                Inl e \<Rightarrow> Inl e
              | Inr tschema \<Rightarrow>
                  (let self = save_file (tname @ ''.schema'') (SchemaFile tschema) self
                   in case select_table_pk db_engine schema tname of
                        Inl e \<Rightarrow> Inl e
                      | Inr discovered_pk \<Rightarrow>
                          (let pk_columns = (if discovered_pk = [] \<and> primary_key table \<noteq> []
                                             then primary_key table else discovered_pk);
                               self = save_file (tname @ ''.pk'') (TextFile pk_columns) self;
                               table = normalize_cdc table pk_columns;
                               table = table\<lparr>schema_name := schema, table_name := tname,
                                             column_names := map fst (columns tschema)\<rparr>
                           in case SelectCDC_select env db_engine table (self_job_id self) snapshot last_ts of
                                Inl e \<Rightarrow> Inl e
                              | Inr sql \<Rightarrow>
                                  (let self = save_file (tname @ ''.sql'') (TextFile sql) self
                                   in case cursor_execute db_engine sql of
                                        Inl e \<Rightarrow> Inl e
                                      | Inr rows \<Rightarrow>
                                          (case batch_size_of (batch_size self) of
                                             Inl e \<Rightarrow> Inl e
                                           | Inr bsize \<Rightarrow>
                                               (let st = batch_loop fsize tname bsize (batch_init rows);
                                                    self = self\<lparr>work_files := work_files self @
                                                             map (\<lambda>(name, batch). (name, RowsFile batch)) (written st)\<rparr>;
                                                    history = history\<lparr>last_timestamp := Some snapshot,
                                                                       last_sequence := PInt current_seq\<rparr>;
                                                    self = self\<lparr>job_row_count := job_row_count self + row_count st,
                                                                 job_data_size := job_data_size self + data_size st\<rparr>
                                                in Inr (table, history, self))))))))"

text \<open>
  \<open>process_table\<close>: the skip rules, the defaults of a history without watermarks, and
  the extraction. A history whose \<open>last_timestamp\<close> is still \<open>None\<close> after line 199
  cannot occur; the comparison of line 202 would raise \<open>TypeError\<close>.
\<close>

definition CaptureDaemon_process_table ::
  "pyenv \<Rightarrow> 'row db_engine \<Rightarrow> ('row list \<Rightarrow> nat) \<Rightarrow> 'row capture_daemon \<Rightarrow> string \<Rightarrow> string \<Rightarrow>
   table_object \<Rightarrow> table_history \<Rightarrow> datetime \<Rightarrow> int \<Rightarrow>
   error + table_object \<times> table_history \<times> 'row capture_daemon"
where
  "CaptureDaemon_process_table env db_engine fsize self schema tname table history snapshot current_seq =
     (if tname = ''default'' then Inr (table, history, self)
      else if ignore_table table \<noteq> [] then Inr (table, history, self)
      else if drop_table table \<noteq> [] then Inr (table, history, self)
      else
        (case init_last_timestamp env table history of
           Inl e \<Rightarrow> Inl e
         | Inr (table, history) \<Rightarrow>
             (case last_timestamp history of
                None \<Rightarrow> Inl TypeError
              | Some last_ts \<Rightarrow>
                  if last_ts > snapshot then Inr (table, history, self)
                  else
                    (case init_last_sequence table history of
                       (table, history) \<Rightarrow>
                         extract_table env db_engine fsize self schema tname table history
                           snapshot current_seq last_ts))))"

section \<open>\<open>blobstore.py\<close>: the blob store emulated on local storage\<close>

text \<open>
  A resource section of the configuration names a container of a storage account.
\<close>

record resource =
  tenant_id :: string
  subscription_id :: string
  account_name :: string
  container_name :: string

text \<open>
  The \<open>BlobStore\<close> object. It is connected while \<open>resource\<close> is not \<open>None\<close>; the other
  attributes are copies of the resource's (prefix \<open>bs_\<close>), emptied by \<open>disconnect\<close>.
\<close>

record blobstore =
  resource :: "resource option"
  bs_tenant_id :: string
  bs_subscription_id :: string
  bs_account_name :: string
  bs_container_name :: string
  resource_name :: string

text \<open>
  The storage the stores and the daemons share. A container is the folder
  \<open><cloud folder>/<account>/<container>\<close>: \<open>None\<close> when the folder does not exist,
  otherwise its blobs by name. \<open>local_files\<close> are the files of the daemon's own folders,
  by path. \<open>error_log\<close> holds the records logged at level \<open>error\<close>; records of lower
  levels are not modelled. Copying and deleting files is taken to succeed.
\<close>

record 'blob storage =
  containers :: "string \<times> string \<Rightarrow> (string \<rightharpoonup> 'blob) option"
  local_files :: "string \<rightharpoonup> 'blob"
  error_log :: "string list"

definition BlobStore :: blobstore where
  "BlobStore =
     \<lparr>resource = None, bs_tenant_id = [], bs_subscription_id = [], bs_account_name = [],
      bs_container_name = [], resource_name = []\<rparr>"

definition load_resource :: "blobstore \<Rightarrow> resource \<Rightarrow> blobstore" where
  "load_resource self res =
     self\<lparr>resource := Some res,
          bs_tenant_id := tenant_id res,
          bs_subscription_id := subscription_id res,
          bs_account_name := account_name res,
          bs_container_name := container_name res,
          resource_name := account_name res @ '':'' @ container_name res\<rparr>"

definition blob_folder :: "blobstore \<Rightarrow> string \<times> string" where
  "blob_folder self = (bs_account_name self, bs_container_name self)"

definition BlobStore_disconnect :: "blobstore \<Rightarrow> bool \<times> blobstore" where
  "BlobStore_disconnect self =
     (True, self\<lparr>resource := None, bs_tenant_id := [], bs_subscription_id := [],
                 bs_account_name := [], bs_container_name := [], resource_name := []\<rparr>)"

definition BlobStore_connect :: "blobstore \<Rightarrow> resource \<Rightarrow> 'blob storage \<Rightarrow> bool \<times> blobstore" where
  "BlobStore_connect self res world =
     (let self = load_resource self res;
          self = (if containers world (blob_folder self) \<noteq> None then self
                  else snd (BlobStore_disconnect self))
      in (resource self \<noteq> None, self))"

text \<open>
  The decorator \<open>ensure_connected\<close>: the wrapped method runs when the store has a
  resource; otherwise the message is logged at level \<open>error\<close> and \<open>ConnectionError\<close> is
  raised. \<open>method\<close> is the wrapped method's name.
\<close>

definition ensure_connected ::
  "string \<Rightarrow> (blobstore \<Rightarrow> 'blob storage \<Rightarrow> 'a \<times> 'blob storage) \<Rightarrow>
   blobstore \<Rightarrow> 'blob storage \<Rightarrow> (error + 'a) \<times> 'blob storage"
where
  "ensure_connected method func self world =
     (if resource self \<noteq> None then (case func self world of (r, world) \<Rightarrow> (Inr r, world))
      else
        (let method_name = ''BlobStore.'' @ method @ ''()'';
             error_message = ''Resource not connected ('' @ resource_name self @ ''): '' @ method_name
         in (Inl (ConnectionError error_message),
             world\<lparr>error_log := error_log world @ [error_message]\<rparr>)))"

definition get_body :: "string \<Rightarrow> string \<Rightarrow> blobstore \<Rightarrow> 'blob storage \<Rightarrow> bool \<times> 'blob storage" where
  "get_body target_file_name blob_name self world =
     (case containers world (blob_folder self) of
        None \<Rightarrow> (False, world)
      | Some blobs \<Rightarrow>
          (case blobs blob_name of
             None \<Rightarrow> (False, world)
           | Some content \<Rightarrow>
               (True, world\<lparr>local_files := (local_files world)(target_file_name \<mapsto> content)\<rparr>)))"

definition BlobStore_get ::
  "blobstore \<Rightarrow> string \<Rightarrow> string \<Rightarrow> 'blob storage \<Rightarrow> (error + bool) \<times> 'blob storage" where
  "BlobStore_get self target_file_name blob_name world =
     ensure_connected ''get'' (get_body target_file_name blob_name) self world"

text \<open>\<open>put\<close> creates the blob's folder when it is missing, so also a missing container.\<close>

definition put_body :: "string \<Rightarrow> string \<Rightarrow> blobstore \<Rightarrow> 'blob storage \<Rightarrow> bool \<times> 'blob storage" where
  "put_body source_file_name blob_name self world =
     (case local_files world source_file_name of
        None \<Rightarrow> (False, world)
      | Some content \<Rightarrow>
          (let blobs = (case containers world (blob_folder self) of
                          None \<Rightarrow> Map.empty | Some blobs \<Rightarrow> blobs)
           in (True, world\<lparr>containers :=
                               (containers world)(blob_folder self := Some (blobs(blob_name \<mapsto> content)))\<rparr>)))"

definition BlobStore_put ::
  "blobstore \<Rightarrow> string \<Rightarrow> string \<Rightarrow> 'blob storage \<Rightarrow> (error + bool) \<times> 'blob storage" where
  "BlobStore_put self source_file_name blob_name world =
     ensure_connected ''put'' (put_body source_file_name blob_name) self world"

definition delete_body :: "string \<Rightarrow> blobstore \<Rightarrow> 'blob storage \<Rightarrow> bool \<times> 'blob storage" where
  "delete_body blob_name self world =
     (case containers world (blob_folder self) of
        None \<Rightarrow> (False, world)
      | Some blobs \<Rightarrow>
          (case blobs blob_name of
             None \<Rightarrow> (False, world)
           | Some content \<Rightarrow>
               (True, world\<lparr>containers :=
                               (containers world)(blob_folder self := Some (blobs(blob_name := None)))\<rparr>)))"

definition BlobStore_delete ::
  "blobstore \<Rightarrow> string \<Rightarrow> 'blob storage \<Rightarrow> (error + bool) \<times> 'blob storage" where
  "BlobStore_delete self blob_name world =
     ensure_connected ''delete'' (delete_body blob_name) self world"

text \<open>
  \<open>list\<close> answers with the sorted names that \<open>glob.glob\<close> finds for the pattern in the
  container's folder; the file system's answer is the parameter \<open>glob\<close>. The method
  changes nothing.
\<close>

definition list_body ::
  "((string \<rightharpoonup> 'blob) option \<Rightarrow> string \<Rightarrow> string list) \<Rightarrow> string \<Rightarrow>
   blobstore \<Rightarrow> 'blob storage \<Rightarrow> string list \<times> 'blob storage"
where
  "list_body glob glob_pattern self world = (glob (containers world (blob_folder self)) glob_pattern, world)"

definition BlobStore_list ::
  "((string \<rightharpoonup> 'blob) option \<Rightarrow> string \<Rightarrow> string list) \<Rightarrow>
   blobstore \<Rightarrow> string \<Rightarrow> 'blob storage \<Rightarrow> (error + string list) \<times> 'blob storage"
where
  "BlobStore_list glob self glob_pattern world =
     ensure_connected ''list'' (list_body glob glob_pattern) self world"

definition clear_body :: "blobstore \<Rightarrow> 'blob storage \<Rightarrow> bool \<times> 'blob storage" where
  "clear_body self world =
     (True, world\<lparr>containers := (containers world)(blob_folder self := Some Map.empty)\<rparr>)"

definition BlobStore_clear :: "blobstore \<Rightarrow> 'blob storage \<Rightarrow> (error + bool) \<times> 'blob storage" where
  "BlobStore_clear self world = ensure_connected ''clear'' clear_body self world"

subsection \<open>\<open>CaptureDaemon.main\<close>\<close>

text \<open>
  What a capture job stores: the zipped work folder (the package) and the zipped state
  folder (the recovery file).
\<close>

datatype 'row capture_blob =
    CaptureZip "(string \<times> 'row file_content) list"
  | RecoveryZip "job_history option"

text \<open>
  The world of a capture job: the storage and the file \<open>capture.job\<close> of the state
  folder, which holds the pickled \<open>JobHistory\<close> or does not exist.
\<close>

record 'row capture_world =
  store :: "'row capture_blob storage"
  state_file :: "job_history option"

text \<open>
  The configuration and the collaborators of one run: the dataset, the source database
  (\<open>db_connect\<close> is the exception that opening the connection raises, if any), the
  project's options, the \<open>[table:*]\<close> sections in the order of the project file, and
  the daemon's folders.
\<close>

record 'row capture_config =
  dataset :: string
  platform :: string
  source_schema :: string
  db_connect :: "error option"
  db :: "'row db_engine"
  project_batch_size :: string
  notransfer :: bool
  blobstore_landing :: resource
  blobstore_recovery :: resource
  table_sections :: "(string \<times> table_object) list"
  state_folder :: string
  publish_folder :: string

text \<open>The loop over the tables (lines 462 to 471).\<close>

fun process_tables ::
  "pyenv \<Rightarrow> 'row db_engine \<Rightarrow> ('row list \<Rightarrow> nat) \<Rightarrow> string \<Rightarrow> datetime \<Rightarrow>
   (string \<times> table_object) list \<Rightarrow> job_history \<Rightarrow> 'row capture_daemon \<Rightarrow>
   error + job_history \<times> 'row capture_daemon"
where
  "process_tables env db_engine fsize schema snapshot [] history self = Inr (history, self)"
| "process_tables env db_engine fsize schema snapshot ((tname, table) # rest) history self =
     (case get_table_history history tname of
        (table_hist, history) \<Rightarrow>
          (case (if cdc table = ''sequence'' then current_sequence db_engine tname else Inr 0) of
             Inl e \<Rightarrow> Inl e
           | Inr current_seq \<Rightarrow>
               (case CaptureDaemon_process_table env db_engine fsize self schema tname table
                       table_hist snapshot current_seq of
                  Inl e \<Rightarrow> Inl e
                | Inr (table, table_hist, self) \<Rightarrow>
                    process_tables env db_engine fsize schema snapshot rest
                      (put_table_history history tname table_hist) self)))"

text \<open>
  \<open>compress_work_folder\<close>: the work folder is zipped to
  \<open><publish folder>/<dataset>#<job id, nine digits>.zip\<close>.
\<close>

definition capture_file_name :: "string \<Rightarrow> int \<Rightarrow> string" where
  "capture_file_name dataset_name job = dataset_name @ ''#'' @ fmt_zero 9 job"

definition compress_work_folder ::
  "'row capture_config \<Rightarrow> 'row capture_daemon \<Rightarrow> 'row capture_world \<Rightarrow> string \<times> 'row capture_world"
where
  "compress_work_folder config self world =
     (let zip_file_name = publish_folder config @ ''/'' @
                          capture_file_name (dataset config) (self_job_id self) @ ''.zip''
      in (zip_file_name,
          world\<lparr>store := (store world)\<lparr>local_files :=
                    (local_files (store world))(zip_file_name \<mapsto> CaptureZip (work_files self))\<rparr>\<rparr>))"

text \<open>\<open>upload_to_blobstore\<close>: nothing in \<open>--notransfer\<close> mode.\<close>

definition upload_to_blobstore ::
  "'row capture_config \<Rightarrow> string \<Rightarrow> 'row capture_world \<Rightarrow> (error + unit) \<times> 'row capture_world"
where
  "upload_to_blobstore config zip_file_name world =
     (if notransfer config then (Inr (), world)
      else
        (case BlobStore_connect BlobStore (blobstore_landing config) (store world) of
           (is_connected, bs_landing) \<Rightarrow>
             (case BlobStore_put bs_landing zip_file_name (just_file_name zip_file_name) (store world) of
                (Inl e, s) \<Rightarrow> (Inl e, world\<lparr>store := s\<rparr>)
              | (Inr uploaded, s) \<Rightarrow> (Inr (), world\<lparr>store := s\<rparr>))))"

text \<open>
  \<open>save_recovery_state_file\<close>: the state folder is zipped to
  \<open><publish folder>/<dataset>.zip\<close> and put into the recovery store as
  \<open>capture/<dataset>.zip\<close>; nothing in \<open>--notransfer\<close> mode.
\<close>

definition save_recovery_state_file ::
  "'row capture_config \<Rightarrow> 'row capture_world \<Rightarrow> (error + unit) \<times> 'row capture_world"
where
  "save_recovery_state_file config world =
     (if notransfer config then (Inr (), world)
      else
        (let recovery_file_name = publish_folder config @ ''/'' @ dataset config @ ''.zip'';
             world = world\<lparr>store := (store world)\<lparr>local_files :=
                       (local_files (store world))(recovery_file_name \<mapsto> RecoveryZip (state_file world))\<rparr>\<rparr>;
             recovery_blob_name = ''capture/'' @ dataset config @ ''.zip''
         in case BlobStore_connect BlobStore (blobstore_recovery config) (store world) of
              (is_connected, bs_recovery) \<Rightarrow>
                (case BlobStore_put bs_recovery recovery_file_name recovery_blob_name (store world) of
                   (Inl e, s) \<Rightarrow> (Inl e, world\<lparr>store := s\<rparr>)
                 | (Inr uploaded, s) \<Rightarrow> (Inr (), world\<lparr>store := s\<rparr>))))"

text \<open>
  The job up to the upload (lines 409 to 487 of \<open>main\<close>): the history is loaded, the
  job's folders are cleared, the snapshot time is taken, every table is processed, the
  work folder is zipped and the package is uploaded. The result is the history as the
  tables left it, in memory only.
\<close>

definition clear_folder :: "string \<Rightarrow> 'blob storage \<Rightarrow> 'blob storage" where
  "clear_folder path_name s =
     s\<lparr>local_files := (\<lambda>p. if startswith p (path_name @ ''/'') then None else local_files s p)\<rparr>"

definition capture_job ::
  "pyenv \<Rightarrow> ('row list \<Rightarrow> nat) \<Rightarrow> 'row capture_config \<Rightarrow> 'row capture_world \<Rightarrow>
   (error + job_history) \<times> 'row capture_world"
where
  "capture_job env fsize config world =
     (let job_history = JobHistory_load (JobHistory (state_folder config @ ''/capture.job'')) (state_file world);
          self = \<lparr>self_job_id = job_id job_history, batch_size = project_batch_size config,
                  work_files = [], job_row_count = 0, job_data_size = 0\<rparr>;
          world = world\<lparr>store := clear_folder (publish_folder config) (store world)\<rparr>
      in if platform config \<noteq> ''postgresql'' \<and> platform config \<noteq> ''mssql''
         then (Inl (NotImplementedError (''Unknown database platform ('' @ platform config @ '')'')), world)
         else
           (case db_connect config of
              Some e \<Rightarrow> (Inl e, world)
            | None \<Rightarrow>
                (case current_timestamp_of (db config) of
                   Inl e \<Rightarrow> (Inl e, world)
                 | Inr snapshot \<Rightarrow>
                     (case process_tables env (db config) fsize (source_schema config) snapshot
                             (table_sections config) job_history self of
                        Inl e \<Rightarrow> (Inl e, world)
                      | Inr (job_history, self) \<Rightarrow>
                          (case compress_work_folder config self world of
                             (zip_file_name, world) \<Rightarrow>
                               (case upload_to_blobstore config zip_file_name world of
                                  (Inl e, world) \<Rightarrow> (Inl e, world)
                                | (Inr u, world) \<Rightarrow> (Inr job_history, world)))))))"

text \<open>
  \<open>main\<close>: the job, then the watermark advance (\<open>job_history.save()\<close>, skipped in
  \<open>--notransfer\<close> mode), then the recovery file. An exception is logged at level
  \<open>error\<close> and raised again.
\<close>

definition log_exception :: "'row capture_world \<Rightarrow> 'row capture_world" where
  "log_exception world =
     world\<lparr>store := (store world)\<lparr>error_log := error_log (store world) @ [''Unexpected exception'']\<rparr>\<rparr>"

definition CaptureDaemon_main ::
  "pyenv \<Rightarrow> ('row list \<Rightarrow> nat) \<Rightarrow> 'row capture_config \<Rightarrow> 'row capture_world \<Rightarrow>
   (error + unit) \<times> 'row capture_world"
where
  "CaptureDaemon_main env fsize config world =
     (case capture_job env fsize config world of
        (Inl e, world) \<Rightarrow> (Inl e, log_exception world)
      | (Inr job_history, world) \<Rightarrow>
          (let world = (if \<not> notransfer config
                        then world\<lparr>state_file := snd (JobHistory_save job_history False)\<rparr>
                        else world)
           in case save_recovery_state_file config world of
                (Inl e, world) \<Rightarrow> (Inl e, log_exception world)
              | (Inr u, world) \<Rightarrow> (Inr (), world)))"

section \<open>The target database of \<open>archive.py\<close> and \<open>stage.py\<close>\<close>

text \<open>
  A row of the job metrics log (\<open>event.Events.save\<close>); of its columns the model keeps
  the stage, the name and the two counters.
\<close>

record stat_row =
  event_stage :: string
  event_name :: string
  stat_row_count :: nat
  stat_data_size :: nat

text \<open>
  The statements \<open>database.Database\<close> sends to the target database, in the order they
  were executed. A method that finds nothing to do (a table to drop that does not exist,
  a table to create that exists) executes no statement.
\<close>

datatype 'row db_call =
    CreateSchema string
  | DropTable string string
  | CreateTable string string table_schema
  | BulkInsert string string table_schema "'row list"
  | Execute string

text \<open>
  The target database \<open>udp_stage\<close>: the schemas and tables that exist, the statements
  executed so far, and the rows of the system tables \<open>stat_log\<close>,
  \<open>stage_arrival_queue\<close> (\<open>archive_file_name\<close>, \<open>job_id\<close>) and \<open>stage_pending_queue\<close>
  (\<open>archive_file_name\<close>) in the order of their insertion.
\<close>

record 'row target_db =
  existing_schemas :: "string set"
  existing_tables :: "(string \<times> string) set"
  db_calls :: "'row db_call list"
  stat_log :: "stat_row list"
  stage_arrival_queue :: "(string \<times> int) list"
  stage_pending_queue :: "string list"

definition does_table_exist :: "'row target_db \<Rightarrow> string \<Rightarrow> string \<Rightarrow> bool" where
  "does_table_exist conn schema tname = ((schema, tname) \<in> existing_tables conn)"

definition create_schema :: "'row target_db \<Rightarrow> string \<Rightarrow> 'row target_db" where
  "create_schema conn schema =
     (if schema \<notin> existing_schemas conn
      then conn\<lparr>existing_schemas := insert schema (existing_schemas conn),
                db_calls := db_calls conn @ [CreateSchema schema]\<rparr>
      else conn)"

definition db_drop_table :: "'row target_db \<Rightarrow> string \<Rightarrow> string \<Rightarrow> 'row target_db" where
  "db_drop_table conn schema tname =
     (if does_table_exist conn schema tname
      then conn\<lparr>existing_tables := existing_tables conn - {(schema, tname)},
                db_calls := db_calls conn @ [DropTable schema tname]\<rparr>
      else conn)"

text \<open>
  \<open>TableSchema.add_definition\<close>: an extended definition is \<open><name> <type> [<length>]\<close>;
  the column replaces one of the same name or is appended.
\<close>

definition Column :: column where
  "Column = \<lparr>data_type = [], is_nullable = ''YES'', character_maximum_length = None,
             numeric_precision = None, numeric_scale = None, datetime_precision = None\<rparr>"

definition set_column :: "string \<Rightarrow> column \<Rightarrow> (string \<times> column) list \<Rightarrow> (string \<times> column) list" where
  "set_column name col cols =
     (if name \<in> fst ` set cols then map (\<lambda>(n, c). if n = name then (n, col) else (n, c)) cols
      else cols @ [(name, col)])"

definition add_definition :: "table_schema \<Rightarrow> string \<Rightarrow> error + table_schema" where
  "add_definition schema definition =
     (case split_ws definition of
        name # dtype # attributes \<Rightarrow>
          (case (case attributes of
                   [] \<Rightarrow> Inr None
                 | len # others \<Rightarrow> (case py_int len of None \<Rightarrow> Inl ValueError | Some n \<Rightarrow> Inr (Some n))) of
             Inl e \<Rightarrow> Inl e
           | Inr maxlen \<Rightarrow>
               Inr (schema\<lparr>columns :=
                      set_column name (Column\<lparr>data_type := dtype, character_maximum_length := maxlen\<rparr>)
                        (columns schema)\<rparr>))
      | _ \<Rightarrow> Inl IndexError)"

fun add_definitions :: "table_schema \<Rightarrow> string list \<Rightarrow> error + table_schema" where
  "add_definitions schema [] = Inr schema"
| "add_definitions schema (definition # definitions) =
     (case add_definition schema definition of
        Inl e \<Rightarrow> Inl e
      | Inr schema \<Rightarrow> add_definitions schema definitions)"

text \<open>
  \<open>create_table_from_table_schema\<close>: when the table does not exist, the extended
  definitions are added to the schema (\<open>column_definitions\<close>) and the table is created.
\<close>

definition create_table_from_table_schema ::
  "'row target_db \<Rightarrow> string \<Rightarrow> string \<Rightarrow> table_schema \<Rightarrow> string list \<Rightarrow> error + 'row target_db \<times> table_schema"
where
  "create_table_from_table_schema conn schema tname tschema extended_definitions =
     (if \<not> does_table_exist conn schema tname then
        (case add_definitions tschema extended_definitions of
           Inl e \<Rightarrow> Inl e
         | Inr tschema \<Rightarrow>
             Inr (conn\<lparr>existing_tables := insert (schema, tname) (existing_tables conn),
                       db_calls := db_calls conn @ [CreateTable schema tname tschema]\<rparr>,
                  tschema))
      else Inr (conn, tschema))"

definition bulk_insert_into_table ::
  "'row target_db \<Rightarrow> string \<Rightarrow> string \<Rightarrow> table_schema \<Rightarrow> 'row list \<Rightarrow> 'row target_db" where
  "bulk_insert_into_table conn schema tname tschema rows =
     conn\<lparr>db_calls := db_calls conn @ [BulkInsert schema tname tschema rows]\<rparr>"

definition cursor_execute_target :: "'row target_db \<Rightarrow> string \<Rightarrow> 'row target_db" where
  "cursor_execute_target conn sql_command = conn\<lparr>db_calls := db_calls conn @ [Execute sql_command]\<rparr>"

section \<open>\<open>archive.py\<close>\<close>

text \<open>
  A package as the archive and stage daemons read it: the metrics logs \<open>job.log\<close> and
  \<open>last_job.log\<close> (\<open>None\<close> when the file is missing or empty), and the artifacts of the
  tables. The artifacts stand in the order of \<open>sorted(glob('*.table'))\<close>; each holds the
  table object of \<open><name>.table\<close>, the schema of \<open><name>.schema\<close> (\<open>None\<close> when the
  file is missing), the text of \<open><name>.pk\<close> (\<open>None\<close> when the file is missing) and the
  rows of the batch files \<open><name>#*.json\<close> in the order of their sorted names.
\<close>

record 'row table_artifact =
  artifact_name :: string
  artifact_table :: table_object
  artifact_schema :: "table_schema option"
  artifact_pk :: "string option"
  artifact_batches :: "'row list list"

record 'row package =
  job_log :: "stat_row list option"
  last_job_log :: "stat_row list option"
  artifacts :: "'row table_artifact list"

text \<open>The world of the archive and stage daemons: the storage and the target database.\<close>

record 'row stage_world =
  blobs :: "'row package storage"
  target_db_conn :: "'row target_db"

record daemon_config =
  work_folder :: string
  landing_resource :: resource
  archive_resource :: resource

text \<open>
  \<open>insert_into_table\<close> on the two system tables the archive daemon writes.
\<close>

definition insert_into_stat_log :: "'row target_db \<Rightarrow> stat_row \<Rightarrow> 'row target_db" where
  "insert_into_stat_log conn row = conn\<lparr>stat_log := stat_log conn @ [row]\<rparr>"

definition insert_into_stage_arrival_queue :: "'row target_db \<Rightarrow> string \<Rightarrow> int \<Rightarrow> 'row target_db" where
  "insert_into_stage_arrival_queue conn name job =
     conn\<lparr>stage_arrival_queue := stage_arrival_queue conn @ [(name, job)]\<rparr>"

text \<open>
  \<open>update_stat_log\<close>: \<open>read_archived_file\<close> opens the local zip file, which raises
  \<open>FileNotFoundError\<close> when the file does not exist.
\<close>

definition update_stat_log :: "string \<Rightarrow> 'row stage_world \<Rightarrow> error + 'row stage_world" where
  "update_stat_log local_name world =
     (case local_files (blobs world) local_name of
        None \<Rightarrow> Inl FileNotFoundError
      | Some pkg \<Rightarrow>
          (let conn = target_db_conn world;
               conn = (case job_log pkg of
                         None \<Rightarrow> conn
                       | Some rows \<Rightarrow>
                           fold (\<lambda>row conn. if event_stage row \<noteq> ''capture''
                                            then insert_into_stat_log conn row else conn) rows conn);
               conn = (case last_job_log pkg of
                         None \<Rightarrow> conn
                       | Some rows \<Rightarrow>
                           fold (\<lambda>row conn. if event_stage row \<in> {''capture'', ''compress'', ''upload''}
                                            then insert_into_stat_log conn row else conn) rows conn)
           in Inr (world\<lparr>target_db_conn := conn\<rparr>)))"

text \<open>
  \<open>update_stage_arrival_queue\<close>: the job id is
  \<open>int(just_file_stem(capture_file_name).split('#')[1])\<close>.
\<close>

definition update_stage_arrival_queue :: "string \<Rightarrow> 'row stage_world \<Rightarrow> error + 'row stage_world" where
  "update_stage_arrival_queue name world =
     (case split_char (CHR ''#'') (just_file_stem name) of
        dataset_part # job_part # others \<Rightarrow>
          (case py_int job_part of
             None \<Rightarrow> Inl ValueError
           | Some job \<Rightarrow>
               Inr (world\<lparr>target_db_conn :=
                      insert_into_stage_arrival_queue (target_db_conn world) name job\<rparr>))
      | _ \<Rightarrow> Inl IndexError)"

text \<open>
  \<open>archive_capture_file\<close>: the package is copied from landing to the work folder, its
  metrics are posted, it is copied to the archive store as \<open><dataset>/<name>\<close>, deleted
  from landing and registered in the arrival queue. The answers of \<open>get\<close>, \<open>put\<close> and
  \<open>delete\<close> are not looked at; an exception ends the method where it is raised.
\<close>

definition ArchiveDaemon_archive_capture_file ::
  "daemon_config \<Rightarrow> string \<Rightarrow> 'row stage_world \<Rightarrow> (error + unit) \<times> 'row stage_world"
where
  "ArchiveDaemon_archive_capture_file config name world =
     (let world = world\<lparr>blobs := clear_folder (work_folder config) (blobs world)\<rparr>;
          bs_landing = snd (BlobStore_connect BlobStore (landing_resource config) (blobs world));
          local_capture_file_name = work_folder config @ ''/'' @ name
      in case BlobStore_get bs_landing local_capture_file_name name (blobs world) of
           (Inl e, s) \<Rightarrow> (Inl e, world\<lparr>blobs := s\<rparr>)
         | (Inr got, s) \<Rightarrow>
             (let world = world\<lparr>blobs := s\<rparr>
              in case update_stat_log local_capture_file_name world of
                   Inl e \<Rightarrow> (Inl e, world)
                 | Inr world \<Rightarrow>
                     (let bs_archive = snd (BlobStore_connect BlobStore (archive_resource config) (blobs world));
                          dataset_name = (case split_char (CHR ''#'') name of [] \<Rightarrow> [] | part # parts \<Rightarrow> part);
                          archive_capture_file_name = dataset_name @ ''/'' @ name
                      in case BlobStore_put bs_archive local_capture_file_name archive_capture_file_name
                                (blobs world) of
                           (Inl e, s) \<Rightarrow> (Inl e, world\<lparr>blobs := s\<rparr>)
                         | (Inr put, s) \<Rightarrow>
                             (let world = world\<lparr>blobs := s\<rparr>
                              in case BlobStore_delete bs_landing name (blobs world) of
                                   (Inl e, s) \<Rightarrow> (Inl e, world\<lparr>blobs := s\<rparr>)
                                 | (Inr deleted, s) \<Rightarrow>
                                     (let world = world\<lparr>blobs := s\<rparr>
                                      in case update_stage_arrival_queue name world of
                                           Inl e \<Rightarrow> (Inl e, world)
                                         | Inr world \<Rightarrow> (Inr (), world))))))"

section \<open>\<open>stage.py\<close>\<close>

text \<open>
  \<open>convert_to_mssql\<close>: the extended definitions are added as columns (name and type
  only), then every column's type is translated to the target platform.
\<close>

definition convert_column :: "column \<Rightarrow> column" where
  "convert_column col =
     (let dtype = lower (data_type col)
      in if dtype = ''array'' then col\<lparr>data_type := ''nvarchar'', character_maximum_length := Some 512\<rparr>
         else if dtype = ''bigint'' then col\<lparr>data_type := ''bigint''\<rparr>
         else if dtype = ''boolean'' then col\<lparr>data_type := ''tinyint''\<rparr>
         else if dtype = ''character varying''
           then col\<lparr>data_type := ''nvarchar'', character_maximum_length := Some 768\<rparr>
         else if dtype = ''date'' then col\<lparr>data_type := ''date''\<rparr>
         else if dtype = ''datetime'' then col\<lparr>data_type := ''datetime2''\<rparr>
         else if dtype = ''integer'' then col\<lparr>data_type := ''int''\<rparr>
         else if dtype = ''jsonb'' then col\<lparr>data_type := ''nvarchar'', character_maximum_length := Some (- 1)\<rparr>
         else if dtype \<in> {''money'', ''smallmoney''}
           then col\<lparr>data_type := ''decimal'', numeric_precision := Some 18, numeric_scale := Some 4\<rparr>
         else if dtype = ''text'' then col\<lparr>data_type := ''nvarchar'', character_maximum_length := Some (- 1)\<rparr>
         else if dtype = ''timestamp without time zone''
           then col\<lparr>data_type := ''datetime2'', datetime_precision := Some 7\<rparr>
         else if dtype \<in> {''user defined'', ''user-defined''}
           then col\<lparr>data_type := ''nvarchar'', character_maximum_length := Some 128\<rparr>
         else if dtype = ''uuid'' then col\<lparr>data_type := ''nvarchar'', character_maximum_length := Some 36\<rparr>
         else col)"

fun add_extended_columns :: "table_schema \<Rightarrow> string list \<Rightarrow> error + table_schema" where
  "add_extended_columns schema [] = Inr schema"
| "add_extended_columns schema (definition # definitions) =
     (case split_ws definition of
        name # dtype # others \<Rightarrow>
          add_extended_columns
            (schema\<lparr>columns := set_column name (Column\<lparr>data_type := dtype\<rparr>) (columns schema)\<rparr>)
            definitions
      | _ \<Rightarrow> Inl IndexError)"

definition convert_to_mssql :: "table_schema \<Rightarrow> string list \<Rightarrow> error + table_schema" where
  "convert_to_mssql schema extended_definitions =
     (case add_extended_columns schema extended_definitions of
        Inl e \<Rightarrow> Inl e
      | Inr schema \<Rightarrow> Inr (schema\<lparr>columns := map (\<lambda>(name, col). (name, convert_column col)) (columns schema)\<rparr>))"

text \<open>
  The parameters of the stage daemon. \<open>convert_data_types\<close> rewrites the cells of
  \<open>nvarchar\<close> columns with \<open>str()\<close>; the cells of a row are opaque in the model, so the
  conversion of a batch is a parameter.
\<close>

definition extended_definitions :: "string list" where
  "extended_definitions = split_char (CHR '','') ''udp_jobid int, udp_timestamp datetime2''"

text \<open>
  The batches of a table without CDC: every batch that has rows is inserted into the
  target table; a batch without rows is logged.
\<close>

fun load_batches ::
  "(table_schema \<Rightarrow> 'row list \<Rightarrow> 'row list) \<Rightarrow> string \<Rightarrow> string \<Rightarrow> table_schema \<Rightarrow>
   'row list list \<Rightarrow> 'row target_db \<Rightarrow> 'row target_db"
where
  "load_batches convert dataset_name tname tschema [] conn = conn"
| "load_batches convert dataset_name tname tschema (rows # batches) conn =
     (if rows = [] then load_batches convert dataset_name tname tschema batches conn
      else load_batches convert dataset_name tname tschema batches
             (bulk_insert_into_table conn dataset_name tname tschema (convert tschema rows)))"

text \<open>
  The batches of a table with CDC, inserted into the temporary table. A batch without
  rows leaves the loop (\<open>break\<close>); the answer says whether the loop ran to its end, which
  is when the \<open>else\<close> branch of the \<open>for\<close> statement runs.
\<close>

fun load_temp_batches ::
  "(table_schema \<Rightarrow> 'row list \<Rightarrow> 'row list) \<Rightarrow> string \<Rightarrow> string \<Rightarrow> table_schema \<Rightarrow>
   'row list list \<Rightarrow> 'row target_db \<Rightarrow> bool \<times> 'row target_db"
where
  "load_temp_batches convert dataset_name temp_name tschema [] conn = (True, conn)"
| "load_temp_batches convert dataset_name temp_name tschema (rows # batches) conn =
     (if rows = [] then (False, conn)
      else load_temp_batches convert dataset_name temp_name tschema batches
             (bulk_insert_into_table conn dataset_name temp_name tschema (convert tschema rows)))"

text \<open>
  What the body of the loop over the table files does with one table: it goes on to the
  next table (\<open>Next\<close>, also after \<open>continue\<close>) or leaves \<open>stage_file\<close> (\<open>Return\<close>).
\<close>

datatype flow = Next | Return

text \<open>
  The branch of a table without CDC or without key (lines 247 to 284). An exception leaves the
  statements executed so far in place: the error comes with the target database as it is when the
  exception is raised.
\<close>

definition reload_table ::
  "(table_schema \<Rightarrow> 'row list \<Rightarrow> 'row list) \<Rightarrow> string \<Rightarrow> string \<Rightarrow> table_schema \<Rightarrow>
   'row list list \<Rightarrow> 'row target_db \<Rightarrow> error \<times> 'row target_db + 'row target_db"
where
  "reload_table convert dataset_name tname tschema batches conn =
     (let conn = db_drop_table conn dataset_name tname
      in case create_table_from_table_schema conn dataset_name tname tschema extended_definitions of
           Inl e \<Rightarrow> Inl (e, conn)
         | Inr (conn, tschema) \<Rightarrow> Inr (load_batches convert dataset_name tname tschema batches conn))"

text \<open>The branch of a table with CDC and key (lines 287 to 343).\<close>

definition merge_table ::
  "(table_schema \<Rightarrow> 'row list \<Rightarrow> 'row list) \<Rightarrow> string \<Rightarrow> string \<Rightarrow> table_object \<Rightarrow> string \<Rightarrow>
   table_schema \<Rightarrow> 'row list list \<Rightarrow> 'row target_db \<Rightarrow> error \<times> 'row target_db + 'row target_db"
where
  "merge_table convert dataset_name tname table table_pk tschema batches conn =
     (case (if \<not> does_table_exist conn dataset_name tname
            then create_table_from_table_schema conn dataset_name tname tschema extended_definitions
            else Inr (conn, tschema)) of
        Inl e \<Rightarrow> Inl (e, conn)
      | Inr (conn, tschema) \<Rightarrow>
          (let temp_table_name = ''_'' @ tname;
               conn = db_drop_table conn dataset_name temp_table_name
           in case create_table_from_table_schema conn dataset_name temp_table_name tschema
                     extended_definitions of
                Inl e \<Rightarrow> Inl (e, conn)
              | Inr (conn, tschema) \<Rightarrow>
                  (case load_temp_batches convert dataset_name temp_table_name tschema batches conn of
                     (False, conn) \<Rightarrow> Inr (db_drop_table conn dataset_name temp_table_name)
                   | (True, conn) \<Rightarrow>
                       (case MergeCDC_init table extended_definitions of
                          Inl e \<Rightarrow> Inl (e, conn)
                        | Inr merge_cdc \<Rightarrow>
                            (case MergeCDC_merge merge_cdc dataset_name table_pk of
                               Inl e \<Rightarrow> Inl (e, conn)
                             | Inr sql_command \<Rightarrow>
                                 Inr (db_drop_table (cursor_execute_target conn sql_command)
                                        dataset_name temp_table_name))))))"

text \<open>
  The body of the loop over the table files (lines 201 to 343) for one table.
  \<open>load_text(...).strip()\<close> raises \<open>AttributeError\<close> when the key file is missing.
\<close>

definition stage_table ::
  "(table_schema \<Rightarrow> 'row list \<Rightarrow> 'row list) \<Rightarrow> string \<Rightarrow> 'row table_artifact \<Rightarrow>
   'row target_db \<Rightarrow> error \<times> 'row target_db + flow \<times> 'row target_db"
where
  "stage_table convert dataset_name artifact conn =
     (let tname = artifact_name artifact;
          table = artifact_table artifact
      in case artifact_schema artifact of
           None \<Rightarrow> Inr (Next, conn)
         | Some tschema \<Rightarrow>
             (case artifact_pk artifact of
                None \<Rightarrow> Inl (AttributeError, conn)
              | Some pk_text \<Rightarrow>
                  (let table_pk = strip pk_text;
                       table = table\<lparr>table_name := tname, column_names := map fst (columns tschema)\<rparr>
                   in if drop_table table \<noteq> [] then Inr (Return, db_drop_table conn dataset_name tname)
                      else
                        (case convert_to_mssql tschema extended_definitions of
                           Inl e \<Rightarrow> Inl (e, conn)
                         | Inr tschema \<Rightarrow>
                             if cdc table = [] \<or> lower (cdc table) = ''none'' \<or> table_pk = []
                             then (case reload_table convert dataset_name tname tschema
                                          (artifact_batches artifact) conn of
                                     Inl e \<Rightarrow> Inl e
                                   | Inr conn \<Rightarrow> Inr (Next, conn))
                             else (case merge_table convert dataset_name tname table table_pk tschema
                                          (artifact_batches artifact) conn of
                                     Inl e \<Rightarrow> Inl e
                                   | Inr conn \<Rightarrow> Inr (Next, conn))))))"

text \<open>
  The loop over the table files of the work folder. An exception in the body ends the loop with the
  statements of the tables before it executed.
\<close>

fun stage_tables ::
  "(table_schema \<Rightarrow> 'row list \<Rightarrow> 'row list) \<Rightarrow> string \<Rightarrow> 'row table_artifact list \<Rightarrow>
   'row target_db \<Rightarrow> error \<times> 'row target_db + 'row target_db"
where
  "stage_tables convert dataset_name [] conn = Inr conn"
| "stage_tables convert dataset_name (artifact # rest) conn =
     (case stage_table convert dataset_name artifact conn of
        Inl e \<Rightarrow> Inl e
      | Inr (Return, conn) \<Rightarrow> Inr conn
      | Inr (Next, conn) \<Rightarrow> stage_tables convert dataset_name rest conn)"

text \<open>
  \<open>stage_file\<close>: the package is fetched from the archive store into the work folder and
  unzipped (\<open>zipfile.ZipFile\<close> raises \<open>FileNotFoundError\<close> when \<open>get\<close> found no blob), the
  dataset's schema is created when missing, and the tables are applied. When a table raises an
  exception, the schema and the statements executed until then stay in the target database.
\<close>

definition StageDaemon_stage_file ::
  "(table_schema \<Rightarrow> 'row list \<Rightarrow> 'row list) \<Rightarrow> daemon_config \<Rightarrow> string \<Rightarrow> 'row stage_world \<Rightarrow>
   (error + unit) \<times> 'row stage_world"
where
  "StageDaemon_stage_file convert config archive_capture_file_name world =
     (let world = world\<lparr>blobs := clear_folder (work_folder config) (blobs world)\<rparr>;
          bs_archive = snd (BlobStore_connect BlobStore (archive_resource config) (blobs world));
          dataset_name = fst (partition_str ''#'' (just_file_stem archive_capture_file_name));
          local_work_file_name = work_folder config @ ''/'' @ just_file_name archive_capture_file_name
      in case BlobStore_get bs_archive local_work_file_name archive_capture_file_name (blobs world) of
           (Inl e, s) \<Rightarrow> (Inl e, world\<lparr>blobs := s\<rparr>)
         | (Inr got, s) \<Rightarrow>
             (let world = world\<lparr>blobs := s\<rparr>
              in case local_files (blobs world) local_work_file_name of
                   None \<Rightarrow> (Inl FileNotFoundError, world)
                 | Some pkg \<Rightarrow>
                     (case stage_tables convert dataset_name (artifacts pkg)
                             (create_schema (target_db_conn world) dataset_name) of
                        Inl (e, conn) \<Rightarrow> (Inl e, world\<lparr>target_db_conn := conn\<rparr>)
                      | Inr conn \<Rightarrow> (Inr (), world\<lparr>target_db_conn := conn\<rparr>))))"

text \<open>
  Modelled from the spec: the SQL text of the named commands
  \<open>select_from_stage_arrival_queue\<close>, \<open>delete_from_stage_arrival_queue\<close> and
  \<open>delete_from_stage_pending_queue\<close> is in the platform's resource file, which is not among
  the sources. By the spec the arrival queue is consumed in the order of insertion and an
  entry is deleted by its file name.
\<close>

definition select_from_stage_arrival_queue :: "'row target_db \<Rightarrow> (string \<times> int) option" where
  "select_from_stage_arrival_queue conn =
     (case stage_arrival_queue conn of [] \<Rightarrow> None | row # rows \<Rightarrow> Some row)"

definition delete_from_stage_arrival_queue :: "'row target_db \<Rightarrow> string \<Rightarrow> 'row target_db" where
  "delete_from_stage_arrival_queue conn name =
     conn\<lparr>stage_arrival_queue := filter (\<lambda>row. fst row \<noteq> name) (stage_arrival_queue conn)\<rparr>"

definition delete_from_stage_pending_queue :: "'row target_db \<Rightarrow> string \<Rightarrow> 'row target_db" where
  "delete_from_stage_pending_queue conn name =
     conn\<lparr>stage_pending_queue := filter (\<lambda>row. row \<noteq> name) (stage_pending_queue conn)\<rparr>"

definition insert_into_stage_pending_queue :: "'row target_db \<Rightarrow> string \<Rightarrow> 'row target_db" where
  "insert_into_stage_pending_queue conn name =
     conn\<lparr>stage_pending_queue := stage_pending_queue conn @ [name]\<rparr>"

text \<open>
  \<open>process_next_file_to_stage\<close>: \<open>False\<close> when the arrival queue is empty; otherwise the
  first package is staged, its entries are deleted from both queues and the next file
  of the dataset is posted to the pending queue. After an exception of \<open>stage_file\<close> the
  queues stay as they are.
\<close>

definition StageDaemon_process_next_file_to_stage ::
  "(table_schema \<Rightarrow> 'row list \<Rightarrow> 'row list) \<Rightarrow> daemon_config \<Rightarrow> 'row stage_world \<Rightarrow>
   (error + bool) \<times> 'row stage_world"
where
  "StageDaemon_process_next_file_to_stage convert config world =
     (case select_from_stage_arrival_queue (target_db_conn world) of
        None \<Rightarrow> (Inr False, world)
      | Some (archive_file_name, queued_job) \<Rightarrow>
          (case py_int (last (rsplit1 (CHR ''#'') (case split_char (CHR ''.'') archive_file_name of
                                                     [] \<Rightarrow> [] | part # parts \<Rightarrow> part))) of
             None \<Rightarrow> (Inl ValueError, world)
           | Some job \<Rightarrow>
               (let dataset_name = fst (partition_str ''#'' archive_file_name);
                    archive_file_blob_name = dataset_name @ ''/'' @ archive_file_name
                in case StageDaemon_stage_file convert config archive_file_blob_name world of
                     (Inl e, world) \<Rightarrow> (Inl e, world)
                   | (Inr u, world) \<Rightarrow>
                       (let conn = delete_from_stage_arrival_queue (target_db_conn world) archive_file_name;
                            conn = delete_from_stage_pending_queue conn archive_file_name;
                            next_archive_file_name = dataset_name @ ''#'' @ fmt_zero 9 (job + 1) @ ''.zip'';
                            conn = insert_into_stage_pending_queue conn next_archive_file_name
                        in (Inr True, world\<lparr>target_db_conn := conn\<rparr>)))))"

section \<open>Sample data and derived schemas used by the theorems\<close>

text \<open>
  The columns of a schema after \<open>add_extended_columns\<close> has added the two extended definitions
  \<open>udp_jobid int\<close> and \<open>udp_timestamp datetime2\<close>.
\<close>

definition with_extended_columns :: "(string \<times> column) list \<Rightarrow> (string \<times> column) list" where
  "with_extended_columns cols =
     set_column ''udp_timestamp'' (Column\<lparr>data_type := ''datetime2''\<rparr>)
       (set_column ''udp_jobid'' (Column\<lparr>data_type := ''int''\<rparr>) cols)"

text \<open>
  The schema as \<open>create_table_from_table_schema\<close> leaves it, with the extended definitions added
  once more by \<open>add_definitions\<close>.
\<close>

definition created_schema :: "table_schema \<Rightarrow> table_schema" where
  "created_schema schema =
     schema\<lparr>columns :=
       set_column ''udp_timestamp'' (Column\<lparr>data_type := ''datetime2'', character_maximum_length := None\<rparr>)
         (set_column ''udp_jobid'' (Column\<lparr>data_type := ''int'', character_maximum_length := None\<rparr>)
            (columns schema))\<rparr>"

text \<open>The schema after \<open>convert_to_mssql\<close>: extended columns added, every column converted.\<close>

definition converted_schema :: "table_schema \<Rightarrow> table_schema" where
  "converted_schema schema =
     schema\<lparr>columns := map (\<lambda>(name, col). (name, convert_column col))
                            (with_extended_columns (columns schema))\<rparr>"

text \<open>
  A sample package for the dataset \<open>sales\<close>: the table \<open>orders\<close> with the columns \<open>id\<close> and
  \<open>modified\<close>, configured with \<open>cdc = timestamp\<close>, in variants with and without a primary key, marked
  for drop (as \<open>accounts\<close>), with \<open>cdc = none\<close>, and with an empty batch between two others. Rows are
  numbers, and the conversion of the rows' data types leaves them as they are. The target database
  has the tables \<open>sales.accounts\<close> and \<open>sales.orders\<close> and the package of job 7 in its arrival queue.
\<close>

definition sample_schema :: table_schema where
  "sample_schema =
     \<lparr>schema_table_name = ''orders'',
      columns = [(''id'', Column\<lparr>data_type := ''integer''\<rparr>),
                 (''modified'', Column\<lparr>data_type := ''datetime''\<rparr>)]\<rparr>"

definition sample_table :: table_object where
  "sample_table =
     \<lparr>schema_name = [], table_name = [], drop_table = [], ignore_table = [], optional_table = [],
      ignore_columns = [], primary_key = [], cdc = ''timestamp'', timestamp = ''modified'',
      first_timestamp = [], filehash = [], rowhash = [], rowversion = [], sequence = [],
      first_sequence = PStr [], join_sql = [], where_sql = [], order_sql = [], column_names = []\<rparr>"

definition keep_rows :: "table_schema \<Rightarrow> nat list \<Rightarrow> nat list" where
  "keep_rows tschema rows = rows"

definition sample_db :: "nat target_db" where
  "sample_db =
     \<lparr>existing_schemas = {''sales''}, existing_tables = {(''sales'', ''accounts''), (''sales'', ''orders'')}, db_calls = [],
      stat_log = [], stage_arrival_queue = [(''sales#000000007.zip'', 7)], stage_pending_queue = []\<rparr>"

definition keyed_artifact :: "nat table_artifact" where
  "keyed_artifact =
     \<lparr>artifact_name = ''orders'', artifact_table = sample_table,
      artifact_schema = Some sample_schema, artifact_pk = Some ''id'',
      artifact_batches = [[1, 2], [3]]\<rparr>"

definition keyless_artifact :: "nat table_artifact" where
  "keyless_artifact = keyed_artifact\<lparr>artifact_pk := Some []\<rparr>"

definition dropped_artifact :: "nat table_artifact" where
  "dropped_artifact =
     keyed_artifact\<lparr>artifact_name := ''accounts'',
                    artifact_table := sample_table\<lparr>drop_table := ''1''\<rparr>\<rparr>"

definition none_artifact :: "nat table_artifact" where
  "none_artifact = keyed_artifact\<lparr>artifact_table := sample_table\<lparr>cdc := ''none''\<rparr>\<rparr>"

definition broken_artifact :: "nat table_artifact" where
  "broken_artifact = keyed_artifact\<lparr>artifact_batches := [[1, 2], [], [3]]\<rparr>"

text \<open>
  The containers \<open>udp:landing\<close> and \<open>udp:archive\<close>, the daemon's configuration, and the storage with the
  package \<open>sales#000000007.zip\<close> archived, and then also fetched into the work folder.
\<close>

definition sample_landing :: resource where
  "sample_landing = \<lparr>tenant_id = [], subscription_id = [], account_name = ''udp'', container_name = ''landing''\<rparr>"

definition sample_archive :: resource where
  "sample_archive = \<lparr>tenant_id = [], subscription_id = [], account_name = ''udp'', container_name = ''archive''\<rparr>"

definition sample_config :: daemon_config where
  "sample_config = \<lparr>work_folder = ''work'', landing_resource = sample_landing, archive_resource = sample_archive\<rparr>"

definition sample_package :: "nat table_artifact list \<Rightarrow> nat package" where
  "sample_package arts = \<lparr>job_log = None, last_job_log = None, artifacts = arts\<rparr>"

definition archived_world :: "nat table_artifact list \<Rightarrow> nat stage_world" where
  "archived_world arts =
     \<lparr>blobs = \<lparr>containers = (\<lambda>folder. if folder = (''udp'', ''archive'')
                                       then Some [''sales/sales#000000007.zip'' \<mapsto> sample_package arts]
                                     else if folder = (''udp'', ''landing'') then Some Map.empty
                                     else None),
               local_files = Map.empty, error_log = []\<rparr>,
      target_db_conn = sample_db\<rparr>"

definition fetched_world :: "nat table_artifact list \<Rightarrow> nat stage_world" where
  "fetched_world arts =
     (archived_world arts)\<lparr>blobs := (blobs (archived_world arts))
        \<lparr>local_files := [''work/sales#000000007.zip'' \<mapsto> sample_package arts]\<rparr>\<rparr>"

definition archive_store :: blobstore where
  "archive_store = load_resource BlobStore sample_archive"

text \<open>A storage without any container.\<close>

definition offline_storage :: "nat storage" where
  "offline_storage = \<lparr>containers = (\<lambda>folder. None), local_files = Map.empty, error_log = []\<rparr>"

text \<open>The storage with the package of job 7 in the landing container and an empty arrival queue.\<close>

definition landed_world :: "nat stage_world" where
  "landed_world =
     \<lparr>blobs = \<lparr>containers = (\<lambda>folder. if folder = (''udp'', ''landing'')
                                       then Some [''sales#000000007.zip'' \<mapsto> sample_package [keyed_artifact]]
                                     else if folder = (''udp'', ''archive'') then Some Map.empty
                                     else None),
               local_files = Map.empty, error_log = []\<rparr>,
      target_db_conn = sample_db\<lparr>stage_arrival_queue := []\<rparr>\<rparr>"

text \<open>A table with the columns \<open>col1\<close>, \<open>col2\<close> and \<open>col3\<close>.\<close>

definition merge_sample :: table_object where
  "merge_sample =
     \<lparr>schema_name = [], table_name = ''orders'', drop_table = [], ignore_table = [], optional_table = [],
      ignore_columns = [], primary_key = [], cdc = ''timestamp'', timestamp = ''modified'',
      first_timestamp = [], filehash = [], rowhash = [], rowversion = [], sequence = [],
      first_sequence = PStr [], join_sql = [], where_sql = [], order_sql = [],
      column_names = [''col1'', ''col2'', ''col3'']\<rparr>"

text \<open>
  The sample source: a clock that knows the dates of the examples (microseconds since 1900-01-01), and
  a database with the tables \<open>orders\<close> and \<open>events\<close>, whose primary key is \<open>id\<close>, and \<open>notes\<close>, which
  has no primary key; its clock reads 2024-01-01 00:01:00.123456 and its sequence stands at 200. Every
  statement answers with three rows.
\<close>

definition sample_env :: pyenv where
  "sample_env =
     \<lparr>iso_to_datetime = (\<lambda>text. if text = ''1900-01-01'' then Inr 0
                                else if text = ''2999-01-01'' then Inr 34681132800000000
                                else Inl ValueError),
      datetime_str = (\<lambda>t. if t = 0 then ''1900-01-01 00:00:00''
                           else if t = 3913056000000000 then ''2024-01-01 00:00:00''
                           else if t = 3913142400000000 then ''2024-01-02 00:00:00''
                           else ''2999-01-01 00:00:00''),
      fnmatch = (\<lambda>name pattern. name = pattern)\<rparr>"

definition events_schema :: table_schema where
  "events_schema =
     \<lparr>schema_table_name = ''events'',
      columns = [(''id'', Column\<lparr>data_type := ''integer''\<rparr>),
                 (''seq_no'', Column\<lparr>data_type := ''integer''\<rparr>),
                 (''modified'', Column\<lparr>data_type := ''datetime''\<rparr>)]\<rparr>"

definition sample_engine :: "nat db_engine" where
  "sample_engine =
     \<lparr>timestamp_literal = Database_timestamp_literal,
      db_current_timestamp = Inr 3913056060123456,
      current_sequence = (\<lambda>tname. Inr 200),
      select_table_schema = (\<lambda>schema tname. if tname = ''orders'' \<or> tname = ''notes''
                                                then Inr (Some sample_schema)
                                              else if tname = ''events'' then Inr (Some events_schema)
                                              else Inr None),
      select_table_pk = (\<lambda>schema tname. if tname = ''orders'' \<or> tname = ''events'' then Inr ''id'' else Inr []),
      cursor_execute = (\<lambda>sql. Inr [1, 2, 3])\<rparr>"

text \<open>
  A batch file takes ten bytes a row. The daemon runs job 7 with the batch size 2. The table \<open>events\<close>
  is configured with \<open>cdc = sequence\<close> on the column \<open>seq_no\<close> and, like \<open>orders\<close>, with the timestamp
  column \<open>modified\<close>; its history stands at the sequence 100.
\<close>

definition sample_fsize :: "nat list \<Rightarrow> nat" where
  "sample_fsize rows = 10 * length rows"

definition sequence_table :: table_object where
  "sequence_table = sample_table\<lparr>cdc := ''sequence'', sequence := ''seq_no''\<rparr>"

definition sample_daemon :: "nat capture_daemon" where
  "sample_daemon = \<lparr>self_job_id = 7, batch_size = ''2'', work_files = [], job_row_count = 0, job_data_size = 0\<rparr>"

definition events_history :: table_history where
  "events_history = (TableHistory ''events'')\<lparr>last_sequence := PInt 100, last_timestamp := Some 0\<rparr>"

text \<open>
  The condition that \<open>timestamp_logic\<close> builds from \<open>timestamp_where_template\<close>, and the statement
  that \<open>select\<close> builds around it from \<open>select_template\<close>, for the timestamp expression \<open>tv\<close> and the
  bounds \<open>lo\<close> and \<open>hi\<close> as text.
\<close>

definition timestamp_window :: "string \<Rightarrow> string \<Rightarrow> string \<Rightarrow> string" where
  \<open>timestamp_window tv lo hi =
     ''(\<newline>'' @ tv @ '' >= '' @ [CHR 0x27] @ lo @ [CHR 0x27] @ '' and\<newline>'' @
     tv @ '' < '' @ [CHR 0x27] @ hi @ [CHR 0x27] @ ''\<newline>)''\<close>

definition windowed_select :: "table_object \<Rightarrow> int \<Rightarrow> string \<Rightarrow> string \<Rightarrow> string \<Rightarrow> string" where
  \<open>windowed_select table job tv lo hi =
     delete_blank_lines (strip (
       ''select\<newline>'' @ SelectCDC_column_names table @ '',\<newline>'' @
       str_int job @ '' as "udp_job",\<newline>'' @
       tv @ '' as "udp_timestamp"\<newline>'' @
       ''from "'' @ schema_name table @ ''"."'' @ table_name table @ ''" as "s"\<newline>'' @
       SelectCDC_join_clause table @ ''\<newline>'' @
       ''where\<newline>    '' @
       (if where_sql table = [] then [] else ''('' @ where_sql table @ '') and\<newline>    '') @
       timestamp_window tv lo hi @ ''\<newline>'' @
       SelectCDC_order_clause table) @ '';'')\<close>

text \<open>The table \<open>orders\<close> configured with a first timestamp that lies in the future.\<close>

definition future_table :: table_object where
  "future_table = sample_table\<lparr>first_timestamp := ''2999-01-01''\<rparr>"

text \<open>The daemon of the following job, number 8.\<close>

definition second_daemon :: "nat capture_daemon" where
  "second_daemon = sample_daemon\<lparr>self_job_id := 8\<rparr>"

text \<open>
  The capture project of the dataset \<open>sales\<close> over the sample source, with the table section \<open>orders\<close>,
  and a storage with empty landing and recovery containers and no state file.
\<close>

definition sample_recovery :: resource where
  "sample_recovery = \<lparr>tenant_id = [], subscription_id = [], account_name = ''udp'', container_name = ''recovery''\<rparr>"

definition sample_capture_config :: "nat capture_config" where
  "sample_capture_config =
     \<lparr>dataset = ''sales'', platform = ''mssql'', source_schema = ''dbo'', db_connect = None,
      db = sample_engine, project_batch_size = ''2'', notransfer = False,
      blobstore_landing = sample_landing, blobstore_recovery = sample_recovery,
      table_sections = [(''orders'', sample_table)],
      state_folder = ''state'', publish_folder = ''publish''\<rparr>"

definition sample_capture_world :: "nat capture_world" where
  "sample_capture_world =
     \<lparr>store = \<lparr>containers = (\<lambda>folder. if folder = (''udp'', ''landing'') \<or> folder = (''udp'', ''recovery'')
                                       then Some Map.empty else None),
               local_files = Map.empty, error_log = []\<rparr>,
      state_file = None\<rparr>"

section \<open>Properties of the batch loop\<close>

lemma map_upt_shift: "map f [0..<Suc n] = f 0 # map (\<lambda>i. f (Suc i)) [0..<n]"
proof -
  have "[0..<Suc n] = 0 # map Suc [0..<n]"
    by (simp add: upt_conv_Cons map_Suc_upt del: upt_Suc)
  then show ?thesis by (simp add: o_def del: upt_Suc)
qed

lemma ceil_div_step:
  assumes "0 < (b::nat)" "0 < n"
  shows "(n + b - 1) div b = Suc ((n - b + b - 1) div b)"
proof (cases "b \<le> n")
  case True
  define m where "m = n - b + b - 1"
  have "n + b - 1 = m + b" using True assms by (simp add: m_def)
  moreover have "(m + b) div b = Suc (m div b)" using assms by simp
  ultimately show ?thesis by (simp only: m_def)
next
  case False
  then have "n - b = 0" "n + b - 1 < 2 * b" "b \<le> n + b - 1" using assms by auto
  then have "(n + b - 1) div b = 1" "(n - b + b - 1) div b = 0" using assms
    by (auto simp add: div_nat_eqI)
  then show ?thesis by simp
qed

lemma batch_loop_empty:
  "cursor st = [] \<Longrightarrow> batch_loop fsize tn bs st = st\<lparr>batch_number := batch_number st + 1\<rparr>"
  by (simp add: batch_loop.simps [of fsize tn bs st] fetchmany_def)

lemma batch_loop_step:
  "0 < bs \<Longrightarrow> cursor st \<noteq> [] \<Longrightarrow>
   batch_loop fsize tn bs st =
   batch_loop fsize tn bs
     (st\<lparr>cursor := drop (nat bs) (cursor st),
         batch_number := batch_number st + 1,
         row_count := row_count st + length (take (nat bs) (cursor st)),
         data_size := data_size st + fsize (take (nat bs) (cursor st)),
         written := written st @
           [(batch_file_name tn (batch_number st + 1), take (nat bs) (cursor st))]\<rparr>)"
  by (simp add: batch_loop.simps [of fsize tn bs st] fetchmany_def Let_def)

lemma batch_loop_written:
  "0 < bs \<Longrightarrow>
   written (batch_loop fsize tn bs st) =
     written st @
       map (\<lambda>i. (batch_file_name tn (batch_number st + 1 + i),
                  take (nat bs) (drop (i * nat bs) (cursor st))))
           [0..<(length (cursor st) + nat bs - 1) div nat bs]"
proof (induction "length (cursor st)" arbitrary: st rule: less_induct)
  case less
  let ?b = "nat bs"
  have b: "0 < ?b" using less.prems by simp
  show ?case
  proof (cases "cursor st = []")
    case True
    then show ?thesis using b by (simp add: batch_loop_empty)
  next
    case False
    let ?st = "st\<lparr>cursor := drop (nat bs) (cursor st),
         batch_number := batch_number st + 1,
         row_count := row_count st + length (take (nat bs) (cursor st)),
         data_size := data_size st + fsize (take (nat bs) (cursor st)),
         written := written st @
           [(batch_file_name tn (batch_number st + 1), take (nat bs) (cursor st))]\<rparr>"
    have lt: "length (cursor ?st) < length (cursor st)" using False b by simp
    have k: "(length (cursor st) + ?b - 1) div ?b = Suc ((length (cursor ?st) + ?b - 1) div ?b)"
      using ceil_div_step [OF b, of "length (cursor st)"] False by simp
    have "written (batch_loop fsize tn bs st) = written (batch_loop fsize tn bs ?st)"
      using batch_loop_step [OF less.prems False] by simp
    also have "\<dots> = written ?st @
       map (\<lambda>i. (batch_file_name tn (batch_number ?st + 1 + i),
                  take ?b (drop (i * ?b) (cursor ?st))))
           [0..<(length (cursor ?st) + ?b - 1) div ?b]"
      using less.hyps [OF lt less.prems] .
    also have "\<dots> = written st @
       map (\<lambda>i. (batch_file_name tn (batch_number st + 1 + i),
                  take ?b (drop (i * ?b) (cursor st))))
           [0..<(length (cursor st) + ?b - 1) div ?b]"
      by (simp only: k map_upt_shift) (simp add: add.commute)
    finally show ?thesis .
  qed
qed

lemma batch_loop_row_count:
  "0 < bs \<Longrightarrow> row_count (batch_loop fsize tn bs st) = row_count st + length (cursor st)"
proof (induction "length (cursor st)" arbitrary: st rule: less_induct)
  case less
  show ?case
  proof (cases "cursor st = []")
    case True
    then show ?thesis by (simp add: batch_loop_empty)
  next
    case False
    then show ?thesis using less.prems
      by (simp add: batch_loop_step less.hyps)
  qed
qed

lemma batch_loop_data_size:
  "0 < bs \<Longrightarrow>
   data_size (batch_loop fsize tn bs st) + sum_list (map (\<lambda>f. fsize (snd f)) (written st)) =
   data_size st + sum_list (map (\<lambda>f. fsize (snd f)) (written (batch_loop fsize tn bs st)))"
proof (induction "length (cursor st)" arbitrary: st rule: less_induct)
  case less
  show ?case
  proof (cases "cursor st = []")
    case True
    then show ?thesis by (simp add: batch_loop_empty)
  next
    case False
    let ?st = "st\<lparr>cursor := drop (nat bs) (cursor st),
         batch_number := batch_number st + 1,
         row_count := row_count st + length (take (nat bs) (cursor st)),
         data_size := data_size st + fsize (take (nat bs) (cursor st)),
         written := written st @
           [(batch_file_name tn (batch_number st + 1), take (nat bs) (cursor st))]\<rparr>"
    have lt: "length (cursor ?st) < length (cursor st)" using False less.prems by simp
    show ?thesis
      using less.hyps [OF lt less.prems] batch_loop_step [OF less.prems False, of fsize tn]
      by simp
  qed
qed

lemma batch_loop_concat:
  "0 < bs \<Longrightarrow>
   concat (map snd (written (batch_loop fsize tn bs st))) =
   concat (map snd (written st)) @ cursor st"
proof (induction "length (cursor st)" arbitrary: st rule: less_induct)
  case less
  show ?case
  proof (cases "cursor st = []")
    case True
    then show ?thesis by (simp add: batch_loop_empty)
  next
    case False
    let ?st = "st\<lparr>cursor := drop (nat bs) (cursor st),
         batch_number := batch_number st + 1,
         row_count := row_count st + length (take (nat bs) (cursor st)),
         data_size := data_size st + fsize (take (nat bs) (cursor st)),
         written := written st @
           [(batch_file_name tn (batch_number st + 1), take (nat bs) (cursor st))]\<rparr>"
    have lt: "length (cursor ?st) < length (cursor st)" using False less.prems by simp
    show ?thesis
      using less.hyps [OF lt less.prems] batch_loop_step [OF less.prems False, of fsize tn]
      by simp
  qed
qed

subsection \<open>Decimal text is read back as the number it was written from\<close>

lemma of_char_digit_char: "d < 10 \<Longrightarrow> (of_char (digit_char d) :: nat) = 48 + d"
  by (simp add: digit_char_def)

lemma is_digit_digit_char: "d < 10 \<Longrightarrow> is_digit (digit_char d)"
  by (simp add: is_digit_def of_char_digit_char)

lemma digit_val_digit_char: "d < 10 \<Longrightarrow> digit_val (digit_char d) = d"
  by (simp add: digit_val_def of_char_digit_char)

lemma is_digit_not_space: "is_digit c \<Longrightarrow> \<not> is_space c"
  by (auto simp: is_digit_def is_space_def Let_def)

lemma parse_digits_all:
  "\<forall>c \<in> set s. is_digit c \<Longrightarrow>
   parse_digits acc s = Some (foldl (\<lambda>a c. 10 * a + digit_val c) acc s)"
  by (induction acc s rule: parse_digits.induct) auto

lemma str_nat_digits: "\<forall>c \<in> set (str_nat n). is_digit c"
proof (induction n rule: str_nat.induct)
  case (1 n)
  show ?case
  proof (cases "n < 10")
    case True
    then show ?thesis by (subst str_nat.simps) (simp add: is_digit_digit_char)
  next
    case False
    with "1.IH" show ?thesis by (subst str_nat.simps) (auto simp: is_digit_digit_char)
  qed
qed

lemma str_nat_nonempty: "str_nat n \<noteq> []"
  by (subst str_nat.simps) simp

lemma str_nat_value: "foldl (\<lambda>a c. 10 * a + digit_val c) 0 (str_nat n) = n"
proof (induction n rule: str_nat.induct)
  case (1 n)
  show ?case
  proof (cases "n < 10")
    case True
    then show ?thesis by (subst str_nat.simps) (simp add: digit_val_digit_char)
  next
    case False
    with "1.IH" show ?thesis by (subst str_nat.simps) (simp add: digit_val_digit_char)
  qed
qed

lemma zeros_value: "foldl (\<lambda>a c. 10 * a + digit_val c) 0 (replicate k (CHR ''0'')) = 0"
  by (induction k) (simp_all add: digit_val_def)

lemma zfill_digits: "\<forall>c \<in> set (zfill w (str_nat n)). is_digit c"
  using str_nat_digits [of n] by (auto simp: zfill_def is_digit_def)

lemma zfill_nonempty: "zfill w (str_nat n) \<noteq> []"
  by (simp add: zfill_def str_nat_nonempty)

lemma parse_unsigned_zfill: "parse_unsigned (zfill w (str_nat n)) = Some n"
proof -
  obtain c cs where s: "zfill w (str_nat n) = c # cs"
    using zfill_nonempty [of w n] by (cases "zfill w (str_nat n)") auto
  have d: "\<forall>c \<in> set (zfill w (str_nat n)). is_digit c" by (rule zfill_digits)
  then have "is_digit c" using s by simp
  then have "parse_unsigned (zfill w (str_nat n)) = parse_digits 0 (zfill w (str_nat n))"
    using s by (simp add: parse_unsigned_def)
  also have "\<dots> = Some (foldl (\<lambda>a c. 10 * a + digit_val c) 0 (zfill w (str_nat n)))"
    using d by (rule parse_digits_all)
  also have "\<dots> = Some n"
    by (simp add: zfill_def zeros_value str_nat_value)
  finally show ?thesis .
qed

lemma dropWhile_none: "\<forall>c \<in> set s. \<not> P c \<Longrightarrow> dropWhile P s = s"
  by (cases s) auto

lemma strip_no_space: "\<forall>c \<in> set s. \<not> is_space c \<Longrightarrow> strip s = s"
proof -
  assume a: "\<forall>c \<in> set s. \<not> is_space c"
  have "dropWhile is_space s = s" using a by (rule dropWhile_none)
  moreover have "dropWhile is_space (rev s) = rev s" using a by (intro dropWhile_none) simp
  ultimately show ?thesis by (simp add: strip_def lstrip_def rstrip_def)
qed

lemma py_int_cases:
  "strip s = c # cs \<Longrightarrow> py_int s =
     (if c = CHR ''-'' then map_option (\<lambda>n. - int n) (parse_unsigned cs)
      else if c = CHR ''+'' then map_option int (parse_unsigned cs)
      else map_option int (parse_unsigned (c # cs)))"
  by (simp add: py_int_def)

lemma py_int_fmt_zero: "py_int (fmt_zero w j) = Some j"
proof (cases "j < 0")
  case True
  let ?s = "zfill (w - 1) (str_nat (nat (- j)))"
  have m: "\<not> is_space (CHR ''-'')" by (simp add: is_space_def)
  have "\<forall>c \<in> set ?s. \<not> is_space c"
    using zfill_digits [of "w - 1" "nat (- j)"] is_digit_not_space by blast
  with m have "\<forall>c \<in> set (CHR ''-'' # ?s). \<not> is_space c" by simp
  then have "strip (CHR ''-'' # ?s) = CHR ''-'' # ?s" by (rule strip_no_space)
  then have "py_int (CHR ''-'' # ?s) = map_option (\<lambda>n. - int n) (parse_unsigned ?s)"
    by (simp add: py_int_cases)
  then show ?thesis using True
    by (simp add: fmt_zero_def parse_unsigned_zfill)
next
  case False
  let ?s = "zfill w (str_nat (nat j))"
  obtain c cs where s: "?s = c # cs"
    using zfill_nonempty [of w "nat j"] by (cases ?s) auto
  have d: "\<forall>c \<in> set ?s. is_digit c" by (rule zfill_digits)
  then have c: "is_digit c" using s by simp
  have c': "c \<noteq> CHR ''-''" "c \<noteq> CHR ''+''" using c by (auto simp: is_digit_def)
  have "\<forall>c \<in> set ?s. \<not> is_space c" using d is_digit_not_space by blast
  then have "strip ?s = ?s" by (rule strip_no_space)
  then have "strip ?s = c # cs" using s by simp
  then have "py_int ?s = map_option int (parse_unsigned (c # cs))"
    using c' by (simp add: py_int_cases)
  also have "\<dots> = map_option int (parse_unsigned ?s)" using s by simp
  also have "\<dots> = Some j" using False by (simp only: parse_unsigned_zfill) simp
  finally show ?thesis using False by (simp add: fmt_zero_def)
qed

lemma fmt_zero_inj:
  assumes "fmt_zero w a = fmt_zero w b"
  shows "a = b"
proof -
  have "Some a = py_int (fmt_zero w a)" by (simp only: py_int_fmt_zero)
  also have "\<dots> = py_int (fmt_zero w b)" by (simp only: assms)
  also have "\<dots> = Some b" by (simp only: py_int_fmt_zero)
  finally show ?thesis by simp
qed

lemma batch_file_name_inj:
  "batch_file_name tn a = batch_file_name tn b \<Longrightarrow> a = b"
  using fmt_zero_inj [of 4 "int a" "int b"] by (simp add: batch_file_name_def)

lemma ceiling_div_nat:
  assumes "0 < (b::nat)"
  shows "\<lceil>real n / real b\<rceil> = int ((n + b - 1) div b)"
proof -
  define q where "q = (n + b - 1) div b"
  have lo: "q * b \<le> n + b - 1" by (simp add: q_def)
  have hi: "n + b - 1 < (q + 1) * b"
    using assms dividend_less_div_times [of b "n + b - 1"] by (simp add: q_def algebra_simps)
  have 1: "n \<le> q * b" using hi assms by (simp add: algebra_simps)
  have 2: "q * b < n + b" using lo assms by simp
  have "real n \<le> real (q * b)" using 1 by (simp only: of_nat_le_iff)
  then have a: "real n / real b \<le> of_int (int q)" using assms by (simp add: field_simps)
  have "real (q * b) < real (n + b)" using 2 by (simp only: of_nat_less_iff)
  then have b: "of_int (int q) - 1 < real n / real b" using assms by (simp add: field_simps)
  show ?thesis using a b by (simp only: q_def [symmetric]) (rule ceiling_unique)
qed

text \<open>
  Claim C5. With a positive batch size \<open>B\<close> (the configured one, or 250,000 when the
  project configures none) and a cursor that yields \<open>N\<close> rows, the loop writes exactly
  \<open>\<lceil>N / B\<rceil>\<close> batch files; the \<open>i\<close>-th is named
  \<open><table>#<i as four digits>.json\<close> in the work folder, so the names are pairwise different;
  every batch but the last holds exactly \<open>B\<close> rows, no batch is empty or longer than
  \<open>B\<close>; the row counts of the files add up to \<open>N\<close>, the files hold the cursor's rows
  in order, and the table's row count metric is \<open>N\<close>.
\<close>

theorem capture_batch_files:
  assumes "batch_size_of configured = Inr B" and "0 < B"
  shows "(configured = [] \<longrightarrow> B = 250000) \<and>
         (let files = written (batch_loop fsize tname B (batch_init rows));
              N = length rows
          in int (length files) = \<lceil>real N / real_of_int B\<rceil> \<and>
             map fst files =
               map (\<lambda>i. tname @ ''#'' @ fmt_zero 4 (int (i + 1)) @ ''.json'')
                 [0..<length files] \<and>
             distinct (map fst files) \<and>
             (\<forall>i. i + 1 < length files \<longrightarrow> int (length (snd (files ! i))) = B) \<and>
             (\<forall>f \<in> set files. snd f \<noteq> [] \<and> int (length (snd f)) \<le> B) \<and>
             sum_list (map (\<lambda>f. length (snd f)) files) = N \<and>
             concat (map snd files) = rows \<and>
             row_count (batch_loop fsize tname B (batch_init rows)) = N)"
proof -
  let ?b = "nat B"
  let ?k = "(length rows + ?b - 1) div ?b"
  let ?r = "batch_loop fsize tname B (batch_init rows)"
  let ?files = "written ?r"
  have b: "0 < ?b" using assms(2) by simp
  have rb: "real_of_int B = real ?b" using assms(2) by simp
  have w: "?files = map (\<lambda>i. (batch_file_name tname (i + 1),
                               take ?b (drop (i * ?b) rows))) [0..<?k]"
    using batch_loop_written [OF assms(2), of fsize tname "batch_init rows"]
    by (simp add: batch_init_def)
  have len: "length ?files = ?k" by (simp add: w)
  have c1: "configured = [] \<longrightarrow> B = 250000"
    using assms(1) by (auto simp: batch_size_of_def)
  have c2: "int (length ?files) = \<lceil>real (length rows) / real_of_int B\<rceil>"
    by (simp only: len rb ceiling_div_nat [OF b])
  have c3: "map fst ?files =
      map (\<lambda>i. tname @ ''#'' @ fmt_zero 4 (int (i + 1)) @ ''.json'')
        [0..<length ?files]"
    by (simp only: len) (simp add: w batch_file_name_def o_def)
  have c4: "distinct (map fst ?files)"
    by (simp add: w o_def distinct_map inj_on_def) (auto dest: batch_file_name_inj)
  have full: "length (take ?b (drop (i * ?b) rows)) = ?b" if "i + 1 < ?k" for i
  proof -
    have "i + 2 \<le> ?k" using that by simp
    then have "(i + 2) * ?b \<le> ?k * ?b" by (rule mult_le_mono1)
    also have "\<dots> \<le> length rows + ?b - 1" by simp
    finally have "(i + 1) * ?b \<le> length rows" using b by (simp add: algebra_simps)
    then show ?thesis by (simp add: algebra_simps)
  qed
  have c5: "\<forall>i. i + 1 < length ?files \<longrightarrow> int (length (snd (?files ! i))) = B"
  proof (intro allI impI)
    fix i assume i: "i + 1 < length ?files"
    then have "i + 1 < ?k" by (simp only: len)
    moreover from this have "i < ?k" by simp
    ultimately show "int (length (snd (?files ! i))) = B"
      using full [of i] assms(2) by (simp add: w del: length_take)
  qed
  have ne: "take ?b (drop (i * ?b) rows) \<noteq> []" if "i < ?k" for i
  proof -
    have "i * ?b + ?b \<le> ?k * ?b" using that
      by (metis Suc_leI mult_Suc mult_le_mono1 add.commute)
    also have "\<dots> \<le> length rows + ?b - 1" by simp
    finally have "i * ?b < length rows" using b by simp
    then show ?thesis using b by simp
  qed
  have c6: "\<forall>f \<in> set ?files. snd f \<noteq> [] \<and> int (length (snd f)) \<le> B"
    using ne assms(2) by (auto simp: w)
  have c8: "concat (map snd ?files) = rows"
    using batch_loop_concat [OF assms(2), of fsize tname "batch_init rows"]
    by (simp add: batch_init_def)
  have "sum_list (map (\<lambda>f. length (snd f)) ?files) = length (concat (map snd ?files))"
    by (simp add: length_concat o_def)
  then have c7: "sum_list (map (\<lambda>f. length (snd f)) ?files) = length rows"
    by (simp only: c8)
  have c9: "row_count ?r = length rows"
    using batch_loop_row_count [OF assms(2), of fsize tname "batch_init rows"]
    by (simp add: batch_init_def)
  show ?thesis
    unfolding Let_def using c1 c2 c3 c4 c5 c6 c7 c8 c9 by blast
qed

lemma batch_size_of_2: "batch_size_of ''2'' = Inr 2"
  by (simp add: batch_size_of_def py_int_def strip_def lstrip_def rstrip_def is_space_def
      parse_unsigned_def is_digit_def digit_val_def)

theorem capture_batch_files_witness:
  "batch_size_of ''2'' = Inr 2 \<and> (0::int) < 2 \<and>
   (let files = written (batch_loop (\<lambda>rows. 10 * length rows) ''orders'' 2
                   (batch_init [1, 2, 3, 4, 5 :: nat]))
    in int (length files) = \<lceil>real 5 / real_of_int 2\<rceil> \<and>
       (\<forall>i. i + 1 < length files \<longrightarrow> int (length (snd (files ! i))) = 2) \<and>
       sum_list (map (\<lambda>f. length (snd f)) files) = 5)"
proof -
  have h: "batch_size_of ''2'' = Inr 2" by (rule batch_size_of_2)
  have p: "(0::int) < 2" by simp
  show ?thesis
    using capture_batch_files [OF h p, of "\<lambda>rows. 10 * length rows" "''orders''"
        "[1, 2, 3, 4, 5 :: nat]"] h
    by (simp add: Let_def)
qed

section \<open>The SQL templates, indented and expanded\<close>

lemma indent_merge_template:
  "indent merge_template =
     ''-- s:source, t:target\<newline>'' @
     ''merge {schema_name}.{table_name} with (serializable) as t\<newline>'' @
     ''  using {schema_name}._{table_name} as s\<newline>'' @
     ''    on {match_condition}\<newline>'' @
     ''  when matched then\<newline>'' @
     ''    -- t.column1 = s.column1, ...\<newline>'' @
     ''    update set\<newline>'' @
     ''{column_assignments}\<newline>'' @
     ''  when not matched by target then\<newline>'' @
     ''    insert\<newline>'' @
     ''      -- (column1, column2, ...)\<newline>'' @
     ''      ({column_names})\<newline>'' @
     ''      values\<newline>'' @
     ''      -- (s.column1, s.column2, ...)\<newline>'' @
     ''      ({source_column_names});''"
  by code_simp

lemma indent_select_template:
  \<open>indent select_template =
     ''select\<newline>'' @
     ''{column_names},\<newline>'' @
     ''{job_id} as "udp_job",\<newline>'' @
     ''{timestamp_value} as "udp_timestamp"\<newline>'' @
     ''from "{schema_name}"."{table_name}" as "s"\<newline>'' @
     ''{join_clause}\<newline>'' @
     ''{where_clause}\<newline>'' @
     ''{order_clause}''\<close>
  by code_simp

lemma indent_timestamp_where_template:
  \<open>indent timestamp_where_template =
     ''(\<newline>'' @
     ''{timestamp_value} >= '' @ [CHR 0x27] @ ''{last_timestamp}'' @ [CHR 0x27] @ '' and\<newline>'' @
     ''{timestamp_value} < '' @ [CHR 0x27] @ ''{current_timestamp}'' @ [CHR 0x27] @ ''\<newline>'' @
     '')''\<close>
  by code_simp

lemma expand_timestamp_where:
  \<open>expand [''timestamp_value'' \<mapsto> tv, ''last_timestamp'' \<mapsto> lo, ''current_timestamp'' \<mapsto> hi]
      (indent timestamp_where_template) =
   Inr (''(\<newline>'' @ tv @ '' >= '' @ [CHR 0x27] @ lo @ [CHR 0x27] @ '' and\<newline>'' @
        tv @ '' < '' @ [CHR 0x27] @ hi @ [CHR 0x27] @ ''\<newline>)'')\<close>
  by (simp add: expand_def indent_timestamp_where_template emit_def)

lemma expand_select:
  \<open>expand [''schema_name'' \<mapsto> sn, ''table_name'' \<mapsto> tn, ''column_names'' \<mapsto> cols,
           ''job_id'' \<mapsto> job, ''timestamp_value'' \<mapsto> tv, ''join_clause'' \<mapsto> jc,
           ''where_clause'' \<mapsto> wc, ''order_clause'' \<mapsto> oc]
      (indent select_template) =
   Inr (''select\<newline>'' @ cols @ '',\<newline>'' @ job @ '' as "udp_job",\<newline>'' @
        tv @ '' as "udp_timestamp"\<newline>from "'' @ sn @ ''"."'' @ tn @ ''" as "s"\<newline>'' @
        jc @ ''\<newline>'' @ wc @ ''\<newline>'' @ oc)\<close>
  by (simp add: expand_def indent_select_template emit_def)

lemma expand_merge:
  \<open>expand [''schema_name'' \<mapsto> sn, ''nk'' \<mapsto> nk, ''table_name'' \<mapsto> tn,
           ''match_condition'' \<mapsto> mc, ''column_assignments'' \<mapsto> ca,
           ''column_names'' \<mapsto> cn, ''source_column_names'' \<mapsto> scn]
      (indent merge_template) =
   Inr (''-- s:source, t:target\<newline>'' @
        ''merge '' @ sn @ ''.'' @ tn @ '' with (serializable) as t\<newline>'' @
        ''  using '' @ sn @ ''._'' @ tn @ '' as s\<newline>'' @
        ''    on '' @ mc @ ''\<newline>'' @
        ''  when matched then\<newline>'' @
        ''    -- t.column1 = s.column1, ...\<newline>'' @
        ''    update set\<newline>'' @
        ca @ ''\<newline>'' @
        ''  when not matched by target then\<newline>'' @
        ''    insert\<newline>'' @
        ''      -- (column1, column2, ...)\<newline>'' @
        ''      ('' @ cn @ '')\<newline>'' @
        ''      values\<newline>'' @
        ''      -- (s.column1, s.column2, ...)\<newline>'' @
        ''      ('' @ scn @ '');'')\<close>
  by (simp add: expand_def indent_merge_template emit_def)

section \<open>\<open>stage.py\<close>: schemas, statements and batches\<close>

lemma extended_definitions_eq:
  "extended_definitions = [''udp_jobid int'', '' udp_timestamp datetime2'']"
  by code_simp

lemma split_ws_udp_jobid: "split_ws ''udp_jobid int'' = [''udp_jobid'', ''int'']"
  by code_simp

lemma split_ws_udp_timestamp: "split_ws '' udp_timestamp datetime2'' = [''udp_timestamp'', ''datetime2'']"
  by code_simp

lemma add_extended_columns_eq:
  "add_extended_columns schema extended_definitions =
     Inr (schema\<lparr>columns := with_extended_columns (columns schema)\<rparr>)"
  by (simp add: extended_definitions_eq split_ws_udp_jobid split_ws_udp_timestamp
      with_extended_columns_def)

lemma convert_to_mssql_eq:
  "convert_to_mssql schema extended_definitions =
     Inr (schema\<lparr>columns := map (\<lambda>(name, col). (name, convert_column col))
                                (with_extended_columns (columns schema))\<rparr>)"
  by (simp add: convert_to_mssql_def add_extended_columns_eq)

lemma add_definitions_eq:
  "add_definitions schema extended_definitions =
     Inr (schema\<lparr>columns :=
       set_column ''udp_timestamp'' (Column\<lparr>data_type := ''datetime2'', character_maximum_length := None\<rparr>)
         (set_column ''udp_jobid'' (Column\<lparr>data_type := ''int'', character_maximum_length := None\<rparr>)
            (columns schema))\<rparr>)"
  by (simp add: extended_definitions_eq add_definition_def split_ws_udp_jobid split_ws_udp_timestamp)

lemma create_table_new:
  "(schema, tname) \<notin> existing_tables conn \<Longrightarrow>
   create_table_from_table_schema conn schema tname tschema extended_definitions =
     Inr (conn\<lparr>existing_tables := insert (schema, tname) (existing_tables conn),
               db_calls := db_calls conn @ [CreateTable schema tname (created_schema tschema)]\<rparr>,
          created_schema tschema)"
  by (simp add: create_table_from_table_schema_def does_table_exist_def add_definitions_eq
      created_schema_def)

lemma create_table_existing:
  "(schema, tname) \<in> existing_tables conn \<Longrightarrow>
   create_table_from_table_schema conn schema tname tschema extended_definitions = Inr (conn, tschema)"
  by (simp add: create_table_from_table_schema_def does_table_exist_def)

lemma MergeCDC_init_eq:
  "MergeCDC_init table extended_definitions =
     Inr (let table = (if ''udp_jobid'' \<notin> set (column_names table)
                       then table\<lparr>column_names := column_names table @ [''udp_jobid'']\<rparr> else table)
          in if ''udp_timestamp'' \<notin> set (column_names table)
             then table\<lparr>column_names := column_names table @ [''udp_timestamp'']\<rparr> else table)"
  by (simp add: extended_definitions_eq split_ws_udp_jobid split_ws_udp_timestamp Let_def)

lemma MergeCDC_merge_eq:
  \<open>MergeCDC_merge table schema nk =
     Inr (delete_blank_lines (strip (
        ''-- s:source, t:target\<newline>'' @
        ''merge '' @ schema @ ''.'' @ table_name table @ '' with (serializable) as t\<newline>'' @
        ''  using '' @ schema @ ''._'' @ table_name table @ '' as s\<newline>'' @
        ''    on '' @ MergeCDC_match_condition nk @ ''\<newline>'' @
        ''  when matched then\<newline>'' @
        ''    -- t.column1 = s.column1, ...\<newline>'' @
        ''    update set\<newline>'' @
        MergeCDC_column_assignments table @ ''\<newline>'' @
        ''  when not matched by target then\<newline>'' @
        ''    insert\<newline>'' @
        ''      -- (column1, column2, ...)\<newline>'' @
        ''      ('' @ MergeCDC_column_names table @ '')\<newline>'' @
        ''      values\<newline>'' @
        ''      -- (s.column1, s.column2, ...)\<newline>'' @
        ''      ('' @ MergeCDC_source_column_names table @ '');'')))\<close>
  unfolding MergeCDC_merge_def by (simp only: expand_merge sum.case)

subsection \<open>The loops over the batches of a table\<close>

lemma load_batches_calls:
  "db_calls (load_batches convert ds tn tschema batches conn) =
     db_calls conn @ map (\<lambda>rows. BulkInsert ds tn tschema (convert tschema rows))
                       (filter (\<lambda>rows. rows \<noteq> []) batches)"
  by (induction batches arbitrary: conn) (simp_all add: bulk_insert_into_table_def)

lemma load_batches_tables:
  "existing_tables (load_batches convert ds tn tschema batches conn) = existing_tables conn"
  by (induction batches arbitrary: conn) (simp_all add: bulk_insert_into_table_def)

lemma load_batches_rest:
  "stage_arrival_queue (load_batches convert ds tn tschema batches conn) = stage_arrival_queue conn"
  by (induction batches arbitrary: conn) (simp_all add: bulk_insert_into_table_def)

lemma load_temp_batches_all:
  "\<forall>rows \<in> set batches. rows \<noteq> [] \<Longrightarrow>
   load_temp_batches convert ds tn tschema batches conn =
     (True, conn\<lparr>db_calls := db_calls conn @
        map (\<lambda>rows. BulkInsert ds tn tschema (convert tschema rows)) batches\<rparr>)"
  by (induction batches arbitrary: conn) (simp_all add: bulk_insert_into_table_def)

lemma load_temp_batches_break:
  "\<forall>rows \<in> set before. rows \<noteq> [] \<Longrightarrow>
   load_temp_batches convert ds tn tschema (before @ [] # after) conn =
     (False, conn\<lparr>db_calls := db_calls conn @
        map (\<lambda>rows. BulkInsert ds tn tschema (convert tschema rows)) before\<rparr>)"
  by (induction before arbitrary: conn) (simp_all add: bulk_insert_into_table_def)

subsection \<open>Reloading and merging one table\<close>

lemma convert_to_mssql_converted:
  "convert_to_mssql schema extended_definitions = Inr (converted_schema schema)"
  by (simp add: convert_to_mssql_eq converted_schema_def)

lemma temp_name_neq: "''_'' @ tn \<noteq> tn"
proof
  assume "''_'' @ tn = tn"
  then have "length (''_'' @ tn) = length tn" by (rule arg_cong)
  then show False by simp
qed

lemma reload_table_eq:
  "reload_table convert ds tn tschema batches conn =
     Inr (load_batches convert ds tn (created_schema tschema) batches
            ((db_drop_table conn ds tn)
               \<lparr>existing_tables := insert (ds, tn) (existing_tables (db_drop_table conn ds tn)),
                db_calls := db_calls (db_drop_table conn ds tn) @
                              [CreateTable ds tn (created_schema tschema)]\<rparr>))"
proof -
  have "(ds, tn) \<notin> existing_tables (db_drop_table conn ds tn)"
    by (simp add: db_drop_table_def does_table_exist_def)
  then show ?thesis
    by (simp add: reload_table_def create_table_new Let_def)
qed

lemma reload_table_calls:
  "reload_table convert ds tn tschema batches conn = Inr conn' \<Longrightarrow>
   db_calls conn' =
     db_calls conn @ (if (ds, tn) \<in> existing_tables conn then [DropTable ds tn] else []) @
     CreateTable ds tn (created_schema tschema) #
     map (\<lambda>rows. BulkInsert ds tn (created_schema tschema) (convert (created_schema tschema) rows))
       (filter (\<lambda>rows. rows \<noteq> []) batches) \<and>
   existing_tables conn' = insert (ds, tn) (existing_tables conn)"
  by (auto simp add: reload_table_eq load_batches_calls load_batches_tables db_drop_table_def
      does_table_exist_def)

lemma merge_table_complete:
  assumes "(ds, tn) \<in> existing_tables conn" and "\<forall>rows \<in> set batches. rows \<noteq> []"
    and "MergeCDC_init table extended_definitions = Inr merge_cdc"
    and "MergeCDC_merge merge_cdc ds pk = Inr sql"
  shows "\<exists>conn'. merge_table convert ds tn table pk tschema batches conn = Inr conn' \<and>
     db_calls conn' =
       db_calls conn @ (if (ds, ''_'' @ tn) \<in> existing_tables conn then [DropTable ds (''_'' @ tn)] else []) @
       CreateTable ds (''_'' @ tn) (created_schema tschema) #
       map (\<lambda>rows. BulkInsert ds (''_'' @ tn) (created_schema tschema) (convert (created_schema tschema) rows))
         batches @
       [Execute sql, DropTable ds (''_'' @ tn)] \<and>
     existing_tables conn' = existing_tables conn - {(ds, ''_'' @ tn)}"
proof -
  let ?temp = "''_'' @ tn"
  let ?c1 = "db_drop_table conn ds ?temp"
  have n1: "(ds, ?temp) \<notin> existing_tables ?c1"
    by (simp add: db_drop_table_def does_table_exist_def)
  show ?thesis
    using assms n1
    by (simp add: merge_table_def does_table_exist_def Let_def create_table_new
        load_temp_batches_all cursor_execute_target_def)
       (auto simp add: db_drop_table_def does_table_exist_def)
qed

lemma merge_table_break:
  assumes "\<forall>rows \<in> set before. rows \<noteq> []"
  shows "\<exists>conn'. merge_table convert ds tn table pk tschema (before @ [] # after) conn = Inr conn' \<and>
     db_calls conn' =
       db_calls conn @
       (if (ds, tn) \<in> existing_tables conn then [] else [CreateTable ds tn (created_schema tschema)]) @
       (if (ds, ''_'' @ tn) \<in> existing_tables conn then [DropTable ds (''_'' @ tn)] else []) @
       CreateTable ds (''_'' @ tn)
         (if (ds, tn) \<in> existing_tables conn then created_schema tschema
          else created_schema (created_schema tschema)) #
       map (\<lambda>rows. BulkInsert ds (''_'' @ tn)
                     (if (ds, tn) \<in> existing_tables conn then created_schema tschema
                      else created_schema (created_schema tschema))
                     (convert (if (ds, tn) \<in> existing_tables conn then created_schema tschema
                               else created_schema (created_schema tschema)) rows))
         before @
       [DropTable ds (''_'' @ tn)] \<and>
     existing_tables conn' = insert (ds, tn) (existing_tables conn) - {(ds, ''_'' @ tn)}"
proof (cases "(ds, tn) \<in> existing_tables conn")
  case True
  let ?temp = "''_'' @ tn"
  let ?c1 = "db_drop_table conn ds ?temp"
  have n1: "(ds, ?temp) \<notin> existing_tables ?c1"
    by (simp add: db_drop_table_def does_table_exist_def)
  show ?thesis
    using assms n1 True
    by (simp add: merge_table_def does_table_exist_def Let_def create_table_new
        load_temp_batches_break)
       (auto simp add: db_drop_table_def does_table_exist_def)
next
  case False
  let ?temp = "''_'' @ tn"
  let ?c0 = "conn\<lparr>existing_tables := insert (ds, tn) (existing_tables conn),
                   db_calls := db_calls conn @ [CreateTable ds tn (created_schema tschema)]\<rparr>"
  let ?c1 = "db_drop_table ?c0 ds ?temp"
  have n1: "(ds, ?temp) \<notin> existing_tables ?c1"
    by (simp add: db_drop_table_def does_table_exist_def)
  show ?thesis
    using assms n1 False temp_name_neq [of tn]
    by (simp add: merge_table_def does_table_exist_def Let_def create_table_new
        load_temp_batches_break)
       (auto simp add: db_drop_table_def does_table_exist_def)
qed

subsection \<open>The choice between reload and merge\<close>

lemma stage_table_reload:
  assumes "artifact_schema a = Some sch" and "artifact_pk a = Some pk_text"
    and "drop_table (artifact_table a) = []"
    and "cdc (artifact_table a) = [] \<or> lower (cdc (artifact_table a)) = ''none'' \<or> strip pk_text = []"
  shows "stage_table convert ds a conn =
     (case reload_table convert ds (artifact_name a) (converted_schema sch) (artifact_batches a) conn of
        Inl e \<Rightarrow> Inl e | Inr conn' \<Rightarrow> Inr (Next, conn'))"
  using assms by (simp add: stage_table_def Let_def convert_to_mssql_converted)

lemma stage_table_merge:
  assumes "artifact_schema a = Some sch" and "artifact_pk a = Some pk_text"
    and "drop_table (artifact_table a) = []"
    and "cdc (artifact_table a) \<noteq> []" and "lower (cdc (artifact_table a)) \<noteq> ''none''"
    and "strip pk_text \<noteq> []"
  shows "stage_table convert ds a conn =
     (case merge_table convert ds (artifact_name a)
             ((artifact_table a)\<lparr>table_name := artifact_name a, column_names := map fst (columns sch)\<rparr>)
             (strip pk_text) (converted_schema sch) (artifact_batches a) conn of
        Inl e \<Rightarrow> Inl e | Inr conn' \<Rightarrow> Inr (Next, conn'))"
  using assms by (simp add: stage_table_def Let_def convert_to_mssql_converted)

lemma lower_timestamp: "lower s = ''timestamp'' \<Longrightarrow> s \<noteq> [] \<and> lower s \<noteq> ''none''"
  by (auto simp: lower_def)

text \<open>
  Claim C7, with the conditions the code tests. The table artifact has its schema and primary key files
  and is not marked for drop.

  \<^item> When the table has no CDC strategy, or the strategy is \<open>none\<close> in any letter case, or the captured
    primary key is blank, the target table is dropped if it exists, created again from the converted
    schema, and every non-empty batch is bulk-inserted into it, in order.
  \<^item> When the strategy is \<open>timestamp\<close>, the captured primary key is not blank, the target table exists
    and no batch is empty, the target table is not dropped: the batches are bulk-inserted into the
    temporary table \<open>_<table>\<close>, the merge statement generated by \<open>MergeCDC.merge\<close> is executed, and
    the temporary table is dropped.
\<close>

theorem stage_reload_or_merge:
  assumes "artifact_schema a = Some sch" and "artifact_pk a = Some pk_text"
    and "drop_table (artifact_table a) = []"
  shows
    "(cdc (artifact_table a) = [] \<or> lower (cdc (artifact_table a)) = ''none'' \<or> strip pk_text = [] \<longrightarrow>
       (\<exists>conn'. stage_table convert ds a conn = Inr (Next, conn') \<and>
          db_calls conn' =
            db_calls conn @
            (if (ds, artifact_name a) \<in> existing_tables conn then [DropTable ds (artifact_name a)] else []) @
            CreateTable ds (artifact_name a) (created_schema (converted_schema sch)) #
            map (\<lambda>rows. BulkInsert ds (artifact_name a) (created_schema (converted_schema sch))
                          (convert (created_schema (converted_schema sch)) rows))
              (filter (\<lambda>rows. rows \<noteq> []) (artifact_batches a)) \<and>
          existing_tables conn' = insert (ds, artifact_name a) (existing_tables conn))) \<and>
     (lower (cdc (artifact_table a)) = ''timestamp'' \<and> strip pk_text \<noteq> [] \<and>
      (ds, artifact_name a) \<in> existing_tables conn \<and> (\<forall>rows \<in> set (artifact_batches a). rows \<noteq> []) \<longrightarrow>
       (\<exists>conn' merge_cdc sql.
          stage_table convert ds a conn = Inr (Next, conn') \<and>
          MergeCDC_init ((artifact_table a)\<lparr>table_name := artifact_name a,
                                             column_names := map fst (columns sch)\<rparr>)
            extended_definitions = Inr merge_cdc \<and>
          MergeCDC_merge merge_cdc ds (strip pk_text) = Inr sql \<and>
          db_calls conn' =
            db_calls conn @
            (if (ds, ''_'' @ artifact_name a) \<in> existing_tables conn
             then [DropTable ds (''_'' @ artifact_name a)] else []) @
            CreateTable ds (''_'' @ artifact_name a) (created_schema (converted_schema sch)) #
            map (\<lambda>rows. BulkInsert ds (''_'' @ artifact_name a) (created_schema (converted_schema sch))
                          (convert (created_schema (converted_schema sch)) rows))
              (artifact_batches a) @
            [Execute sql, DropTable ds (''_'' @ artifact_name a)] \<and>
          DropTable ds (artifact_name a) \<notin> set (drop (length (db_calls conn)) (db_calls conn')) \<and>
          (ds, artifact_name a) \<in> existing_tables conn'))"
proof (intro conjI impI)
  assume c: "cdc (artifact_table a) = [] \<or> lower (cdc (artifact_table a)) = ''none'' \<or> strip pk_text = []"
  let ?S = "converted_schema sch"
  obtain conn' where r: "reload_table convert ds (artifact_name a) ?S (artifact_batches a) conn = Inr conn'"
    by (simp add: reload_table_eq)
  have s: "stage_table convert ds a conn = Inr (Next, conn')"
    using stage_table_reload [OF assms, of convert ds conn] c r by auto
  show "\<exists>conn'. stage_table convert ds a conn = Inr (Next, conn') \<and>
          db_calls conn' =
            db_calls conn @
            (if (ds, artifact_name a) \<in> existing_tables conn then [DropTable ds (artifact_name a)] else []) @
            CreateTable ds (artifact_name a) (created_schema (converted_schema sch)) #
            map (\<lambda>rows. BulkInsert ds (artifact_name a) (created_schema (converted_schema sch))
                          (convert (created_schema (converted_schema sch)) rows))
              (filter (\<lambda>rows. rows \<noteq> []) (artifact_batches a)) \<and>
          existing_tables conn' = insert (ds, artifact_name a) (existing_tables conn)"
    using s reload_table_calls [OF r] by blast
next
  assume m: "lower (cdc (artifact_table a)) = ''timestamp'' \<and> strip pk_text \<noteq> [] \<and>
      (ds, artifact_name a) \<in> existing_tables conn \<and> (\<forall>rows \<in> set (artifact_batches a). rows \<noteq> [])"
  let ?S = "converted_schema sch"
  let ?tn = "artifact_name a"
  let ?t = "(artifact_table a)\<lparr>table_name := ?tn, column_names := map fst (columns sch)\<rparr>"
  have c: "cdc (artifact_table a) \<noteq> []" "lower (cdc (artifact_table a)) \<noteq> ''none''"
    using m lower_timestamp by blast+
  obtain merge_cdc where i: "MergeCDC_init ?t extended_definitions = Inr merge_cdc"
    by (simp add: MergeCDC_init_eq)
  obtain sql where q: "MergeCDC_merge merge_cdc ds (strip pk_text) = Inr sql"
    by (simp add: MergeCDC_merge_eq)
  from m have ex: "(ds, ?tn) \<in> existing_tables conn" and ne: "\<forall>rows \<in> set (artifact_batches a). rows \<noteq> []"
    by simp_all
  obtain conn' where r: "merge_table convert ds ?tn ?t (strip pk_text) ?S (artifact_batches a) conn = Inr conn'"
    and calls: "db_calls conn' =
       db_calls conn @ (if (ds, ''_'' @ ?tn) \<in> existing_tables conn then [DropTable ds (''_'' @ ?tn)] else []) @
       CreateTable ds (''_'' @ ?tn) (created_schema ?S) #
       map (\<lambda>rows. BulkInsert ds (''_'' @ ?tn) (created_schema ?S) (convert (created_schema ?S) rows))
         (artifact_batches a) @
       [Execute sql, DropTable ds (''_'' @ ?tn)]"
    and tabs: "existing_tables conn' = existing_tables conn - {(ds, ''_'' @ ?tn)}"
    using merge_table_complete [OF ex ne i q, of convert ?S] by blast
  have s: "stage_table convert ds a conn = Inr (Next, conn')"
    using stage_table_merge [OF assms c, of convert ds conn] m r by simp
  have nd: "DropTable ds ?tn \<notin> set (drop (length (db_calls conn)) (db_calls conn'))"
    using temp_name_neq [of ?tn] by (auto simp add: calls)
  have keep: "(ds, ?tn) \<in> existing_tables conn'"
    using ex temp_name_neq [of ?tn] by (simp add: tabs)
  show "\<exists>conn' merge_cdc sql.
          stage_table convert ds a conn = Inr (Next, conn') \<and>
          MergeCDC_init ((artifact_table a)\<lparr>table_name := artifact_name a,
                                             column_names := map fst (columns sch)\<rparr>)
            extended_definitions = Inr merge_cdc \<and>
          MergeCDC_merge merge_cdc ds (strip pk_text) = Inr sql \<and>
          db_calls conn' =
            db_calls conn @
            (if (ds, ''_'' @ artifact_name a) \<in> existing_tables conn
             then [DropTable ds (''_'' @ artifact_name a)] else []) @
            CreateTable ds (''_'' @ artifact_name a) (created_schema (converted_schema sch)) #
            map (\<lambda>rows. BulkInsert ds (''_'' @ artifact_name a) (created_schema (converted_schema sch))
                          (convert (created_schema (converted_schema sch)) rows))
              (artifact_batches a) @
            [Execute sql, DropTable ds (''_'' @ artifact_name a)] \<and>
          DropTable ds (artifact_name a) \<notin> set (drop (length (db_calls conn)) (db_calls conn')) \<and>
          (ds, artifact_name a) \<in> existing_tables conn'"
    using s i q calls nd keep by blast
qed

subsection \<open>A sample package\<close>

lemma strip_id: "strip ''id'' = ''id''" by code_simp

lemma strip_empty: "strip [] = []" by code_simp

lemma lower_timestamp_text: "lower ''timestamp'' = ''timestamp''" by code_simp

text \<open>
  A table with \<open>cdc = timestamp\<close> whose captured primary key is blank and whose target table exists:
  the target table is dropped and reloaded, not merged.
\<close>

theorem keyless_timestamp_table_counterexample:
  "lower (cdc (artifact_table keyless_artifact)) = ''timestamp'' \<and>
   (''sales'', ''orders'') \<in> existing_tables sample_db \<and>
   stage_table keep_rows ''sales'' keyless_artifact sample_db =
     Inr (Next,
          sample_db\<lparr>db_calls :=
            [DropTable ''sales'' ''orders'',
             CreateTable ''sales'' ''orders'' (created_schema (converted_schema sample_schema)),
             BulkInsert ''sales'' ''orders'' (created_schema (converted_schema sample_schema)) [1, 2],
             BulkInsert ''sales'' ''orders'' (created_schema (converted_schema sample_schema)) [3]]\<rparr>)"
proof -
  have 1: "artifact_schema keyless_artifact = Some sample_schema"
    by (simp add: keyless_artifact_def keyed_artifact_def)
  have 2: "artifact_pk keyless_artifact = Some []"
    by (simp add: keyless_artifact_def keyed_artifact_def)
  have 3: "drop_table (artifact_table keyless_artifact) = []"
    by (simp add: keyless_artifact_def keyed_artifact_def sample_table_def)
  have 4: "cdc (artifact_table keyless_artifact) = [] \<or>
           lower (cdc (artifact_table keyless_artifact)) = ''none'' \<or> strip [] = []"
    by (simp add: strip_empty)
  have n: "artifact_name keyless_artifact = ''orders''" "artifact_batches keyless_artifact = [[1, 2], [3]]"
    by (simp_all add: keyless_artifact_def keyed_artifact_def)
  have c: "lower (cdc (artifact_table keyless_artifact)) = ''timestamp''"
    by (simp add: keyless_artifact_def keyed_artifact_def sample_table_def lower_timestamp_text)
  have e: "(''sales'', ''orders'') \<in> existing_tables sample_db" by (simp add: sample_db_def)
  show ?thesis
    using c e
    by (auto simp add: stage_table_reload [OF 1 2 3 4] n reload_table_eq load_batches_calls
        db_drop_table_def does_table_exist_def sample_db_def keep_rows_def
        bulk_insert_into_table_def)
qed

lemma stage_tables_drop_marked:
  assumes "artifact_schema a = Some sch" and "artifact_pk a = Some pk_text"
    and "drop_table (artifact_table a) \<noteq> []"
  shows "stage_tables convert ds (a # rest) conn = Inr (db_drop_table conn ds (artifact_name a))"
  using assms by (simp add: stage_table_def Let_def)

lemma process_next_after_stage_file:
  assumes "select_from_stage_arrival_queue (target_db_conn world) = Some (name, queued)"
    and "py_int (last (rsplit1 (CHR ''#'') (case split_char (CHR ''.'') name of
                                               [] \<Rightarrow> [] | part # parts \<Rightarrow> part))) = Some job"
    and "StageDaemon_stage_file convert config (fst (partition_str ''#'' name) @ ''/'' @ name) world =
           (Inr (), world')"
  shows "StageDaemon_process_next_file_to_stage convert config world =
     (Inr True,
      world'\<lparr>target_db_conn :=
        insert_into_stage_pending_queue
          (delete_from_stage_pending_queue
             (delete_from_stage_arrival_queue (target_db_conn world') name) name)
          (fst (partition_str ''#'' name) @ ''#'' @ fmt_zero 9 (job + 1) @ ''.zip'')\<rparr>)"
  using assms by (simp add: StageDaemon_process_next_file_to_stage_def Let_def)

lemma queue_entry_removed:
  "name \<notin> fst ` set (stage_arrival_queue
      (insert_into_stage_pending_queue
         (delete_from_stage_pending_queue (delete_from_stage_arrival_queue conn name) name) next_name))"
  by (auto simp add: insert_into_stage_pending_queue_def delete_from_stage_pending_queue_def
      delete_from_stage_arrival_queue_def)

text \<open>
  Claim C10. A table artifact with a CDC strategy and a primary key, not marked for drop, one of whose
  batches is an empty row list. The batches before the first empty one are bulk-inserted into the
  temporary table \<open>_<table>\<close>; the loop then breaks, so the \<open>else\<close> branch of the \<open>for\<close> loop, which
  executes the merge statement, is not run; the temporary table is dropped, and with it the rows loaded
  so far. No statement is executed against the target table (it is only created when it did not exist).
  Staging goes on with the remaining tables of the package, and when \<open>stage_file\<close> has returned,
  \<open>process_next_file_to_stage\<close> removes the package from the arrival queue.
\<close>

theorem empty_batch_skips_merge:
  assumes "artifact_schema a = Some sch" and "artifact_pk a = Some pk_text"
    and "drop_table (artifact_table a) = []"
    and "cdc (artifact_table a) \<noteq> []" and "lower (cdc (artifact_table a)) \<noteq> ''none''"
    and "strip pk_text \<noteq> []"
    and "artifact_batches a = before @ [] # after" and "\<forall>rows \<in> set before. rows \<noteq> []"
  shows
    "(\<exists>conn' tschema.
        stage_table convert ds a conn = Inr (Next, conn') \<and>
        drop (length (db_calls conn)) (db_calls conn') =
          (if (ds, artifact_name a) \<in> existing_tables conn then []
           else [CreateTable ds (artifact_name a) (created_schema (converted_schema sch))]) @
          (if (ds, ''_'' @ artifact_name a) \<in> existing_tables conn
           then [DropTable ds (''_'' @ artifact_name a)] else []) @
          CreateTable ds (''_'' @ artifact_name a) tschema #
          map (\<lambda>rows. BulkInsert ds (''_'' @ artifact_name a) tschema (convert tschema rows)) before @
          [DropTable ds (''_'' @ artifact_name a)] \<and>
        (\<forall>sql. Execute sql \<notin> set (drop (length (db_calls conn)) (db_calls conn'))) \<and>
        (ds, ''_'' @ artifact_name a) \<notin> existing_tables conn' \<and>
        stage_tables convert ds (a # rest) conn = stage_tables convert ds rest conn') \<and>
     (\<forall>config world world' name queued job.
        select_from_stage_arrival_queue (target_db_conn world) = Some (name, queued) \<and>
        py_int (last (rsplit1 (CHR ''#'') (case split_char (CHR ''.'') name of
                                              [] \<Rightarrow> [] | part # parts \<Rightarrow> part))) = Some job \<and>
        StageDaemon_stage_file convert config (fst (partition_str ''#'' name) @ ''/'' @ name) world =
          (Inr (), world') \<longrightarrow>
        fst (StageDaemon_process_next_file_to_stage convert config world) = Inr True \<and>
        name \<notin> fst ` set (stage_arrival_queue (target_db_conn
                  (snd (StageDaemon_process_next_file_to_stage convert config world)))))"
proof (intro conjI allI impI)
  let ?tn = "artifact_name a"
  let ?t = "(artifact_table a)\<lparr>table_name := ?tn, column_names := map fst (columns sch)\<rparr>"
  let ?S = "converted_schema sch"
  let ?T = "if (ds, ?tn) \<in> existing_tables conn then created_schema ?S
            else created_schema (created_schema ?S)"
  obtain conn' where r: "merge_table convert ds ?tn ?t (strip pk_text) ?S (before @ [] # after) conn = Inr conn'"
    and calls: "db_calls conn' =
       db_calls conn @
       (if (ds, ?tn) \<in> existing_tables conn then [] else [CreateTable ds ?tn (created_schema ?S)]) @
       (if (ds, ''_'' @ ?tn) \<in> existing_tables conn then [DropTable ds (''_'' @ ?tn)] else []) @
       CreateTable ds (''_'' @ ?tn) ?T #
       map (\<lambda>rows. BulkInsert ds (''_'' @ ?tn) ?T (convert ?T rows)) before @
       [DropTable ds (''_'' @ ?tn)]"
    and tabs: "existing_tables conn' = insert (ds, ?tn) (existing_tables conn) - {(ds, ''_'' @ ?tn)}"
    using merge_table_break [OF assms(8), of convert ds ?tn ?t "strip pk_text" ?S after conn] by blast
  have s: "stage_table convert ds a conn = Inr (Next, conn')"
    using stage_table_merge [OF assms(1-6), of convert ds conn] r assms(7) by simp
  have tail: "drop (length (db_calls conn)) (db_calls conn') =
       (if (ds, ?tn) \<in> existing_tables conn then [] else [CreateTable ds ?tn (created_schema ?S)]) @
       (if (ds, ''_'' @ ?tn) \<in> existing_tables conn then [DropTable ds (''_'' @ ?tn)] else []) @
       CreateTable ds (''_'' @ ?tn) ?T #
       map (\<lambda>rows. BulkInsert ds (''_'' @ ?tn) ?T (convert ?T rows)) before @
       [DropTable ds (''_'' @ ?tn)]"
    by (simp add: calls)
  have noexec: "\<forall>sql. Execute sql \<notin> set (drop (length (db_calls conn)) (db_calls conn'))"
    by (auto simp add: tail)
  have gone: "(ds, ''_'' @ ?tn) \<notin> existing_tables conn'" by (simp add: tabs)
  have cont: "stage_tables convert ds (a # rest) conn = stage_tables convert ds rest conn'"
    by (simp add: s)
  show "\<exists>conn' tschema.
        stage_table convert ds a conn = Inr (Next, conn') \<and>
        drop (length (db_calls conn)) (db_calls conn') =
          (if (ds, artifact_name a) \<in> existing_tables conn then []
           else [CreateTable ds (artifact_name a) (created_schema (converted_schema sch))]) @
          (if (ds, ''_'' @ artifact_name a) \<in> existing_tables conn
           then [DropTable ds (''_'' @ artifact_name a)] else []) @
          CreateTable ds (''_'' @ artifact_name a) tschema #
          map (\<lambda>rows. BulkInsert ds (''_'' @ artifact_name a) tschema (convert tschema rows)) before @
          [DropTable ds (''_'' @ artifact_name a)] \<and>
        (\<forall>sql. Execute sql \<notin> set (drop (length (db_calls conn)) (db_calls conn'))) \<and>
        (ds, ''_'' @ artifact_name a) \<notin> existing_tables conn' \<and>
        stage_tables convert ds (a # rest) conn = stage_tables convert ds rest conn'"
    using s tail noexec gone cont by blast
next
  fix config :: daemon_config and world world' :: "'a stage_world" and name queued job
  assume h: "select_from_stage_arrival_queue (target_db_conn world) = Some (name, queued) \<and>
        py_int (last (rsplit1 (CHR ''#'') (case split_char (CHR ''.'') name of
                                              [] \<Rightarrow> [] | part # parts \<Rightarrow> part))) = Some job \<and>
        StageDaemon_stage_file convert config (fst (partition_str ''#'' name) @ ''/'' @ name) world =
          (Inr (), world')"
  then have p: "StageDaemon_process_next_file_to_stage convert config world =
     (Inr True,
      world'\<lparr>target_db_conn :=
        insert_into_stage_pending_queue
          (delete_from_stage_pending_queue
             (delete_from_stage_arrival_queue (target_db_conn world') name) name)
          (fst (partition_str ''#'' name) @ ''#'' @ fmt_zero 9 (job + 1) @ ''.zip'')\<rparr>)"
    using process_next_after_stage_file by blast
  show "fst (StageDaemon_process_next_file_to_stage convert config world) = Inr True"
    by (simp add: p)
  show "name \<notin> fst ` set (stage_arrival_queue (target_db_conn
                  (snd (StageDaemon_process_next_file_to_stage convert config world))))"
    by (simp only: p snd_conv) (simp add: queue_entry_removed)
qed

subsection \<open>The sample package, staged\<close>

lemma sample_stem: "just_file_stem ''sales/sales#000000007.zip'' = ''sales#000000007''"
  by code_simp

lemma sample_name: "just_file_name ''sales/sales#000000007.zip'' = ''sales#000000007.zip''"
  by code_simp

lemma sample_dataset: "fst (partition_str ''#'' ''sales#000000007'') = ''sales''"
  by code_simp

lemma sample_dataset': "fst (partition_str ''#'' ''sales#000000007.zip'') = ''sales''"
  by code_simp

lemma sample_job:
  "py_int (last (rsplit1 (CHR ''#'') (case split_char (CHR ''.'') ''sales#000000007.zip'' of
                                        [] \<Rightarrow> [] | part # parts \<Rightarrow> part))) = Some 7"
  by code_simp

lemma sample_next: "fmt_zero 9 8 = ''000000008''"
  by code_simp

lemma connect_sample:
  "BlobStore_connect BlobStore sample_archive (blobs (archived_world arts)) = (True, archive_store)"
  by (simp add: BlobStore_connect_def Let_def archive_store_def load_resource_def blob_folder_def
      sample_archive_def archived_world_def BlobStore_def)

lemma get_sample:
  "BlobStore_get archive_store ''work/sales#000000007.zip'' ''sales/sales#000000007.zip''
     (blobs (archived_world arts)) = (Inr True, blobs (fetched_world arts))"
  by (simp add: BlobStore_get_def ensure_connected_def get_body_def archive_store_def
      load_resource_def blob_folder_def sample_archive_def archived_world_def BlobStore_def
      fetched_world_def)

lemma fetched_file:
  "local_files (blobs (fetched_world arts)) ''work/sales#000000007.zip'' = Some (sample_package arts)"
  by (simp add: fetched_world_def)

lemma stage_file_sample:
  "StageDaemon_stage_file keep_rows sample_config ''sales/sales#000000007.zip'' (archived_world arts) =
     (case stage_tables keep_rows ''sales'' arts sample_db of
        Inl (e, conn) \<Rightarrow> (Inl e, (fetched_world arts)\<lparr>target_db_conn := conn\<rparr>)
      | Inr conn \<Rightarrow> (Inr (), (fetched_world arts)\<lparr>target_db_conn := conn\<rparr>))"
proof -
  have cl: "clear_folder ''work'' (blobs (archived_world arts)) = blobs (archived_world arts)"
    by (auto simp add: clear_folder_def archived_world_def fun_eq_iff)
  have cs: "create_schema sample_db ''sales'' = sample_db"
    by (simp add: create_schema_def sample_db_def)
  have w: "(archived_world arts)\<lparr>blobs := blobs (archived_world arts)\<rparr> = archived_world arts"
    by simp
  have f: "(archived_world arts)\<lparr>blobs := blobs (fetched_world arts)\<rparr> = fetched_world arts"
    by (simp add: fetched_world_def)
  have t: "target_db_conn (fetched_world arts) = sample_db"
    by (simp add: fetched_world_def archived_world_def)
  have c: "work_folder sample_config = ''work''" "archive_resource sample_config = sample_archive"
    by (simp_all add: sample_config_def)
  have a: "artifacts (sample_package arts) = arts" by (simp add: sample_package_def)
  show ?thesis
    unfolding StageDaemon_stage_file_def
    by (simp add: c cl w connect_sample sample_stem sample_name sample_dataset Let_def
        get_sample f fetched_file t cs a split: sum.splits)
qed

lemma sample_job': "py_int (last (rsplit1 (CHR ''#'') ''sales#000000007'')) = Some 7"
  by code_simp

lemma process_next_sample:
  "StageDaemon_process_next_file_to_stage keep_rows sample_config (archived_world arts) =
     (case stage_tables keep_rows ''sales'' arts sample_db of
        Inl (e, conn) \<Rightarrow> (Inl e, (fetched_world arts)\<lparr>target_db_conn := conn\<rparr>)
      | Inr conn \<Rightarrow>
          (Inr True, (fetched_world arts)\<lparr>target_db_conn :=
             conn\<lparr>stage_arrival_queue := filter (\<lambda>row. fst row \<noteq> ''sales#000000007.zip'') (stage_arrival_queue conn),
                  stage_pending_queue := filter (\<lambda>row. row \<noteq> ''sales#000000007.zip'') (stage_pending_queue conn) @
                                           [''sales#000000008.zip'']\<rparr>\<rparr>))"
proof -
  have q: "select_from_stage_arrival_queue (target_db_conn (archived_world arts)) =
             Some (''sales#000000007.zip'', 7)"
    by (simp add: select_from_stage_arrival_queue_def archived_world_def sample_db_def)
  show ?thesis
  proof (cases "stage_tables keep_rows ''sales'' arts sample_db")
    case (Inl failure)
    then show ?thesis
      unfolding StageDaemon_process_next_file_to_stage_def
      by (cases failure) (simp add: q sample_job sample_job' sample_dataset' stage_file_sample)
  next
    case (Inr conn)
    then show ?thesis
      unfolding StageDaemon_process_next_file_to_stage_def
      by (simp add: q sample_job sample_job' sample_dataset' stage_file_sample sample_next Let_def
          delete_from_stage_arrival_queue_def delete_from_stage_pending_queue_def
          insert_into_stage_pending_queue_def)
  qed
qed

text \<open>
  The theorem on the sample package with the batches \<open>[1, 2]\<close>, \<open>[]\<close>, \<open>[3]\<close> of the keyed \<open>timestamp\<close>
  table \<open>orders\<close>.
\<close>

theorem empty_batch_skips_merge_witness:
  "artifact_schema broken_artifact = Some sample_schema \<and>
   artifact_pk broken_artifact = Some ''id'' \<and> strip ''id'' \<noteq> [] \<and>
   drop_table (artifact_table broken_artifact) = [] \<and>
   cdc (artifact_table broken_artifact) = ''timestamp'' \<and>
   artifact_batches broken_artifact = [[1, 2]] @ [] # [[3]] \<and>
   (\<exists>conn'. stage_table keep_rows ''sales'' broken_artifact sample_db = Inr (Next, conn') \<and>
      (\<forall>sql. Execute sql \<notin> set (db_calls conn')) \<and>
      (''sales'', ''_orders'') \<notin> existing_tables conn') \<and>
   fst (StageDaemon_process_next_file_to_stage keep_rows sample_config
          (archived_world [broken_artifact])) = Inr True \<and>
   ''sales#000000007.zip'' \<notin> fst ` set (stage_arrival_queue (target_db_conn
      (snd (StageDaemon_process_next_file_to_stage keep_rows sample_config
              (archived_world [broken_artifact])))))"
proof -
  have 1: "artifact_schema broken_artifact = Some sample_schema"
    by (simp add: broken_artifact_def keyed_artifact_def)
  have 2: "artifact_pk broken_artifact = Some ''id''"
    by (simp add: broken_artifact_def keyed_artifact_def)
  have 3: "drop_table (artifact_table broken_artifact) = []"
    by (simp add: broken_artifact_def keyed_artifact_def sample_table_def)
  have c: "cdc (artifact_table broken_artifact) = ''timestamp''"
    by (simp add: broken_artifact_def keyed_artifact_def sample_table_def)
  have 4: "cdc (artifact_table broken_artifact) \<noteq> []" by (simp add: c)
  have 5: "lower (cdc (artifact_table broken_artifact)) \<noteq> ''none''"
    by (simp add: c lower_timestamp_text)
  have 6: "strip ''id'' \<noteq> []" by (simp add: strip_id)
  have 7: "artifact_batches broken_artifact = [[1, 2]] @ [] # [[3]]"
    by (simp add: broken_artifact_def keyed_artifact_def)
  have 8: "\<forall>rows \<in> set [[1, 2 :: nat]]. rows \<noteq> []" by simp
  have n: "artifact_name broken_artifact = ''orders''"
    by (simp add: broken_artifact_def keyed_artifact_def)
  note inst = empty_batch_skips_merge [OF 1 2 3 4 5 6 7 8, of keep_rows "''sales''" sample_db "[]"]
  from inst obtain conn' where
    st: "stage_table keep_rows ''sales'' broken_artifact sample_db = Inr (Next, conn')"
    and ne: "\<forall>sql. Execute sql \<notin> set (drop (length (db_calls sample_db)) (db_calls conn'))"
    and gone: "(''sales'', ''_'' @ artifact_name broken_artifact) \<notin> existing_tables conn'"
    by blast
  have ne': "\<forall>sql. Execute sql \<notin> set (db_calls conn')"
    using ne by (simp add: sample_db_def)
  have gone': "(''sales'', ''_orders'') \<notin> existing_tables conn'"
    using gone by (simp add: n)
  have sts: "stage_tables keep_rows ''sales'' [broken_artifact] sample_db = Inr conn'"
    by (simp add: st)
  have sf: "StageDaemon_stage_file keep_rows sample_config
              (fst (partition_str ''#'' ''sales#000000007.zip'') @ ''/'' @ ''sales#000000007.zip'')
              (archived_world [broken_artifact]) =
            (Inr (), (fetched_world [broken_artifact])\<lparr>target_db_conn := conn'\<rparr>)"
    by (simp add: sample_dataset' stage_file_sample sts del: stage_tables.simps)
  have q: "select_from_stage_arrival_queue (target_db_conn (archived_world [broken_artifact])) =
             Some (''sales#000000007.zip'', 7)"
    by (simp add: select_from_stage_arrival_queue_def archived_world_def sample_db_def)
  from inst have u: "fst (StageDaemon_process_next_file_to_stage keep_rows sample_config
          (archived_world [broken_artifact])) = Inr True \<and>
     ''sales#000000007.zip'' \<notin> fst ` set (stage_arrival_queue (target_db_conn
        (snd (StageDaemon_process_next_file_to_stage keep_rows sample_config
              (archived_world [broken_artifact])))))"
    using q sample_job sf by blast
  show ?thesis
    using 1 2 3 c 6 7 st ne' gone' u by blast
qed

lemma lower_none_text: "lower ''none'' = ''none''" by code_simp

text \<open>
  The theorem on the table \<open>orders\<close>, whose target exists, once configured with \<open>cdc = none\<close> and once
  with \<open>cdc = timestamp\<close> and the primary key \<open>id\<close>.
\<close>

theorem stage_reload_or_merge_witness:
  "(\<exists>conn'. stage_table keep_rows ''sales'' none_artifact sample_db = Inr (Next, conn') \<and>
      db_calls conn' =
        [DropTable ''sales'' ''orders'',
         CreateTable ''sales'' ''orders'' (created_schema (converted_schema sample_schema)),
         BulkInsert ''sales'' ''orders'' (created_schema (converted_schema sample_schema)) [1, 2],
         BulkInsert ''sales'' ''orders'' (created_schema (converted_schema sample_schema)) [3]]) \<and>
   (\<exists>conn' sql. stage_table keep_rows ''sales'' keyed_artifact sample_db = Inr (Next, conn') \<and>
      db_calls conn' =
        [CreateTable ''sales'' ''_orders'' (created_schema (converted_schema sample_schema)),
         BulkInsert ''sales'' ''_orders'' (created_schema (converted_schema sample_schema)) [1, 2],
         BulkInsert ''sales'' ''_orders'' (created_schema (converted_schema sample_schema)) [3],
         Execute sql,
         DropTable ''sales'' ''_orders''] \<and>
      (''sales'', ''orders'') \<in> existing_tables conn')"
proof -
  have a1: "artifact_schema none_artifact = Some sample_schema"
    by (simp add: none_artifact_def keyed_artifact_def)
  have a2: "artifact_pk none_artifact = Some ''id''"
    by (simp add: none_artifact_def keyed_artifact_def)
  have a3: "drop_table (artifact_table none_artifact) = []"
    by (simp add: none_artifact_def keyed_artifact_def sample_table_def)
  have a4: "cdc (artifact_table none_artifact) = [] \<or>
            lower (cdc (artifact_table none_artifact)) = ''none'' \<or> strip ''id'' = []"
    by (simp add: none_artifact_def keyed_artifact_def sample_table_def lower_none_text)
  have an: "artifact_name none_artifact = ''orders''" "artifact_batches none_artifact = [[1, 2], [3]]"
    by (simp_all add: none_artifact_def keyed_artifact_def)
  have e: "(''sales'', ''orders'') \<in> existing_tables sample_db"
    "(''sales'', ''_orders'') \<notin> existing_tables sample_db" "db_calls sample_db = []"
    by (simp_all add: sample_db_def)
  have first: "\<exists>conn'. stage_table keep_rows ''sales'' none_artifact sample_db = Inr (Next, conn') \<and>
      db_calls conn' =
        [DropTable ''sales'' ''orders'',
         CreateTable ''sales'' ''orders'' (created_schema (converted_schema sample_schema)),
         BulkInsert ''sales'' ''orders'' (created_schema (converted_schema sample_schema)) [1, 2],
         BulkInsert ''sales'' ''orders'' (created_schema (converted_schema sample_schema)) [3]]"
    using stage_reload_or_merge [OF a1 a2 a3, of keep_rows "''sales''" sample_db] a4 e
    by (auto simp add: an keep_rows_def)
  have b1: "artifact_schema keyed_artifact = Some sample_schema"
    by (simp add: keyed_artifact_def)
  have b2: "artifact_pk keyed_artifact = Some ''id''"
    by (simp add: keyed_artifact_def)
  have b3: "drop_table (artifact_table keyed_artifact) = []"
    by (simp add: keyed_artifact_def sample_table_def)
  have b4: "lower (cdc (artifact_table keyed_artifact)) = ''timestamp'' \<and> strip ''id'' \<noteq> [] \<and>
      (''sales'', artifact_name keyed_artifact) \<in> existing_tables sample_db \<and>
      (\<forall>rows \<in> set (artifact_batches keyed_artifact). rows \<noteq> [])"
    by (simp add: keyed_artifact_def sample_table_def lower_timestamp_text strip_id sample_db_def)
  have bn: "artifact_name keyed_artifact = ''orders''" "artifact_batches keyed_artifact = [[1, 2], [3]]"
    by (simp_all add: keyed_artifact_def)
  have second: "\<exists>conn' sql. stage_table keep_rows ''sales'' keyed_artifact sample_db = Inr (Next, conn') \<and>
      db_calls conn' =
        [CreateTable ''sales'' ''_orders'' (created_schema (converted_schema sample_schema)),
         BulkInsert ''sales'' ''_orders'' (created_schema (converted_schema sample_schema)) [1, 2],
         BulkInsert ''sales'' ''_orders'' (created_schema (converted_schema sample_schema)) [3],
         Execute sql,
         DropTable ''sales'' ''_orders''] \<and>
      (''sales'', ''orders'') \<in> existing_tables conn'"
    using stage_reload_or_merge [OF b1 b2 b3, of keep_rows "''sales''" sample_db] b4 e
    by (auto simp add: bn keep_rows_def)
  show ?thesis using first second by blast
qed

subsection \<open>A table artifact that is marked for drop\<close>

text \<open>
  Where such an artifact comes from. \<open>capture.py\<close> skips a table that is marked for drop before it writes
  anything for it (lines 190 to 192; the table artifact is written in line 224), and the table artifacts
  it does write are not marked for drop. Its note in line 186 plans that the drop condition is passed on
  to stage; lines 225 to 229 of \<open>stage.py\<close> are the receiving end, for a package that carries it.
\<close>

lemma capture_writes_nothing_for_drop_marked_table:
  "drop_table table \<noteq> [] \<Longrightarrow>
   CaptureDaemon_process_table env db_engine fsize self schema tname table history snapshot current_seq =
     Inr (table, history, self)"
  by (simp add: CaptureDaemon_process_table_def)

lemma init_last_timestamp_drop_table:
  "init_last_timestamp env table history = Inr (table', history') \<Longrightarrow> drop_table table' = drop_table table"
  by (auto simp add: init_last_timestamp_def Let_def split: if_splits sum.splits)

lemma init_last_sequence_drop_table:
  "drop_table (fst (init_last_sequence table history)) = drop_table table"
  by (simp add: init_last_sequence_def Let_def)

lemma extract_table_files:
  assumes "extract_table env db_engine fsize self schema tname table history snapshot current_seq last_ts =
             Inr (table', history', out)"
    and "(name, TableFile written_table) \<in> set (work_files out)"
  shows "(name, TableFile written_table) \<in> set (work_files self) \<or> written_table = table"
  using assms
  by (auto simp add: extract_table_def Let_def save_file_def
      split: sum.splits option.splits prod.splits)

lemma captured_table_artifact_not_drop_marked:
  assumes "CaptureDaemon_process_table env db_engine fsize self schema tname table history snapshot
             current_seq = Inr (table', history', out)"
    and "(name, TableFile written_table) \<in> set (work_files out)"
    and "(name, TableFile written_table) \<notin> set (work_files self)"
  shows "drop_table written_table = []"
proof (cases "tname = ''default'' \<or> ignore_table table \<noteq> [] \<or> drop_table table \<noteq> []")
  case True
  then have "out = self"
    using assms(1) by (auto simp add: CaptureDaemon_process_table_def split: if_splits)
  then show ?thesis using assms(2,3) by simp
next
  case False
  then have d: "drop_table table = []" by simp
  have p: "(case init_last_timestamp env table history of
              Inl e \<Rightarrow> Inl e
            | Inr (t1, h1) \<Rightarrow>
                (case last_timestamp h1 of
                   None \<Rightarrow> Inl TypeError
                 | Some last_ts \<Rightarrow>
                     if last_ts > snapshot then Inr (t1, h1, self)
                     else (case init_last_sequence t1 h1 of
                             (t2, h2) \<Rightarrow>
                               extract_table env db_engine fsize self schema tname t2 h2
                                 snapshot current_seq last_ts))) = Inr (table', history', out)"
    using False assms(1) by (simp add: CaptureDaemon_process_table_def)
  then obtain t1 h1 where i: "init_last_timestamp env table history = Inr (t1, h1)"
    by (cases "init_last_timestamp env table history") auto
  from p i obtain last_ts where l: "last_timestamp h1 = Some last_ts"
    by (cases "last_timestamp h1") auto
  obtain t2 h2 where s: "init_last_sequence t1 h1 = (t2, h2)"
    by (cases "init_last_sequence t1 h1")
  have d2: "drop_table t2 = []"
    using init_last_sequence_drop_table [of t1 h1] init_last_timestamp_drop_table [OF i] d
    by (simp add: s)
  show ?thesis
  proof (cases "last_ts > snapshot")
    case True
    then have "out = self" using p by (simp add: i l)
    then show ?thesis using assms(2,3) by simp
  next
    case False
    then have e: "extract_table env db_engine fsize self schema tname t2 h2 snapshot current_seq last_ts =
                    Inr (table', history', out)"
      using p by (simp add: i l s)
    have "written_table = t2"
      using extract_table_files [OF e assms(2)] assms(3) by simp
    then show ?thesis using d2 by simp
  qed
qed

text \<open>
  A package of two tables as \<open>stage_file\<close> may find it in the archive store. \<open>accounts\<close> is marked for drop
  and comes first; \<open>orders\<close> is a keyed \<open>timestamp\<close> table with two batches. \<open>stage_file\<close> drops \<open>accounts\<close>
  and returns, so \<open>orders\<close> is not staged: the only statement the target database sees is the drop. The
  package is removed from the arrival queue and its successor is put on the pending queue.
\<close>

theorem drop_marked_table_ends_package_counterexample:
  "fst (StageDaemon_process_next_file_to_stage keep_rows sample_config
          (archived_world [dropped_artifact, keyed_artifact])) = Inr True \<and>
   target_db_conn (snd (StageDaemon_process_next_file_to_stage keep_rows sample_config
          (archived_world [dropped_artifact, keyed_artifact]))) =
     sample_db\<lparr>existing_tables := {(''sales'', ''orders'')},
               db_calls := [DropTable ''sales'' ''accounts''],
               stage_arrival_queue := [],
               stage_pending_queue := [''sales#000000008.zip'']\<rparr>"
proof -
  have 1: "artifact_schema dropped_artifact = Some sample_schema"
    by (simp add: dropped_artifact_def keyed_artifact_def)
  have 2: "artifact_pk dropped_artifact = Some ''id''"
    by (simp add: dropped_artifact_def keyed_artifact_def)
  have 3: "drop_table (artifact_table dropped_artifact) \<noteq> []"
    by (simp add: dropped_artifact_def keyed_artifact_def sample_table_def)
  have n: "artifact_name dropped_artifact = ''accounts''"
    by (simp add: dropped_artifact_def keyed_artifact_def)
  have s: "stage_tables keep_rows ''sales'' [dropped_artifact, keyed_artifact] sample_db =
             Inr (sample_db\<lparr>existing_tables := {(''sales'', ''orders'')},
                            db_calls := [DropTable ''sales'' ''accounts'']\<rparr>)"
  proof -
    have "stage_tables keep_rows ''sales'' [dropped_artifact, keyed_artifact] sample_db =
            Inr (db_drop_table sample_db ''sales'' ''accounts'')"
      using stage_tables_drop_marked [OF 1 2 3, of keep_rows "''sales''" "[keyed_artifact]" sample_db]
      by (simp only: n)
    moreover have "db_drop_table sample_db ''sales'' ''accounts'' =
            sample_db\<lparr>existing_tables := {(''sales'', ''orders'')},
                      db_calls := [DropTable ''sales'' ''accounts'']\<rparr>"
      by (auto simp add: db_drop_table_def does_table_exist_def sample_db_def)
    ultimately show ?thesis by simp
  qed
  show ?thesis
    by (simp add: process_next_sample s del: stage_tables.simps) (simp add: sample_db_def)
qed

lemma stage_tables_return:
  assumes "\<And>c. \<exists>c'. stage_table convert ds a c = Inr (Return, c')"
  shows "stage_tables convert ds (before @ a # rest) conn = stage_tables convert ds (before @ [a]) conn"
proof (induction before arbitrary: conn)
  case Nil
  obtain c' where "stage_table convert ds a conn = Inr (Return, c')"
    using assms [of conn] by blast
  then show ?case by simp
next
  case (Cons b before)
  show ?case
  proof (cases "stage_table convert ds b conn")
    case (Inl failure)
    then show ?thesis by simp
  next
    case (Inr result)
    obtain f c where r: "result = (f, c)" by (cases result)
    show ?thesis
    proof (cases f)
      case Next
      then show ?thesis using Inr r Cons.IH [of c] by simp
    next
      case Return
      then show ?thesis using Inr r by simp
    qed
  qed
qed

text \<open>
  Claim C8, as the code has it. A table artifact that is marked for drop and has its schema and key
  files makes \<open>stage_file\<close> drop the target table, if it exists, and return (\<open>drop table and exit\<close>, by
  the comment of line 225). Nothing else is done for that table. The table artifacts sorted before it
  have been processed; those sorted after it in the same package are not processed: the outcome is the
  same whatever they are.
\<close>

theorem drop_marked_table_ends_staging:
  assumes "artifact_schema a = Some sch" and "artifact_pk a = Some pk_text"
    and "drop_table (artifact_table a) \<noteq> []"
  shows "stage_table convert ds a conn = Inr (Return, db_drop_table conn ds (artifact_name a)) \<and>
         stage_tables convert ds (a # rest) conn = Inr (db_drop_table conn ds (artifact_name a)) \<and>
         stage_tables convert ds (before @ a # rest) conn = stage_tables convert ds (before @ [a]) conn"
proof -
  have t: "\<And>c. stage_table convert ds a c = Inr (Return, db_drop_table c ds (artifact_name a))"
    using assms by (simp add: stage_table_def Let_def)
  have "stage_tables convert ds (a # rest) conn = Inr (db_drop_table conn ds (artifact_name a))"
    by (simp add: t)
  moreover have "stage_tables convert ds (before @ a # rest) conn =
                 stage_tables convert ds (before @ [a]) conn"
    by (rule stage_tables_return) (simp add: t)
  ultimately show ?thesis using t by simp
qed

text \<open>
  The theorem on the sample package: \<open>accounts\<close>, marked for drop, before \<open>orders\<close>, and between \<open>orders\<close>
  and \<open>orders\<close>.
\<close>

theorem drop_marked_table_ends_staging_witness:
  "stage_tables keep_rows ''sales'' [dropped_artifact, keyed_artifact] sample_db =
     Inr (sample_db\<lparr>existing_tables := {(''sales'', ''orders'')},
                    db_calls := [DropTable ''sales'' ''accounts'']\<rparr>) \<and>
   stage_tables keep_rows ''sales'' [keyed_artifact, dropped_artifact, keyed_artifact] sample_db =
     stage_tables keep_rows ''sales'' [keyed_artifact, dropped_artifact] sample_db"
proof -
  have 1: "artifact_schema dropped_artifact = Some sample_schema"
    by (simp add: dropped_artifact_def keyed_artifact_def)
  have 2: "artifact_pk dropped_artifact = Some ''id''"
    by (simp add: dropped_artifact_def keyed_artifact_def)
  have 3: "drop_table (artifact_table dropped_artifact) \<noteq> []"
    by (simp add: dropped_artifact_def keyed_artifact_def sample_table_def)
  have n: "artifact_name dropped_artifact = ''accounts''"
    by (simp add: dropped_artifact_def keyed_artifact_def)
  have d: "db_drop_table sample_db ''sales'' ''accounts'' =
            sample_db\<lparr>existing_tables := {(''sales'', ''orders'')},
                      db_calls := [DropTable ''sales'' ''accounts'']\<rparr>"
    by (auto simp add: db_drop_table_def does_table_exist_def sample_db_def)
  have a: "stage_tables keep_rows ''sales'' [dropped_artifact, keyed_artifact] sample_db =
             Inr (db_drop_table sample_db ''sales'' ''accounts'')"
    using drop_marked_table_ends_staging [OF 1 2 3, of keep_rows "''sales''" sample_db
        "[keyed_artifact]" "[]"]
    by (simp only: n)
  have b: "stage_tables keep_rows ''sales'' ([keyed_artifact] @ dropped_artifact # [keyed_artifact])
             sample_db =
           stage_tables keep_rows ''sales'' ([keyed_artifact] @ [dropped_artifact]) sample_db"
    using drop_marked_table_ends_staging [OF 1 2 3, of keep_rows "''sales''" sample_db
        "[keyed_artifact]" "[keyed_artifact]"]
    by blast
  have c: "[keyed_artifact] @ dropped_artifact # [keyed_artifact] =
             [keyed_artifact, dropped_artifact, keyed_artifact]"
    "[keyed_artifact] @ [dropped_artifact] = [keyed_artifact, dropped_artifact]"
    by simp_all
  show ?thesis using a b by (simp only: d c)
qed

section \<open>\<open>blobstore.py\<close>: operations on a store that is not connected\<close>

lemma ensure_connected_raises:
  "resource self = None \<Longrightarrow>
   ensure_connected method func self world =
     (Inl (ConnectionError (''Resource not connected ('' @ resource_name self @ ''): BlobStore.'' @ method @ ''()'')),
      world\<lparr>error_log := error_log world @
        [''Resource not connected ('' @ resource_name self @ ''): BlobStore.'' @ method @ ''()'']\<rparr>)"
  by (simp add: ensure_connected_def Let_def)

text \<open>
  Claim C9, as the code has it. \<open>ensure_connected\<close> wraps every operation of \<open>BlobStore\<close>.
  When the store is not connected (\<open>self.resource\<close> is \<open>None\<close>), each of \<open>get\<close>, \<open>put\<close>,
  \<open>delete\<close>, \<open>list\<close> and \<open>clear\<close> logs the message
  \<open>Resource not connected (<resource name>): BlobStore.<method>()\<close> at error level and then raises
  \<open>ConnectionError\<close> with that message to its caller. The body of the operation is not run: the
  containers and the local files are as they were, only the error log has grown by the one message.
\<close>

theorem blobstore_not_connected_raises:
  assumes "resource self = None"
  shows "BlobStore_get self target_file_name blob_name world =
           (Inl (ConnectionError (''Resource not connected ('' @ resource_name self @ ''): BlobStore.get()'')),
            world\<lparr>error_log := error_log world @
              [''Resource not connected ('' @ resource_name self @ ''): BlobStore.get()'']\<rparr>) \<and>
         BlobStore_put self source_file_name blob_name world =
           (Inl (ConnectionError (''Resource not connected ('' @ resource_name self @ ''): BlobStore.put()'')),
            world\<lparr>error_log := error_log world @
              [''Resource not connected ('' @ resource_name self @ ''): BlobStore.put()'']\<rparr>) \<and>
         BlobStore_delete self blob_name world =
           (Inl (ConnectionError (''Resource not connected ('' @ resource_name self @ ''): BlobStore.delete()'')),
            world\<lparr>error_log := error_log world @
              [''Resource not connected ('' @ resource_name self @ ''): BlobStore.delete()'']\<rparr>) \<and>
         BlobStore_list glob self glob_pattern world =
           (Inl (ConnectionError (''Resource not connected ('' @ resource_name self @ ''): BlobStore.list()'')),
            world\<lparr>error_log := error_log world @
              [''Resource not connected ('' @ resource_name self @ ''): BlobStore.list()'']\<rparr>) \<and>
         BlobStore_clear self world =
           (Inl (ConnectionError (''Resource not connected ('' @ resource_name self @ ''): BlobStore.clear()'')),
            world\<lparr>error_log := error_log world @
              [''Resource not connected ('' @ resource_name self @ ''): BlobStore.clear()'']\<rparr>)"
  using assms
  by (simp add: BlobStore_get_def BlobStore_put_def BlobStore_delete_def BlobStore_list_def
      BlobStore_clear_def ensure_connected_raises)

text \<open>
  The theorem at a freshly constructed store, which has no resource, fetching the package
  \<open>sales#000000007.zip\<close>.
\<close>

theorem blobstore_not_connected_raises_witness:
  "resource BlobStore = None \<and>
   BlobStore_get BlobStore ''work/sales#000000007.zip'' ''sales#000000007.zip'' offline_storage =
     (Inl (ConnectionError ''Resource not connected (): BlobStore.get()''),
      offline_storage\<lparr>error_log := [''Resource not connected (): BlobStore.get()'']\<rparr>)"
proof -
  have h: "resource BlobStore = None" by (simp add: BlobStore_def)
  show ?thesis
    using blobstore_not_connected_raises [OF h, of "''work/sales#000000007.zip''"
        "''sales#000000007.zip''" offline_storage]
    by (simp add: h BlobStore_def offline_storage_def)
qed

text \<open>
  The caller of \<open>get\<close> on a store that was never connected receives a raised \<open>ConnectionError\<close>, not
  a result that reports the failure.
\<close>

theorem blobstore_get_not_connected_counterexample:
  "fst (BlobStore_get BlobStore ''work/sales#000000007.zip'' ''sales#000000007.zip'' offline_storage) =
     Inl (ConnectionError ''Resource not connected (): BlobStore.get()'')"
  by (simp add: BlobStore_get_def ensure_connected_def BlobStore_def Let_def)

section \<open>\<open>archive.py\<close>: a package moves from landing to the archive\<close>

lemma split_char_none: "sep \<notin> set s \<Longrightarrow> split_char sep s = [s]"
  by (induction s) auto

lemma split_char_append:
  "sep \<notin> set a \<Longrightarrow> split_char sep (a @ sep # b) = a # split_char sep b"
  by (induction a) auto

lemma fmt_zero_chars: "c \<in> set (fmt_zero w j) \<Longrightarrow> is_digit c \<or> c = CHR ''-''"
  using zfill_digits [of w "nat j"] zfill_digits [of "w - 1" "nat (- j)"]
  by (auto simp add: fmt_zero_def split: if_splits)

lemma fmt_zero_plain:
  "CHR ''#'' \<notin> set (fmt_zero w j) \<and> CHR ''.'' \<notin> set (fmt_zero w j) \<and> CHR ''/'' \<notin> set (fmt_zero w j)"
  using fmt_zero_chars [of "CHR ''#''" w j] fmt_zero_chars [of "CHR ''.''" w j]
    fmt_zero_chars [of "CHR ''/''" w j]
  by (auto simp add: is_digit_def)

lemma fmt_zero_nonempty: "fmt_zero w j \<noteq> []"
  by (simp add: fmt_zero_def zfill_nonempty)

lemma just_file_name_plain:
  "CHR ''/'' \<notin> set s \<Longrightarrow> s \<noteq> [] \<Longrightarrow> s \<noteq> ''.'' \<Longrightarrow> just_file_name s = s"
  by (simp add: just_file_name_def split_char_none)

lemma just_file_stem_zip:
  assumes "CHR ''/'' \<notin> set x" and "x \<noteq> []"
  shows "just_file_stem (x @ ''.zip'') = x"
proof -
  have n: "just_file_name (x @ ''.zip'') = x @ ''.zip''"
    using assms by (intro just_file_name_plain) auto
  have t: "takeWhile (\<lambda>c. c \<noteq> CHR ''.'') (rev (x @ ''.zip'')) = ''piz''" by simp
  show ?thesis using assms by (simp add: just_file_stem_def n Let_def)
qed

lemma package_name_parts:
  assumes "CHR ''#'' \<notin> set ds" and "CHR ''/'' \<notin> set ds"
  shows "split_char (CHR ''#'') (ds @ ''#'' @ fmt_zero 9 j @ ''.zip'') = [ds, fmt_zero 9 j @ ''.zip'']"
    and "split_char (CHR ''#'') (just_file_stem (ds @ ''#'' @ fmt_zero 9 j @ ''.zip'')) = [ds, fmt_zero 9 j]"
proof -
  have p: "CHR ''#'' \<notin> set (fmt_zero 9 j)" "CHR ''/'' \<notin> set (fmt_zero 9 j)"
    using fmt_zero_plain [of 9 j] by simp_all
  show "split_char (CHR ''#'') (ds @ ''#'' @ fmt_zero 9 j @ ''.zip'') = [ds, fmt_zero 9 j @ ''.zip'']"
    using split_char_append [OF assms(1), of "fmt_zero 9 j @ ''.zip''"] p
    by (simp add: split_char_none)
  have "just_file_stem ((ds @ ''#'' @ fmt_zero 9 j) @ ''.zip'') = ds @ ''#'' @ fmt_zero 9 j"
    using assms p by (intro just_file_stem_zip) auto
  then show "split_char (CHR ''#'') (just_file_stem (ds @ ''#'' @ fmt_zero 9 j @ ''.zip'')) = [ds, fmt_zero 9 j]"
    using split_char_append [OF assms(1), of "fmt_zero 9 j"] p
    by (simp add: split_char_none)
qed

lemma clear_folder_containers: "containers (clear_folder path_name s) = containers s"
  by (simp add: clear_folder_def)

lemma connect_existing:
  assumes "containers world (account_name res, container_name res) = Some held"
  shows "resource (snd (BlobStore_connect BlobStore res world)) \<noteq> None"
    and "blob_folder (snd (BlobStore_connect BlobStore res world)) = (account_name res, container_name res)"
proof -
  have f: "blob_folder (load_resource BlobStore res) = (account_name res, container_name res)"
    by (simp add: blob_folder_def load_resource_def)
  have c: "BlobStore_connect BlobStore res world = (True, load_resource BlobStore res)"
    using assms by (simp add: BlobStore_connect_def Let_def f) (simp add: load_resource_def)
  show "resource (snd (BlobStore_connect BlobStore res world)) \<noteq> None"
    by (simp add: c) (simp add: load_resource_def)
  show "blob_folder (snd (BlobStore_connect BlobStore res world)) = (account_name res, container_name res)"
    by (simp add: c f)
qed

lemma update_stat_log_queue:
  "update_stat_log local_name world = Inr world' \<Longrightarrow>
   stage_arrival_queue (target_db_conn world') = stage_arrival_queue (target_db_conn world) \<and>
   blobs world' = blobs world"
proof -
  have f: "\<And>P rows conn. stage_arrival_queue
             (fold (\<lambda>row conn. if P row then insert_into_stat_log conn row else conn) rows conn) =
           stage_arrival_queue (conn :: 'a target_db)"
  proof -
    fix P :: "stat_row \<Rightarrow> bool" and rows and conn :: "'a target_db"
    show "stage_arrival_queue
             (fold (\<lambda>row conn. if P row then insert_into_stat_log conn row else conn) rows conn) =
           stage_arrival_queue conn"
      by (induction rows arbitrary: conn) (simp_all add: insert_into_stat_log_def)
  qed
  assume "update_stat_log local_name world = Inr world'"
  then show ?thesis
    by (auto simp add: update_stat_log_def Let_def f split: option.splits)
qed

lemma update_stat_log_total:
  "local_files (blobs world) local_name = Some pkg \<Longrightarrow> \<exists>world'. update_stat_log local_name world = Inr world'"
  by (simp add: update_stat_log_def Let_def)

lemma archive_capture_file_run:
  assumes "BlobStore_get (snd (BlobStore_connect BlobStore (landing_resource config)
                                 (clear_folder (work_folder config) (blobs world))))
             (work_folder config @ ''/'' @ name) name
             (clear_folder (work_folder config) (blobs world)) = (Inr got, s1)"
    and "update_stat_log (work_folder config @ ''/'' @ name) (world\<lparr>blobs := s1\<rparr>) = Inr w2"
    and "split_char (CHR ''#'') name = dsn # parts"
    and "BlobStore_put (snd (BlobStore_connect BlobStore (archive_resource config) (blobs w2)))
             (work_folder config @ ''/'' @ name) (dsn @ ''/'' @ name) (blobs w2) = (Inr put, s3)"
    and "BlobStore_delete (snd (BlobStore_connect BlobStore (landing_resource config)
                                 (clear_folder (work_folder config) (blobs world))))
             name s3 = (Inr deleted, s4)"
    and "update_stage_arrival_queue name (w2\<lparr>blobs := s4\<rparr>) = Inr w5"
  shows "ArchiveDaemon_archive_capture_file config name world = (Inr (), w5)"
  using assms by (simp add: ArchiveDaemon_archive_capture_file_def Let_def)

text \<open>
  Claim C6. The package \<open><dataset>#<job id as nine digits>.zip\<close> lies in the landing container, the
  dataset's name has no \<open>#\<close> and no \<open>/\<close>, and the landing and archive containers both exist. Then
  \<open>archive_capture_file\<close> returns normally; afterwards the archive container holds the package under
  \<open><dataset>/<package name>\<close>, the landing container no longer holds it, and the arrival queue has
  received one new row, with the package's name and the job id read from the name. When the queue had no
  row of that name before, it now has exactly one.
\<close>

theorem archive_moves_package:
  assumes "CHR ''#'' \<notin> set ds" and "CHR ''/'' \<notin> set ds"
    and "name = ds @ ''#'' @ fmt_zero 9 j @ ''.zip''"
    and "containers (blobs world) (account_name (landing_resource config),
                                   container_name (landing_resource config)) = Some landing"
    and "landing name = Some pkg"
    and "containers (blobs world) (account_name (archive_resource config),
                                   container_name (archive_resource config)) = Some archive"
  shows "\<exists>world'. ArchiveDaemon_archive_capture_file config name world = (Inr (), world') \<and>
     (\<exists>archive'. containers (blobs world') (account_name (archive_resource config),
                                            container_name (archive_resource config)) = Some archive' \<and>
                 archive' (ds @ ''/'' @ name) = Some pkg) \<and>
     (\<exists>landing'. containers (blobs world') (account_name (landing_resource config),
                                            container_name (landing_resource config)) = Some landing' \<and>
                 landing' name = None) \<and>
     stage_arrival_queue (target_db_conn world') =
       stage_arrival_queue (target_db_conn world) @ [(name, j)] \<and>
     (name \<notin> fst ` set (stage_arrival_queue (target_db_conn world)) \<longrightarrow>
        filter (\<lambda>row. fst row = name) (stage_arrival_queue (target_db_conn world')) = [(name, j)])"
proof -
  let ?lf = "(account_name (landing_resource config), container_name (landing_resource config))"
  let ?af = "(account_name (archive_resource config), container_name (archive_resource config))"
  let ?local = "work_folder config @ ''/'' @ name"
  let ?s0 = "clear_folder (work_folder config) (blobs world)"
  note c0 = clear_folder_containers
  let ?bl = "snd (BlobStore_connect BlobStore (landing_resource config) ?s0)"
  have bl: "resource ?bl \<noteq> None" "blob_folder ?bl = ?lf"
    using connect_existing [of ?s0 "landing_resource config" landing] assms(4)
    by (simp_all add: c0)
  let ?s1 = "?s0\<lparr>local_files := (local_files ?s0)(?local \<mapsto> pkg)\<rparr>"
  have g: "BlobStore_get ?bl ?local name ?s0 = (Inr True, ?s1)"
    using assms(4,5) bl by (simp add: BlobStore_get_def ensure_connected_def get_body_def c0)
  obtain w2 where u: "update_stat_log ?local (world\<lparr>blobs := ?s1\<rparr>) = Inr w2"
    using update_stat_log_total [of "world\<lparr>blobs := ?s1\<rparr>" ?local pkg] by auto
  have w2: "stage_arrival_queue (target_db_conn w2) = stage_arrival_queue (target_db_conn world)"
    "blobs w2 = ?s1"
    using update_stat_log_queue [OF u] by simp_all
  have c2: "containers (blobs w2) = containers (blobs world)" by (simp add: w2 c0)
  let ?ba = "snd (BlobStore_connect BlobStore (archive_resource config) (blobs w2))"
  have ba: "resource ?ba \<noteq> None" "blob_folder ?ba = ?af"
    using connect_existing [of "blobs w2" "archive_resource config" archive] assms(6)
    by (simp_all add: c2)
  have parts: "split_char (CHR ''#'') name = ds # [fmt_zero 9 j @ ''.zip'']"
    "split_char (CHR ''#'') (just_file_stem name) = [ds, fmt_zero 9 j]"
    using package_name_parts [OF assms(1,2), of j] by (simp_all add: assms(3))
  let ?aname = "ds @ ''/'' @ name"
  let ?s3 = "(blobs w2)\<lparr>containers := (containers (blobs w2))(?af := Some (archive(?aname \<mapsto> pkg)))\<rparr>"
  have lw: "local_files (blobs w2) ?local = Some pkg" by (simp add: w2)
  have p: "BlobStore_put ?ba ?local ?aname (blobs w2) = (Inr True, ?s3)"
    using ba assms(6) lw by (simp add: BlobStore_put_def ensure_connected_def put_body_def c2 Let_def)
  have neq: "?aname \<noteq> name" by simp
  obtain landing3 where l3: "containers ?s3 ?lf = Some landing3" "landing3 name = Some pkg"
    "?lf = ?af \<longrightarrow> landing3 ?aname = Some pkg"
    using assms(4,5,6) neq by (cases "?lf = ?af") (auto simp add: c2)
  let ?s4 = "?s3\<lparr>containers := (containers ?s3)(?lf := Some (landing3(name := None)))\<rparr>"
  have d: "BlobStore_delete ?bl name ?s3 = (Inr True, ?s4)"
    using bl l3 by (simp add: BlobStore_delete_def ensure_connected_def delete_body_def)
  let ?w4 = "w2\<lparr>blobs := ?s4\<rparr>"
  let ?w5 = "?w4\<lparr>target_db_conn := insert_into_stage_arrival_queue (target_db_conn ?w4) name j\<rparr>"
  have q: "update_stage_arrival_queue name ?w4 = Inr ?w5"
    by (simp add: update_stage_arrival_queue_def parts py_int_fmt_zero)
  have r: "ArchiveDaemon_archive_capture_file config name world = (Inr (), ?w5)"
    by (rule archive_capture_file_run [OF g u parts(1) p d q])
  have a5: "\<exists>archive'. containers (blobs ?w5) ?af = Some archive' \<and> archive' ?aname = Some pkg"
    using neq l3(3) by (cases "?lf = ?af") auto
  have l5: "\<exists>landing'. containers (blobs ?w5) ?lf = Some landing' \<and> landing' name = None"
    by simp
  have q5: "stage_arrival_queue (target_db_conn ?w5) =
              stage_arrival_queue (target_db_conn world) @ [(name, j)]"
    by (simp add: insert_into_stage_arrival_queue_def w2)
  have f5: "name \<notin> fst ` set (stage_arrival_queue (target_db_conn world)) \<longrightarrow>
        filter (\<lambda>row. fst row = name) (stage_arrival_queue (target_db_conn ?w5)) = [(name, j)]"
  proof
    assume "name \<notin> fst ` set (stage_arrival_queue (target_db_conn world))"
    then have "filter (\<lambda>row. fst row = name) (stage_arrival_queue (target_db_conn world)) = []"
      by (auto simp add: filter_empty_conv)
    then show "filter (\<lambda>row. fst row = name) (stage_arrival_queue (target_db_conn ?w5)) = [(name, j)]"
      by (simp add: insert_into_stage_arrival_queue_def w2)
  qed
  show ?thesis using r a5 l5 q5 f5 by blast
qed

text \<open>
  The theorem on the package \<open>sales#000000007.zip\<close> in the landing container, with an empty archive
  container and an empty arrival queue.
\<close>

lemma fmt_zero_9_7: "fmt_zero 9 7 = ''000000007''"
  by code_simp

theorem archive_moves_package_witness:
  "fst (ArchiveDaemon_archive_capture_file sample_config ''sales#000000007.zip'' landed_world) = Inr () \<and>
   (\<exists>archive'. containers (blobs (snd (ArchiveDaemon_archive_capture_file sample_config
                      ''sales#000000007.zip'' landed_world))) (''udp'', ''archive'') = Some archive' \<and>
               archive' ''sales/sales#000000007.zip'' = Some (sample_package [keyed_artifact])) \<and>
   (\<exists>landing'. containers (blobs (snd (ArchiveDaemon_archive_capture_file sample_config
                      ''sales#000000007.zip'' landed_world))) (''udp'', ''landing'') = Some landing' \<and>
               landing' ''sales#000000007.zip'' = None) \<and>
   stage_arrival_queue (target_db_conn (snd (ArchiveDaemon_archive_capture_file sample_config
       ''sales#000000007.zip'' landed_world))) = [(''sales#000000007.zip'', 7)]"
proof -
  have 1: "CHR ''#'' \<notin> set ''sales''" "CHR ''/'' \<notin> set ''sales''" by simp_all
  have 3: "''sales#000000007.zip'' = ''sales'' @ ''#'' @ fmt_zero 9 7 @ ''.zip''"
    by (simp add: fmt_zero_9_7)
  have 4: "containers (blobs landed_world) (account_name (landing_resource sample_config),
                                   container_name (landing_resource sample_config)) =
             Some [''sales#000000007.zip'' \<mapsto> sample_package [keyed_artifact]]"
    by (simp add: landed_world_def sample_config_def sample_landing_def)
  have 5: "[''sales#000000007.zip'' \<mapsto> sample_package [keyed_artifact]] ''sales#000000007.zip'' =
             Some (sample_package [keyed_artifact])"
    by simp
  have 6: "containers (blobs landed_world) (account_name (archive_resource sample_config),
                                   container_name (archive_resource sample_config)) = Some Map.empty"
    by (simp add: landed_world_def sample_config_def sample_archive_def)
  have q: "stage_arrival_queue (target_db_conn landed_world) = []"
    by (simp add: landed_world_def)
  have f: "account_name (landing_resource sample_config) = ''udp''"
    "container_name (landing_resource sample_config) = ''landing''"
    "account_name (archive_resource sample_config) = ''udp''"
    "container_name (archive_resource sample_config) = ''archive''"
    by (simp_all add: sample_config_def sample_landing_def sample_archive_def)
  from archive_moves_package [OF 1 3 4 5 6]
  obtain world' where
    "ArchiveDaemon_archive_capture_file sample_config ''sales#000000007.zip'' landed_world = (Inr (), world')"
    "\<exists>archive'. containers (blobs world') (''udp'', ''archive'') = Some archive' \<and>
                 archive' (''sales'' @ ''/'' @ ''sales#000000007.zip'') = Some (sample_package [keyed_artifact])"
    "\<exists>landing'. containers (blobs world') (''udp'', ''landing'') = Some landing' \<and>
                 landing' ''sales#000000007.zip'' = None"
    "stage_arrival_queue (target_db_conn world') = [] @ [(''sales#000000007.zip'', 7)]"
    unfolding f q by blast
  then show ?thesis by simp
qed

section \<open>\<open>cdc_merge.py\<close>: the match condition and the assignments of the merge statement\<close>

lemma contains_single: "contains [c] s = (c \<in> set s)"
  by (induction s) auto

lemma replace_str_absent: "c \<notin> set s \<Longrightarrow> replace_str [c] new s = s"
  by (induction s) auto

lemma startswith_quote: \<open>CHR ''"'' \<notin> set s \<Longrightarrow> \<not> startswith s ''"''\<close>
  by (cases s) auto

lemma add_alias_plain:
  assumes \<open>CHR ''"'' \<notin> set c\<close> and "CHR ''.'' \<notin> set c"
  shows \<open>add_alias c ''t'' = ''"t"."'' @ c @ ''"''\<close>
    and \<open>add_alias c ''s'' = ''"s"."'' @ c @ ''"''\<close>
  using assms
  by (simp_all add: add_alias_def replace_str_absent contains_single q_def startswith_quote Let_def)

lemma assignment_inj:
  \<open>(''      "t"."'' @ x @ ''" = "s"."'' @ x @ ''"'' = ''      "t"."'' @ c @ ''" = "s"."'' @ c @ ''"'') = (x = c)\<close>
proof
  assume e: \<open>''      "t"."'' @ x @ ''" = "s"."'' @ x @ ''"'' = ''      "t"."'' @ c @ ''" = "s"."'' @ c @ ''"''\<close>
  have \<open>length (''      "t"."'' @ x @ ''" = "s"."'' @ x @ ''"'') =
        length (''      "t"."'' @ c @ ''" = "s"."'' @ c @ ''"'')\<close>
    by (simp only: e)
  then have l: "length x = length c" by simp
  from e have \<open>x @ ''" = "s"."'' @ x @ ''"'' = c @ ''" = "s"."'' @ c @ ''"''\<close> by simp
  then show "x = c" using l by (metis append_eq_append_conv)
next
  assume "x = c"
  then show \<open>''      "t"."'' @ x @ ''" = "s"."'' @ x @ ''"'' = ''      "t"."'' @ c @ ''" = "s"."'' @ c @ ''"''\<close>
    by simp
qed

lemma count_distinct: "distinct xs \<Longrightarrow> x \<in> set xs \<Longrightarrow> length (filter (\<lambda>y. y = x) xs) = 1"
  by (induction xs) (auto simp add: filter_empty_conv)

text \<open>
  Claim C4. The key columns are the names \<open>split(nk)\<close> yields from the key text (split at commas and
  blanks); key and column names hold no double quote and no dot, and the table's column names are pairwise
  different. Then

  \<^item> the match condition is the conjunction, joined with \<open>and\<close>, of \<open>"t"."k"="s"."k"\<close> over the key
    columns \<open>k\<close> in their order;
  \<^item> the assignments are \<open>"t"."c" = "s"."c"\<close>, one line for each column \<open>c\<close> of the table's column list in
    its order, key columns included, so every column that is not a key column is assigned exactly once;
  \<^item> the merge statement is the template with the match condition after \<open>on\<close> and the assignments
    after \<open>update set\<close>.
\<close>

theorem merge_match_and_assignments:
  assumes \<open>\<forall>k \<in> set (split_py nk '', ''). CHR ''"'' \<notin> set k \<and> CHR ''.'' \<notin> set k\<close>
    and \<open>\<forall>c \<in> set (column_names table). CHR ''"'' \<notin> set c \<and> CHR ''.'' \<notin> set c\<close>
    and "distinct (column_names table)"
  shows \<open>MergeCDC_match_condition nk =
           str_join '' and '' (map (\<lambda>k. ''"t"."'' @ k @ ''"="s"."'' @ k @ ''"'') (split_py nk '', '')) \<and>
         MergeCDC_column_assignments table =
           str_join '',\<newline>''
             (map (\<lambda>c. ''      "t"."'' @ c @ ''" = "s"."'' @ c @ ''"'') (column_names table)) \<and>
         (\<forall>c \<in> set (column_names table) - set (split_py nk '', '').
            length (filter (\<lambda>line. line = ''      "t"."'' @ c @ ''" = "s"."'' @ c @ ''"'')
                      (map (\<lambda>c. ''      "t"."'' @ c @ ''" = "s"."'' @ c @ ''"'') (column_names table))) = 1) \<and>
         MergeCDC_merge table schema nk =
           Inr (delete_blank_lines (strip (
             ''-- s:source, t:target\<newline>'' @
             ''merge '' @ schema @ ''.'' @ table_name table @ '' with (serializable) as t\<newline>'' @
             ''  using '' @ schema @ ''._'' @ table_name table @ '' as s\<newline>'' @
             ''    on '' @ MergeCDC_match_condition nk @ ''\<newline>'' @
             ''  when matched then\<newline>'' @
             ''    -- t.column1 = s.column1, ...\<newline>'' @
             ''    update set\<newline>'' @
             MergeCDC_column_assignments table @ ''\<newline>'' @
             ''  when not matched by target then\<newline>'' @
             ''    insert\<newline>'' @
             ''      -- (column1, column2, ...)\<newline>'' @
             ''      ('' @ MergeCDC_column_names table @ '')\<newline>'' @
             ''      values\<newline>'' @
             ''      -- (s.column1, s.column2, ...)\<newline>'' @
             ''      ('' @ MergeCDC_source_column_names table @ '');'')))\<close>
proof (intro conjI)
  have m1: \<open>map (\<lambda>nk_column. add_alias nk_column ''t'' @ ''='' @ add_alias nk_column ''s'') (split_py nk '', '') =
        map (\<lambda>k. ''"t"."'' @ k @ ''"="s"."'' @ k @ ''"'') (split_py nk '', '')\<close>
    using assms(1) by (intro map_cong) (simp_all add: add_alias_plain)
  show \<open>MergeCDC_match_condition nk =
           str_join '' and '' (map (\<lambda>k. ''"t"."'' @ k @ ''"="s"."'' @ k @ ''"'') (split_py nk '', ''))\<close>
    by (simp only: MergeCDC_match_condition_def Let_def m1)
  have m2: \<open>map (\<lambda>column_name. spaces 6 @ add_alias column_name ''t'' @ '' = '' @ add_alias column_name ''s'')
          (column_names table) =
        map (\<lambda>c. ''      "t"."'' @ c @ ''" = "s"."'' @ c @ ''"'') (column_names table)\<close>
    using assms(2) by (intro map_cong) (simp_all add: add_alias_plain spaces_def eval_nat_numeral)
  show \<open>MergeCDC_column_assignments table =
           str_join '',\<newline>''
             (map (\<lambda>c. ''      "t"."'' @ c @ ''" = "s"."'' @ c @ ''"'') (column_names table))\<close>
    by (simp only: MergeCDC_column_assignments_def Let_def m2)
  show \<open>\<forall>c \<in> set (column_names table) - set (split_py nk '', '').
            length (filter (\<lambda>line. line = ''      "t"."'' @ c @ ''" = "s"."'' @ c @ ''"'')
                      (map (\<lambda>c. ''      "t"."'' @ c @ ''" = "s"."'' @ c @ ''"'') (column_names table))) = 1\<close>
  proof
    fix c assume "c \<in> set (column_names table) - set (split_py nk '', '')"
    then have c: "c \<in> set (column_names table)" by simp
    have \<open>filter (\<lambda>line. line = ''      "t"."'' @ c @ ''" = "s"."'' @ c @ ''"'')
            (map (\<lambda>c. ''      "t"."'' @ c @ ''" = "s"."'' @ c @ ''"'') (column_names table)) =
          map (\<lambda>c. ''      "t"."'' @ c @ ''" = "s"."'' @ c @ ''"'')
            (filter (\<lambda>d. d = c) (column_names table))\<close>
      by (simp only: filter_map comp_def assignment_inj)
    then show \<open>length (filter (\<lambda>line. line = ''      "t"."'' @ c @ ''" = "s"."'' @ c @ ''"'')
                      (map (\<lambda>c. ''      "t"."'' @ c @ ''" = "s"."'' @ c @ ''"'') (column_names table))) = 1\<close>
      using count_distinct [OF assms(3) c] by simp
  qed
  show \<open>MergeCDC_merge table schema nk =
           Inr (delete_blank_lines (strip (
             ''-- s:source, t:target\<newline>'' @
             ''merge '' @ schema @ ''.'' @ table_name table @ '' with (serializable) as t\<newline>'' @
             ''  using '' @ schema @ ''._'' @ table_name table @ '' as s\<newline>'' @
             ''    on '' @ MergeCDC_match_condition nk @ ''\<newline>'' @
             ''  when matched then\<newline>'' @
             ''    -- t.column1 = s.column1, ...\<newline>'' @
             ''    update set\<newline>'' @
             MergeCDC_column_assignments table @ ''\<newline>'' @
             ''  when not matched by target then\<newline>'' @
             ''    insert\<newline>'' @
             ''      -- (column1, column2, ...)\<newline>'' @
             ''      ('' @ MergeCDC_column_names table @ '')\<newline>'' @
             ''      values\<newline>'' @
             ''      -- (s.column1, s.column2, ...)\<newline>'' @
             ''      ('' @ MergeCDC_source_column_names table @ '');'')))\<close>
    by (rule MergeCDC_merge_eq)
qed

lemma split_col1_col3: "split_py ''col1, col3'' '', '' = [''col1'', ''col3'']"
  by code_simp

text \<open>
  The theorem on the key \<open>col1, col3\<close> of a table with the columns \<open>col1\<close>, \<open>col2\<close> and \<open>col3\<close>.
\<close>

theorem merge_match_and_assignments_witness:
  \<open>split_py ''col1, col3'' '', '' = [''col1'', ''col3''] \<and>
   MergeCDC_match_condition ''col1, col3'' = ''"t"."col1"="s"."col1" and "t"."col3"="s"."col3"'' \<and>
   MergeCDC_column_assignments merge_sample =
     ''      "t"."col1" = "s"."col1",\<newline>      "t"."col2" = "s"."col2",\<newline>      "t"."col3" = "s"."col3"''\<close>
  using merge_match_and_assignments [of "''col1, col3''" merge_sample]
  by (simp add: split_col1_col3 merge_sample_def)

section \<open>\<open>cdc_select.py\<close>: the statement for a table with the sequence strategy\<close>

text \<open>
  Claim C3, as the code has it. \<open>SelectCDC.select(job_id, current_timestamp, last_timestamp)\<close> receives
  neither the last nor the current sequence, and no method reads \<open>sequence_where_template\<close> or the
  table's \<open>cdc\<close>, \<open>sequence\<close> and \<open>first_sequence\<close> settings: the statement is the same whatever they
  are. For the table \<open>events\<close> with \<open>cdc = sequence\<close>, the sequence column \<open>seq_no\<close>, the timestamp
  column \<open>modified\<close>, the last sequence 100 and the current sequence 200, the statement that
  \<open>process_table\<close> writes to \<open>events.sql\<close> and executes bounds \<open>modified\<close> by the timestamps and has no
  predicate on \<open>seq_no\<close>; the table's last sequence is set to 200 all the same. Without a timestamp
  column, the statement is not generated: \<open>timestamp_literal\<close> raises \<open>NameError\<close>.
\<close>

theorem sequence_strategy_select_has_no_sequence_window:
  \<open>SelectCDC_select env db_engine (table\<lparr>cdc := strategy, sequence := sequence_column,
                                         first_sequence := first\<rparr>) job current_ts last_ts =
     SelectCDC_select env db_engine table job current_ts last_ts \<and>
   (case CaptureDaemon_process_table sample_env sample_engine sample_fsize sample_daemon
           ''dbo'' ''events'' sequence_table events_history 3913056000000000 200 of
      Inl e \<Rightarrow> False
    | Inr (table, history, self) \<Rightarrow>
        cdc table = ''sequence'' \<and> sequence table = ''seq_no'' \<and>
        map_of (work_files self) ''events.sql'' =
          Some (TextFile (
            ''select\<newline>'' @
            ''"s"."id", "s"."seq_no", "s"."modified",\<newline>'' @
            ''7 as "udp_job",\<newline>'' @
            ''"s"."modified" as "udp_timestamp"\<newline>'' @
            ''from "dbo"."events" as "s"\<newline>'' @
            ''where\<newline>'' @
            ''    (\<newline>'' @
            ''"s"."modified" >= '' @ [CHR 0x27] @ ''1900-01-01 00:00:00'' @ [CHR 0x27] @ '' and\<newline>'' @
            ''"s"."modified" < '' @ [CHR 0x27] @ ''2024-01-01 00:00:00'' @ [CHR 0x27] @ ''\<newline>'' @
            '');'')) \<and>
        last_sequence history = PInt 200) \<and>
   CaptureDaemon_process_table sample_env sample_engine sample_fsize sample_daemon
           ''dbo'' ''events'' (sequence_table\<lparr>timestamp := []\<rparr>) events_history 3913056000000000 200 =
     Inl (NameError ''current_timestamp'')\<close>
proof (intro conjI)
  show \<open>SelectCDC_select env db_engine (table\<lparr>cdc := strategy, sequence := sequence_column,
                                         first_sequence := first\<rparr>) job current_ts last_ts =
     SelectCDC_select env db_engine table job current_ts last_ts\<close>
  proof -
    let ?t = "table\<lparr>cdc := strategy, sequence := sequence_column, first_sequence := first\<rparr>"
    have 1: "SelectCDC_timestamp_logic env db_engine ?t current_ts last_ts =
             SelectCDC_timestamp_logic env db_engine table current_ts last_ts"
      by (simp add: SelectCDC_timestamp_logic_def)
    have 2: "SelectCDC_column_names ?t = SelectCDC_column_names table"
      "SelectCDC_join_clause ?t = SelectCDC_join_clause table"
      "SelectCDC_order_clause ?t = SelectCDC_order_clause table"
      "\<And>condition. SelectCDC_where_clause ?t condition = SelectCDC_where_clause table condition"
      "schema_name ?t = schema_name table" "table_name ?t = table_name table"
      by (simp_all add: SelectCDC_column_names_def SelectCDC_join_clause_def SelectCDC_order_clause_def
          SelectCDC_where_clause_def Let_def)
    show ?thesis
      unfolding SelectCDC_select_def by (simp only: 1 2)
  qed
  show \<open>case CaptureDaemon_process_table sample_env sample_engine sample_fsize sample_daemon
           ''dbo'' ''events'' sequence_table events_history 3913056000000000 200 of
      Inl e \<Rightarrow> False
    | Inr (table, history, self) \<Rightarrow>
        cdc table = ''sequence'' \<and> sequence table = ''seq_no'' \<and>
        map_of (work_files self) ''events.sql'' =
          Some (TextFile (
            ''select\<newline>'' @
            ''"s"."id", "s"."seq_no", "s"."modified",\<newline>'' @
            ''7 as "udp_job",\<newline>'' @
            ''"s"."modified" as "udp_timestamp"\<newline>'' @
            ''from "dbo"."events" as "s"\<newline>'' @
            ''where\<newline>'' @
            ''    (\<newline>'' @
            ''"s"."modified" >= '' @ [CHR 0x27] @ ''1900-01-01 00:00:00'' @ [CHR 0x27] @ '' and\<newline>'' @
            ''"s"."modified" < '' @ [CHR 0x27] @ ''2024-01-01 00:00:00'' @ [CHR 0x27] @ ''\<newline>'' @
            '');'')) \<and>
        last_sequence history = PInt 200\<close>
    by code_simp
  show \<open>CaptureDaemon_process_table sample_env sample_engine sample_fsize sample_daemon
           ''dbo'' ''events'' (sequence_table\<lparr>timestamp := []\<rparr>) events_history 3913056000000000 200 =
     Inl (NameError ''current_timestamp'')\<close>
    by code_simp
qed

section \<open>\<open>capture.py\<close>: the window of a table with the timestamp strategy\<close>

lemma timestamp_window_nonempty: "timestamp_window tv lo hi \<noteq> []"
  by (simp add: timestamp_window_def)

lemma timestamp_logic_window:
  assumes "timestamp table \<noteq> []"
  shows "\<exists>tv. \<forall>hi lo. SelectCDC_timestamp_logic env db_engine table hi lo =
           Inr (tv, timestamp_window tv (datetime_str env lo) (datetime_str env hi))"
  using assms
  by (simp add: SelectCDC_timestamp_logic_def Let_def expand_timestamp_where timestamp_window_def)

lemma select_window:
  assumes "SelectCDC_timestamp_logic env db_engine table hi lo =
             Inr (tv, timestamp_window tv (datetime_str env lo) (datetime_str env hi))"
  shows "SelectCDC_select env db_engine table job hi lo =
           Inr (windowed_select table job tv (datetime_str env lo) (datetime_str env hi))"
  using timestamp_window_nonempty [of tv "datetime_str env lo" "datetime_str env hi"]
  by (simp add: SelectCDC_select_def assms expand_select windowed_select_def SelectCDC_where_clause_def
      spaces_def eval_nat_numeral)

lemma normalize_cdc_timestamp:
  assumes "lower (cdc table) = ''timestamp''" and "pk_columns \<noteq> []"
  shows "normalize_cdc table pk_columns = table\<lparr>cdc := ''timestamp''\<rparr>"
  using assms by (simp add: normalize_cdc_def Let_def)

lemma timestamp_logic_cong:
  "timestamp a = timestamp b \<Longrightarrow>
   SelectCDC_timestamp_logic env db_engine a hi lo = SelectCDC_timestamp_logic env db_engine b hi lo"
  by (simp add: SelectCDC_timestamp_logic_def)

lemma windowed_select_cong:
  assumes "column_names a = column_names b" and "schema_name a = schema_name b"
    and "table_name a = table_name b" and "join_sql a = join_sql b"
    and "where_sql a = where_sql b" and "order_sql a = order_sql b"
  shows "windowed_select a job tv lo hi = windowed_select b job tv lo hi"
proof -
  have "SelectCDC_column_names a = SelectCDC_column_names b"
    "SelectCDC_join_clause a = SelectCDC_join_clause b"
    "SelectCDC_order_clause a = SelectCDC_order_clause b"
    by (simp_all only: SelectCDC_column_names_def SelectCDC_join_clause_def SelectCDC_order_clause_def assms)
  then show ?thesis
    unfolding windowed_select_def by (simp only: assms)
qed

lemma remove_ignored_columns_cong:
  "ignore_columns a = ignore_columns b \<Longrightarrow>
   remove_ignored_columns env a discovered = remove_ignored_columns env b discovered"
  by (simp add: remove_ignored_columns_def)

lemma extract_table_window:
  assumes "select_table_schema db_engine schema tname = Inr (Some discovered)"
    and "remove_ignored_columns env t0 discovered = Inr tschema"
    and "select_table_pk db_engine schema tname = Inr discovered_pk"
    and "discovered_pk \<noteq> [] \<or> primary_key t0 \<noteq> []"
    and "lower (cdc t0) = ''timestamp''"
    and "\<And>sql. \<exists>rows. cursor_execute db_engine sql = Inr rows"
    and "batch_size_of (batch_size self) = Inr bsize"
    and "SelectCDC_timestamp_logic env db_engine
           (t0\<lparr>cdc := ''timestamp'', schema_name := schema, table_name := tname,
               column_names := map fst (columns tschema)\<rparr>) snapshot last_ts =
         Inr (tv, timestamp_window tv (datetime_str env last_ts) (datetime_str env snapshot))"
  shows "\<exists>table' out.
           extract_table env db_engine fsize self schema tname t0 h snapshot seq last_ts =
             Inr (table', h\<lparr>last_timestamp := Some snapshot, last_sequence := PInt seq\<rparr>, out) \<and>
           (tname @ ''.sql'',
            TextFile (windowed_select
                        (t0\<lparr>cdc := ''timestamp'', schema_name := schema, table_name := tname,
                            column_names := map fst (columns tschema)\<rparr>)
                        (self_job_id self) tv (datetime_str env last_ts) (datetime_str env snapshot)))
             \<in> set (work_files out)"
proof -
  let ?pk = "if discovered_pk = [] \<and> primary_key t0 \<noteq> [] then primary_key t0 else discovered_pk"
  let ?T = "t0\<lparr>cdc := ''timestamp'', schema_name := schema, table_name := tname,
               column_names := map fst (columns tschema)\<rparr>"
  let ?sql = "windowed_select ?T (self_job_id self) tv (datetime_str env last_ts) (datetime_str env snapshot)"
  have pk: "?pk \<noteq> []" using assms(4) by auto
  have n: "normalize_cdc t0 ?pk = t0\<lparr>cdc := ''timestamp''\<rparr>"
    using normalize_cdc_timestamp [OF assms(5) pk] .
  have s: "SelectCDC_select env db_engine ?T (self_job_id self) snapshot last_ts = Inr ?sql"
    using select_window [OF assms(8)] .
  obtain rows where e: "cursor_execute db_engine ?sql = Inr rows"
    using assms(6) [of ?sql] by blast
  show ?thesis
    unfolding extract_table_def Let_def
    by (simp add: assms(1,2,3,7) n s e save_file_def)
qed

lemma init_last_timestamp_none:
  assumes "last_timestamp history = None"
    and "iso_to_datetime env (if first_timestamp table = [] then ''1900-01-01''
                              else first_timestamp table) = Inr first_ts"
  shows "init_last_timestamp env table history =
           Inr (table\<lparr>first_timestamp := (if first_timestamp table = [] then ''1900-01-01''
                                              else first_timestamp table)\<rparr>,
                history\<lparr>last_timestamp := Some first_ts\<rparr>)"
  using assms by (auto simp add: init_last_timestamp_def Let_def)

lemma init_last_timestamp_some:
  assumes "last_timestamp history = Some t"
  shows "init_last_timestamp env table history =
           Inr (table\<lparr>first_timestamp := first_timestamp table\<rparr>, history\<lparr>last_timestamp := Some t\<rparr>)"
proof -
  have "history\<lparr>last_timestamp := Some t\<rparr> = history"
    using assms by (cases history) simp
  then show ?thesis using assms by (simp add: init_last_timestamp_def)
qed

lemma init_last_sequence_fields:
  "\<exists>f l. init_last_sequence table history = (table\<lparr>first_sequence := f\<rparr>, history\<lparr>last_sequence := l\<rparr>)"
proof (cases "truthy (last_sequence history)")
  case True
  then have "init_last_sequence table history =
               (table\<lparr>first_sequence := first_sequence table\<rparr>,
                history\<lparr>last_sequence := last_sequence history\<rparr>)"
    by (simp add: init_last_sequence_def)
  then show ?thesis by blast
next
  case False
  then have "init_last_sequence table history =
               (table\<lparr>first_sequence := (if \<not> truthy (first_sequence table) then PInt 0
                                            else first_sequence table)\<rparr>,
                history\<lparr>last_sequence := (if \<not> truthy (first_sequence table) then PInt 0
                                             else first_sequence table)\<rparr>)"
    by (simp add: init_last_sequence_def Let_def)
  then show ?thesis by blast
qed

lemma process_table_window:
  assumes "tname \<noteq> ''default''" and "ignore_table table = []" and "drop_table table = []"
    and "init_last_timestamp env table history =
           Inr (table\<lparr>first_timestamp := ft\<rparr>, history\<lparr>last_timestamp := Some last_ts\<rparr>)"
    and "last_ts \<le> snapshot"
    and "select_table_schema db_engine schema tname = Inr (Some discovered)"
    and "remove_ignored_columns env table discovered = Inr tschema"
    and "select_table_pk db_engine schema tname = Inr discovered_pk"
    and "discovered_pk \<noteq> [] \<or> primary_key table \<noteq> []"
    and "lower (cdc table) = ''timestamp''"
    and "\<And>sql. \<exists>rows. cursor_execute db_engine sql = Inr rows"
    and "batch_size_of (batch_size self) = Inr bsize"
    and "SelectCDC_timestamp_logic env db_engine
           (table\<lparr>schema_name := schema, table_name := tname,
                  column_names := map fst (columns tschema)\<rparr>) snapshot last_ts =
         Inr (tv, timestamp_window tv (datetime_str env last_ts) (datetime_str env snapshot))"
  shows "\<exists>table' history' out.
           CaptureDaemon_process_table env db_engine fsize self schema tname table history snapshot seq =
             Inr (table', history', out) \<and>
           last_timestamp history' = Some snapshot \<and>
           (tname @ ''.sql'',
            TextFile (windowed_select
                        (table\<lparr>schema_name := schema, table_name := tname,
                               column_names := map fst (columns tschema)\<rparr>)
                        (self_job_id self) tv (datetime_str env last_ts) (datetime_str env snapshot)))
             \<in> set (work_files out)"
proof -
  obtain f l where s: "init_last_sequence (table\<lparr>first_timestamp := ft\<rparr>)
                         (history\<lparr>last_timestamp := Some last_ts\<rparr>) =
                       (table\<lparr>first_timestamp := ft, first_sequence := f\<rparr>,
                        history\<lparr>last_timestamp := Some last_ts, last_sequence := l\<rparr>)"
    using init_last_sequence_fields [of "table\<lparr>first_timestamp := ft\<rparr>"
        "history\<lparr>last_timestamp := Some last_ts\<rparr>"] by auto
  let ?t0 = "table\<lparr>first_timestamp := ft, first_sequence := f\<rparr>"
  let ?h0 = "history\<lparr>last_timestamp := Some last_ts, last_sequence := l\<rparr>"
  let ?T = "?t0\<lparr>cdc := ''timestamp'', schema_name := schema, table_name := tname,
               column_names := map fst (columns tschema)\<rparr>"
  let ?Tq = "table\<lparr>schema_name := schema, table_name := tname,
                    column_names := map fst (columns tschema)\<rparr>"
  have p: "CaptureDaemon_process_table env db_engine fsize self schema tname table history snapshot seq =
           extract_table env db_engine fsize self schema tname ?t0 ?h0 snapshot seq last_ts"
    using assms(1,2,3,5) by (simp add: CaptureDaemon_process_table_def assms(4) s)
  have tl: "SelectCDC_timestamp_logic env db_engine ?T snapshot last_ts =
              Inr (tv, timestamp_window tv (datetime_str env last_ts) (datetime_str env snapshot))"
    using timestamp_logic_cong [of ?T ?Tq env db_engine snapshot last_ts] assms(13) by simp
  have i: "remove_ignored_columns env ?t0 discovered = Inr tschema"
    "discovered_pk \<noteq> [] \<or> primary_key ?t0 \<noteq> []"
    "lower (cdc ?t0) = ''timestamp''"
    using assms(7,9,10) remove_ignored_columns_cong [of ?t0 table env discovered] by simp_all
  obtain table' out where
    e: "extract_table env db_engine fsize self schema tname ?t0 ?h0 snapshot seq last_ts =
          Inr (table', ?h0\<lparr>last_timestamp := Some snapshot, last_sequence := PInt seq\<rparr>, out)"
    and f: "(tname @ ''.sql'',
            TextFile (windowed_select ?T (self_job_id self) tv (datetime_str env last_ts)
                        (datetime_str env snapshot))) \<in> set (work_files out)"
    using extract_table_window [OF assms(6) i(1) assms(8) i(2) i(3) assms(11) assms(12) tl,
        of fsize ?h0 seq] by blast
  have w: "windowed_select ?T (self_job_id self) tv (datetime_str env last_ts) (datetime_str env snapshot) =
           windowed_select ?Tq (self_job_id self) tv (datetime_str env last_ts) (datetime_str env snapshot)"
    by (rule windowed_select_cong) simp_all
  show ?thesis using p e f w by simp
qed

text \<open>
  The tables that get no window: a table whose first timestamp lies after the snapshot time and a table
  that the source does not have are skipped with the first timestamp as their watermark; a table with
  the timestamp strategy and no primary key loses its CDC setting and its timestamp column, and without
  a timestamp column \<open>timestamp_logic\<close> builds no condition.
\<close>

lemma future_dated_table_is_skipped:
  assumes "tname \<noteq> ''default''" and "ignore_table table = []" and "drop_table table = []"
    and "last_timestamp history = None"
    and "iso_to_datetime env (if first_timestamp table = [] then ''1900-01-01''
                              else first_timestamp table) = Inr first_ts"
    and "snapshot < first_ts"
  shows "CaptureDaemon_process_table env db_engine fsize self schema tname table history snapshot seq =
           Inr (table\<lparr>first_timestamp := (if first_timestamp table = [] then ''1900-01-01''
                                              else first_timestamp table)\<rparr>,
                history\<lparr>last_timestamp := Some first_ts\<rparr>, self)"
  using assms(1,2,3,6)
  by (simp add: CaptureDaemon_process_table_def init_last_timestamp_none [OF assms(4,5)])

lemma missing_source_table_is_skipped:
  assumes "tname \<noteq> ''default''" and "ignore_table table = []" and "drop_table table = []"
    and "last_timestamp history = None"
    and "iso_to_datetime env (if first_timestamp table = [] then ''1900-01-01''
                              else first_timestamp table) = Inr first_ts"
    and "first_ts \<le> snapshot"
    and "select_table_schema db_engine schema tname = Inr None"
  shows "\<exists>table' history'.
           CaptureDaemon_process_table env db_engine fsize self schema tname table history snapshot seq =
             Inr (table', history', save_file (tname @ ''.table'') (TableFile table') self) \<and>
           last_timestamp history' = Some first_ts"
proof -
  let ?t = "table\<lparr>first_timestamp := (if first_timestamp table = [] then ''1900-01-01''
                                          else first_timestamp table)\<rparr>"
  obtain f l where s: "init_last_sequence ?t (history\<lparr>last_timestamp := Some first_ts\<rparr>) =
                         (?t\<lparr>first_sequence := f\<rparr>,
                          history\<lparr>last_timestamp := Some first_ts, last_sequence := l\<rparr>)"
    using init_last_sequence_fields [of ?t "history\<lparr>last_timestamp := Some first_ts\<rparr>"] by auto
  show ?thesis
    using assms(1,2,3,6)
    by (simp add: CaptureDaemon_process_table_def init_last_timestamp_none [OF assms(4,5)] s
        extract_table_def assms(7))
qed

lemma keyless_table_loses_timestamp:
  assumes "lower (cdc table) = ''timestamp''"
  shows "cdc (normalize_cdc table []) = [] \<and> timestamp (normalize_cdc table []) = []"
  using assms by (simp add: normalize_cdc_def Let_def)

lemma timestamp_logic_without_column:
  "timestamp table = [] \<Longrightarrow>
   SelectCDC_timestamp_logic env db_engine table hi lo =
     (case timestamp_literal db_engine hi of
        Inl e \<Rightarrow> Inl e
      | Inr timestamp_value \<Rightarrow> Inr (timestamp_value, []))"
  by (simp add: SelectCDC_timestamp_logic_def)

text \<open>
  Two tables with \<open>cdc = timestamp\<close> and no watermark, captured at 2024-01-01 00:00:00. \<open>orders\<close> is
  configured with the first timestamp 2999-01-01: it is skipped, no statement is generated, and its
  watermark is left at 2999-01-01, not at the snapshot time. \<open>notes\<close> has no primary key: its CDC
  setting and its timestamp column are cleared, so that no window is built; \<open>timestamp_logic\<close> asks
  the engine for a timestamp literal, which raises \<open>NameError\<close>.
\<close>

theorem timestamp_table_without_window_counterexample:
  "CaptureDaemon_process_table sample_env sample_engine sample_fsize sample_daemon ''dbo'' ''orders''
     future_table (TableHistory ''orders'') 3913056000000000 0 =
     Inr (future_table, (TableHistory ''orders'')\<lparr>last_timestamp := Some 34681132800000000\<rparr>,
          sample_daemon) \<and>
   CaptureDaemon_process_table sample_env sample_engine sample_fsize sample_daemon ''dbo'' ''notes''
     sample_table (TableHistory ''notes'') 3913056000000000 0 =
     Inl (NameError ''current_timestamp'')"
  by code_simp

text \<open>
  Claim C1, with the conditions under which the table is extracted. The table is not skipped (it is not
  the \<open>default\<close> section and not marked to be ignored or dropped), its CDC strategy is \<open>timestamp\<close> in
  any letter case, it names a timestamp column, the source has the table, the columns to ignore are
  removed from its schema without an error, and a primary key is discovered or configured. The table has no watermark, its first timestamp (1900-01-01
  when none is configured) is a date not after the snapshot time of the first job, and the second job's
  snapshot time is not before the first's. The engine runs the statements and the batch size is valid.
  Then

  \<^item> the first capture writes and runs the statement whose \<open>where\<close> clause is
    \<open>tv >= '<first timestamp>' and tv < '<first snapshot>'\<close>, where \<open>tv\<close> is the timestamp expression
    of \<open>timestamp_logic\<close>, and leaves the watermark at the first snapshot time;
  \<^item> the second capture, from that watermark, writes and runs the statement with
    \<open>tv >= '<first snapshot>' and tv < '<second snapshot>'\<close> and leaves the watermark at the second
    snapshot time.
\<close>

theorem timestamp_capture_windows:
  assumes "tname \<noteq> ''default''" and "ignore_table table = []" and "drop_table table = []"
    and "remove_ignored_columns env table discovered = Inr tschema"
    and "lower (cdc table) = ''timestamp''" and "timestamp table \<noteq> []"
    and "last_timestamp history = None"
    and "iso_to_datetime env (if first_timestamp table = [] then ''1900-01-01''
                              else first_timestamp table) = Inr first_ts"
    and "first_ts \<le> snapshot1" and "snapshot1 \<le> snapshot2"
    and "select_table_schema db_engine schema tname = Inr (Some discovered)"
    and "select_table_pk db_engine schema tname = Inr discovered_pk"
    and "discovered_pk \<noteq> [] \<or> primary_key table \<noteq> []"
    and "\<And>sql. \<exists>rows. cursor_execute db_engine sql = Inr rows"
    and "batch_size_of (batch_size self1) = Inr bsize1"
    and "batch_size_of (batch_size self2) = Inr bsize2"
  shows "\<exists>tv table1 history1 out1 table2 history2 out2.
     SelectCDC_timestamp_logic env db_engine
       (table\<lparr>schema_name := schema, table_name := tname,
              column_names := map fst (columns tschema)\<rparr>) snapshot1 first_ts =
       Inr (tv, timestamp_window tv (datetime_str env first_ts) (datetime_str env snapshot1)) \<and>
     CaptureDaemon_process_table env db_engine fsize self1 schema tname table history snapshot1 seq1 =
       Inr (table1, history1, out1) \<and>
     (tname @ ''.sql'',
      TextFile (windowed_select
                  (table\<lparr>schema_name := schema, table_name := tname,
                         column_names := map fst (columns tschema)\<rparr>)
                  (self_job_id self1) tv (datetime_str env first_ts) (datetime_str env snapshot1)))
       \<in> set (work_files out1) \<and>
     last_timestamp history1 = Some snapshot1 \<and>
     CaptureDaemon_process_table env db_engine fsize self2 schema tname table history1 snapshot2 seq2 =
       Inr (table2, history2, out2) \<and>
     (tname @ ''.sql'',
      TextFile (windowed_select
                  (table\<lparr>schema_name := schema, table_name := tname,
                         column_names := map fst (columns tschema)\<rparr>)
                  (self_job_id self2) tv (datetime_str env snapshot1) (datetime_str env snapshot2)))
       \<in> set (work_files out2) \<and>
     last_timestamp history2 = Some snapshot2"
proof -
  let ?Tq = "table\<lparr>schema_name := schema, table_name := tname,
                    column_names := map fst (columns tschema)\<rparr>"
  have ts: "timestamp ?Tq \<noteq> []" using assms(6) by simp
  obtain tv where tl: "\<And>hi lo. SelectCDC_timestamp_logic env db_engine ?Tq hi lo =
           Inr (tv, timestamp_window tv (datetime_str env lo) (datetime_str env hi))"
    using timestamp_logic_window [OF ts, of env db_engine] by blast
  note i1 = init_last_timestamp_none [OF assms(7) assms(8)]
  obtain table1 history1 out1 where
    r1: "CaptureDaemon_process_table env db_engine fsize self1 schema tname table history snapshot1 seq1 =
           Inr (table1, history1, out1)"
    and w1: "last_timestamp history1 = Some snapshot1"
    and f1: "(tname @ ''.sql'',
              TextFile (windowed_select ?Tq (self_job_id self1) tv (datetime_str env first_ts)
                          (datetime_str env snapshot1))) \<in> set (work_files out1)"
    using process_table_window [OF assms(1,2,3) i1 assms(9) assms(11) assms(4) assms(12) assms(13)
        assms(5) assms(14) assms(15) tl, of fsize seq1] by blast
  note i2 = init_last_timestamp_some [OF w1, of env table]
  obtain table2 history2 out2 where
    r2: "CaptureDaemon_process_table env db_engine fsize self2 schema tname table history1 snapshot2 seq2 =
           Inr (table2, history2, out2)"
    and w2: "last_timestamp history2 = Some snapshot2"
    and f2: "(tname @ ''.sql'',
              TextFile (windowed_select ?Tq (self_job_id self2) tv (datetime_str env snapshot1)
                          (datetime_str env snapshot2))) \<in> set (work_files out2)"
    using process_table_window [OF assms(1,2,3) i2 assms(10) assms(11) assms(4) assms(12) assms(13)
        assms(5) assms(14) assms(16) tl, of fsize seq2] by blast
  show ?thesis using tl [of snapshot1 first_ts] r1 f1 w1 r2 f2 w2 by blast
qed

lemma sample_timestamp_logic:
  \<open>SelectCDC_timestamp_logic sample_env sample_engine
     (sample_table\<lparr>schema_name := ''dbo'', table_name := ''orders'',
                   column_names := map fst (columns sample_schema)\<rparr>) 3913056000000000 0 =
   Inr (''"s"."modified"'',
        timestamp_window ''"s"."modified"'' ''1900-01-01 00:00:00'' ''2024-01-01 00:00:00'')\<close>
  by code_simp

lemma sample_select_first:
  \<open>windowed_select
     (sample_table\<lparr>schema_name := ''dbo'', table_name := ''orders'',
                   column_names := map fst (columns sample_schema)\<rparr>)
     7 ''"s"."modified"'' ''1900-01-01 00:00:00'' ''2024-01-01 00:00:00'' =
          ''select\<newline>'' @
          ''"s"."id", "s"."modified",\<newline>'' @
          ''7 as "udp_job",\<newline>'' @
          ''"s"."modified" as "udp_timestamp"\<newline>'' @
          ''from "dbo"."orders" as "s"\<newline>'' @
          ''where\<newline>'' @
          ''    (\<newline>'' @
          ''"s"."modified" >= '' @ [CHR 0x27] @ ''1900-01-01 00:00:00'' @ [CHR 0x27] @ '' and\<newline>'' @
          ''"s"."modified" < '' @ [CHR 0x27] @ ''2024-01-01 00:00:00'' @ [CHR 0x27] @ ''\<newline>'' @
          '');''\<close>
  by code_simp

lemma sample_select_second:
  \<open>windowed_select
     (sample_table\<lparr>schema_name := ''dbo'', table_name := ''orders'',
                   column_names := map fst (columns sample_schema)\<rparr>)
     8 ''"s"."modified"'' ''2024-01-01 00:00:00'' ''2024-01-02 00:00:00'' =
          ''select\<newline>'' @
          ''"s"."id", "s"."modified",\<newline>'' @
          ''8 as "udp_job",\<newline>'' @
          ''"s"."modified" as "udp_timestamp"\<newline>'' @
          ''from "dbo"."orders" as "s"\<newline>'' @
          ''where\<newline>'' @
          ''    (\<newline>'' @
          ''"s"."modified" >= '' @ [CHR 0x27] @ ''2024-01-01 00:00:00'' @ [CHR 0x27] @ '' and\<newline>'' @
          ''"s"."modified" < '' @ [CHR 0x27] @ ''2024-01-02 00:00:00'' @ [CHR 0x27] @ ''\<newline>'' @
          '');''\<close>
  by code_simp

text \<open>
  The theorem on the table \<open>orders\<close> of the sample source, with the timestamp column \<open>modified\<close> and no
  first timestamp, captured by job 7 at 2024-01-01 00:00:00 and by job 8 at 2024-01-02 00:00:00.
\<close>

theorem timestamp_capture_windows_witness:
  \<open>\<exists>table1 history1 out1 table2 history2 out2.
     CaptureDaemon_process_table sample_env sample_engine sample_fsize sample_daemon ''dbo'' ''orders''
       sample_table (TableHistory ''orders'') 3913056000000000 0 = Inr (table1, history1, out1) \<and>
     (''orders.sql'', TextFile (
          ''select\<newline>'' @
          ''"s"."id", "s"."modified",\<newline>'' @
          ''7 as "udp_job",\<newline>'' @
          ''"s"."modified" as "udp_timestamp"\<newline>'' @
          ''from "dbo"."orders" as "s"\<newline>'' @
          ''where\<newline>'' @
          ''    (\<newline>'' @
          ''"s"."modified" >= '' @ [CHR 0x27] @ ''1900-01-01 00:00:00'' @ [CHR 0x27] @ '' and\<newline>'' @
          ''"s"."modified" < '' @ [CHR 0x27] @ ''2024-01-01 00:00:00'' @ [CHR 0x27] @ ''\<newline>'' @
          '');'')) \<in> set (work_files out1) \<and>
     last_timestamp history1 = Some 3913056000000000 \<and>
     CaptureDaemon_process_table sample_env sample_engine sample_fsize second_daemon ''dbo'' ''orders''
       sample_table history1 3913142400000000 0 = Inr (table2, history2, out2) \<and>
     (''orders.sql'', TextFile (
          ''select\<newline>'' @
          ''"s"."id", "s"."modified",\<newline>'' @
          ''8 as "udp_job",\<newline>'' @
          ''"s"."modified" as "udp_timestamp"\<newline>'' @
          ''from "dbo"."orders" as "s"\<newline>'' @
          ''where\<newline>'' @
          ''    (\<newline>'' @
          ''"s"."modified" >= '' @ [CHR 0x27] @ ''2024-01-01 00:00:00'' @ [CHR 0x27] @ '' and\<newline>'' @
          ''"s"."modified" < '' @ [CHR 0x27] @ ''2024-01-02 00:00:00'' @ [CHR 0x27] @ ''\<newline>'' @
          '');'')) \<in> set (work_files out2) \<and>
     last_timestamp history2 = Some 3913142400000000\<close>
proof -
  have 1: "''orders'' \<noteq> ''default''" "ignore_table sample_table = []" "drop_table sample_table = []"
    "remove_ignored_columns sample_env sample_table sample_schema = Inr sample_schema"
    by (simp_all add: sample_table_def remove_ignored_columns_def)
  have 5: "lower (cdc sample_table) = ''timestamp''"
    by (simp add: sample_table_def lower_timestamp_text)
  have 6: "timestamp sample_table \<noteq> []" by (simp add: sample_table_def)
  have 7: "last_timestamp (TableHistory ''orders'') = None" by (simp add: TableHistory_def)
  have 8: "iso_to_datetime sample_env (if first_timestamp sample_table = [] then ''1900-01-01''
                              else first_timestamp sample_table) = Inr 0"
    by (simp add: sample_env_def sample_table_def)
  have 9: "(0::int) \<le> 3913056000000000" "(3913056000000000::int) \<le> 3913142400000000" by simp_all
  have 11: "select_table_schema sample_engine ''dbo'' ''orders'' = Inr (Some sample_schema)"
    by (simp add: sample_engine_def)
  have 12: "select_table_pk sample_engine ''dbo'' ''orders'' = Inr ''id''"
    by (simp add: sample_engine_def)
  have 13: "''id'' \<noteq> [] \<or> primary_key sample_table \<noteq> []" by simp
  have 14: "\<And>sql. \<exists>rows. cursor_execute sample_engine sql = Inr rows"
    by (simp add: sample_engine_def)
  have 15: "batch_size_of (batch_size sample_daemon) = Inr 2"
    by (simp add: sample_daemon_def batch_size_of_2)
  have 16: "batch_size_of (batch_size second_daemon) = Inr 2"
    by (simp add: second_daemon_def sample_daemon_def batch_size_of_2)
  have d: "datetime_str sample_env 0 = ''1900-01-01 00:00:00''"
    "datetime_str sample_env 3913056000000000 = ''2024-01-01 00:00:00''"
    "datetime_str sample_env 3913142400000000 = ''2024-01-02 00:00:00''"
    by (simp_all add: sample_env_def)
  have j: "self_job_id sample_daemon = 7" "self_job_id second_daemon = 8"
    by (simp_all add: second_daemon_def sample_daemon_def)
  from timestamp_capture_windows [OF 1 5 6 7 8 9 11 12 13 14 15 16, of sample_fsize 0 0]
  obtain tv table1 history1 out1 table2 history2 out2 where
    t: \<open>SelectCDC_timestamp_logic sample_env sample_engine
       (sample_table\<lparr>schema_name := ''dbo'', table_name := ''orders'',
              column_names := map fst (columns sample_schema)\<rparr>) 3913056000000000 0 =
       Inr (tv, timestamp_window tv ''1900-01-01 00:00:00'' ''2024-01-01 00:00:00'')\<close>
    and r: \<open>CaptureDaemon_process_table sample_env sample_engine sample_fsize sample_daemon ''dbo'' ''orders''
       sample_table (TableHistory ''orders'') 3913056000000000 0 = Inr (table1, history1, out1)\<close>
      \<open>(''orders'' @ ''.sql'',
        TextFile (windowed_select
                  (sample_table\<lparr>schema_name := ''dbo'', table_name := ''orders'',
                         column_names := map fst (columns sample_schema)\<rparr>)
                  7 tv ''1900-01-01 00:00:00'' ''2024-01-01 00:00:00'')) \<in> set (work_files out1)\<close>
      \<open>last_timestamp history1 = Some 3913056000000000\<close>
      \<open>CaptureDaemon_process_table sample_env sample_engine sample_fsize second_daemon ''dbo'' ''orders''
       sample_table history1 3913142400000000 0 = Inr (table2, history2, out2)\<close>
      \<open>(''orders'' @ ''.sql'',
        TextFile (windowed_select
                  (sample_table\<lparr>schema_name := ''dbo'', table_name := ''orders'',
                         column_names := map fst (columns sample_schema)\<rparr>)
                  8 tv ''2024-01-01 00:00:00'' ''2024-01-02 00:00:00'')) \<in> set (work_files out2)\<close>
      \<open>last_timestamp history2 = Some 3913142400000000\<close>
    unfolding d j by blast
  have tv: \<open>tv = ''"s"."modified"''\<close>
    using t by (simp only: sample_timestamp_logic sum.inject prod.inject)
  show ?thesis
    using r unfolding tv sample_select_first sample_select_second by (intro exI [of _ table1] exI [of _ history1] exI [of _ out1] exI [of _ table2] exI [of _ history2] exI [of _ out2]) simp
qed

section \<open>\<open>capture.py\<close>: the job counter and the watermark store\<close>

lemma get_table_history_job_id:
  "job_id (snd (get_table_history history tname)) = job_id history \<and>
   file_name (snd (get_table_history history tname)) = file_name history"
  by (simp add: get_table_history_def Let_def split: option.splits)

lemma process_tables_job_id:
  "process_tables env db_engine fsize schema snapshot sections history self = Inr (history', self') \<Longrightarrow>
   job_id history' = job_id history \<and> file_name history' = file_name history"
proof (induction sections arbitrary: history self)
  case Nil
  then show ?case by simp
next
  case (Cons entry rest)
  obtain tname table where s: "entry = (tname, table)" by (cases entry)
  obtain table_hist h1 where g: "get_table_history history tname = (table_hist, h1)"
    by (cases "get_table_history history tname")
  have h1: "job_id h1 = job_id history \<and> file_name h1 = file_name history"
    using get_table_history_job_id [of history tname] by (simp add: g)
  from Cons.prems obtain current_seq table' table_hist' self1 where
    r: "process_tables env db_engine fsize schema snapshot rest
          (put_table_history h1 tname table_hist') self1 = Inr (history', self')"
    by (auto simp add: s g split: sum.splits)
  have "job_id history' = job_id (put_table_history h1 tname table_hist') \<and>
        file_name history' = file_name (put_table_history h1 tname table_hist')"
    using Cons.IH [OF r] .
  then show ?case using h1 by (simp add: put_table_history_def)
qed

lemma upload_state_file:
  "state_file (snd (upload_to_blobstore config zip_file_name world)) = state_file world"
  by (simp add: upload_to_blobstore_def split: prod.splits sum.splits)

lemma capture_job_state_file:
  "state_file (snd (capture_job env fsize config world)) = state_file world"
proof -
  have u: "\<And>z w r w'. upload_to_blobstore config z w = (r, w') \<Longrightarrow> state_file w' = state_file w"
    using upload_state_file by (metis snd_conv)
  show ?thesis
    by (auto simp add: capture_job_def Let_def compress_work_folder_def
        split: option.splits sum.splits prod.splits dest!: u)
qed

lemma capture_job_job_id:
  assumes "capture_job env fsize config world = (Inr history, world')"
  shows "job_id history =
           job_id (JobHistory_load (JobHistory (state_folder config @ ''/capture.job'')) (state_file world))"
  using assms
  by (auto simp add: capture_job_def Let_def split: option.splits sum.splits prod.splits if_splits
      dest!: process_tables_job_id)

lemma save_recovery_state_file_state:
  "state_file (snd (save_recovery_state_file config world)) = state_file world"
  by (simp add: save_recovery_state_file_def Let_def split: prod.splits sum.splits)

text \<open>
  Claim C2. The watermark store is the file \<open>capture.job\<close> of the state folder; a job starts from the
  job id and the table watermarks it loads from there (job id 1 and no watermarks when the file does not
  exist).

  \<^item> When an exception is raised before the watermark advance, that is anywhere in the job up to and
    including the upload of the package, \<open>main\<close> logs it and raises it again, and the file is as it
    was.
  \<^item> When the job gets through in \<open>--notransfer\<close> mode, \<open>main\<close> returns normally and the file is as it
    was.
  \<^item> When the job gets through and the package is transferred, the file holds the history the tables
    left, with the loaded job id plus one. This is so even when saving the recovery file fails
    afterwards.
\<close>

theorem job_id_advances_on_transfer_only:
  "(case capture_job env fsize config world of
      (Inl e, after) \<Rightarrow>
        CaptureDaemon_main env fsize config world = (Inl e, log_exception after) \<and>
        state_file (log_exception after) = state_file world
    | (Inr history, after) \<Rightarrow>
        if notransfer config
        then CaptureDaemon_main env fsize config world = (Inr (), after) \<and>
             state_file after = state_file world
        else state_file (snd (CaptureDaemon_main env fsize config world)) =
               Some (history\<lparr>job_id :=
                  job_id (JobHistory_load (JobHistory (state_folder config @ ''/capture.job''))
                            (state_file world)) + 1\<rparr>))"
proof (cases "capture_job env fsize config world")
  case (Pair r after)
  have s: "state_file after = state_file world"
    using capture_job_state_file [of env fsize config world] by (simp add: Pair)
  show ?thesis
  proof (cases r)
    case (Inl e)
    then show ?thesis using s by (simp add: Pair CaptureDaemon_main_def log_exception_def)
  next
    case (Inr history)
    have j: "job_id history =
           job_id (JobHistory_load (JobHistory (state_folder config @ ''/capture.job'')) (state_file world))"
      using capture_job_job_id [of env fsize config world history after] by (simp add: Pair Inr)
    show ?thesis
    proof (cases "notransfer config")
      case True
      then show ?thesis
        using s by (simp add: Pair Inr CaptureDaemon_main_def save_recovery_state_file_def)
    next
      case False
      let ?w = "after\<lparr>state_file := snd (JobHistory_save history False)\<rparr>"
      have "state_file (snd (save_recovery_state_file config ?w)) = state_file ?w"
        by (rule save_recovery_state_file_state)
      then have "state_file (snd (CaptureDaemon_main env fsize config world)) = state_file ?w"
        using False
        by (auto simp add: Pair Inr CaptureDaemon_main_def Let_def log_exception_def
            split: prod.splits sum.splits)
      then show ?thesis using False by (simp add: Pair Inr JobHistory_save_def Let_def j)
    qed
  qed
qed

lemma capture_job_tables:
  assumes "platform config = ''mssql''" and "db_connect config = None"
    and "current_timestamp_of (db config) = Inr snapshot"
  shows "(case process_tables env (db config) fsize (source_schema config) snapshot (table_sections config)
                 (JobHistory_load (JobHistory (state_folder config @ ''/capture.job'')) (state_file world))
                 \<lparr>self_job_id = job_id (JobHistory_load (JobHistory (state_folder config @ ''/capture.job''))
                                           (state_file world)),
                  batch_size = project_batch_size config,
                  work_files = [], job_row_count = 0, job_data_size = 0\<rparr> of
            Inl e \<Rightarrow> fst (capture_job env fsize config world) = Inl e
          | Inr done \<Rightarrow>
              notransfer config \<or>
              containers (store world) (account_name (blobstore_landing config),
                                        container_name (blobstore_landing config)) \<noteq> None \<longrightarrow>
              fst (capture_job env fsize config world) = Inr (fst done))"
proof -
  have u: "fst (upload_to_blobstore config z w) = Inr ()"
    if landed: "notransfer config \<or>
        containers (store w) (account_name (blobstore_landing config),
                              container_name (blobstore_landing config)) \<noteq> None" for z w
  proof (cases "notransfer config")
    case True
    then show ?thesis by (simp add: upload_to_blobstore_def)
  next
    case False
    then obtain held where h: "containers (store w) (account_name (blobstore_landing config),
                              container_name (blobstore_landing config)) = Some held"
      using landed by auto
    have r: "resource (snd (BlobStore_connect BlobStore (blobstore_landing config) (store w))) \<noteq> None"
      using connect_existing(1) [OF h] .
    show ?thesis
      using False r
      by (auto simp add: upload_to_blobstore_def BlobStore_put_def ensure_connected_def
          split: prod.splits sum.splits)
  qed
  let ?h0 = "JobHistory_load (JobHistory (state_folder config @ ''/capture.job'')) (state_file world)"
  let ?s0 = "\<lparr>self_job_id = job_id ?h0, batch_size = project_batch_size config,
              work_files = [], job_row_count = 0, job_data_size = 0\<rparr> :: 'a capture_daemon"
  let ?R = "process_tables env (db config) fsize (source_schema config) snapshot (table_sections config)
              ?h0 ?s0"
  show ?thesis
  proof (cases ?R)
    case (Inl e)
    then show ?thesis using assms by (simp add: capture_job_def Let_def)
  next
    case (Inr result)
    obtain h self' where d: "result = (h, self')" by (cases result)
    let ?w0 = "world\<lparr>store := clear_folder (publish_folder config) (store world)\<rparr>"
    obtain z w1 where c: "compress_work_folder config self' ?w0 = (z, w1)"
      by (cases "compress_work_folder config self' ?w0")
    have s1: "containers (store w1) = containers (store world)"
      using c by (auto simp add: compress_work_folder_def Let_def clear_folder_def)
    have "fst (capture_job env fsize config world) = Inr h"
      if landed: "notransfer config \<or>
              containers (store world) (account_name (blobstore_landing config),
                                        container_name (blobstore_landing config)) \<noteq> None"
    proof -
      have "fst (upload_to_blobstore config z w1) = Inr ()"
        using landed by (intro u) (simp add: s1)
      then obtain w2 where "upload_to_blobstore config z w1 = (Inr (), w2)"
        by (cases "upload_to_blobstore config z w1") auto
      then show ?thesis
        using assms Inr by (simp add: capture_job_def Let_def d c)
    qed
    then show ?thesis using Inr by (simp add: d)
  qed
qed

lemma sample_snapshot: "current_timestamp_of sample_engine = Inr 3913056000000000"
  by code_simp

lemma sample_tables_complete:
  "(case process_tables sample_env sample_engine sample_fsize ''dbo'' 3913056000000000
           [(''orders'', sample_table)] (JobHistory_load (JobHistory ''state/capture.job'') None)
           \<lparr>self_job_id = 1, batch_size = ''2'', work_files = [], job_row_count = 0, job_data_size = 0\<rparr> of
      Inl e \<Rightarrow> False | Inr done \<Rightarrow> True)"
  by code_simp

lemma sample_tables_raise:
  "(case process_tables sample_env sample_engine sample_fsize ''dbo'' 3913056000000000
           [(''notes'', sample_table)] (JobHistory_load (JobHistory ''state/capture.job'') None)
           \<lparr>self_job_id = 1, batch_size = ''2'', work_files = [], job_row_count = 0, job_data_size = 0\<rparr> of
      Inl e \<Rightarrow> e = NameError ''current_timestamp'' | Inr done \<Rightarrow> False)"
  by code_simp

lemma sample_config_fields:
  "platform (sample_capture_config\<lparr>notransfer := nt, table_sections := ts\<rparr>) = ''mssql''"
  "db_connect (sample_capture_config\<lparr>notransfer := nt, table_sections := ts\<rparr>) = None"
  "db (sample_capture_config\<lparr>notransfer := nt, table_sections := ts\<rparr>) = sample_engine"
  "source_schema (sample_capture_config\<lparr>notransfer := nt, table_sections := ts\<rparr>) = ''dbo''"
  "state_folder (sample_capture_config\<lparr>notransfer := nt, table_sections := ts\<rparr>) @ ''/capture.job'' =
     ''state/capture.job''"
  "project_batch_size (sample_capture_config\<lparr>notransfer := nt, table_sections := ts\<rparr>) = ''2''"
  "containers (store sample_capture_world)
     (account_name (blobstore_landing (sample_capture_config\<lparr>notransfer := nt, table_sections := ts\<rparr>)),
      container_name (blobstore_landing (sample_capture_config\<lparr>notransfer := nt, table_sections := ts\<rparr>)))
     \<noteq> None"
  "state_file sample_capture_world = None"
  "job_id (JobHistory_load (JobHistory ''state/capture.job'') None) = 1"
  by (simp_all add: sample_capture_config_def sample_capture_world_def sample_landing_def
      JobHistory_load_def JobHistory_def)

lemma sample_job_run:
  "(case process_tables sample_env sample_engine sample_fsize ''dbo'' 3913056000000000 ts
           (JobHistory_load (JobHistory ''state/capture.job'') None)
           \<lparr>self_job_id = 1, batch_size = ''2'', work_files = [], job_row_count = 0, job_data_size = 0\<rparr> of
      Inl e \<Rightarrow> fst (capture_job sample_env sample_fsize
                       (sample_capture_config\<lparr>notransfer := nt, table_sections := ts\<rparr>)
                       sample_capture_world) = Inl e
    | Inr done \<Rightarrow> fst (capture_job sample_env sample_fsize
                          (sample_capture_config\<lparr>notransfer := nt, table_sections := ts\<rparr>)
                          sample_capture_world) = Inr (fst done))"
proof -
  let ?c = "sample_capture_config\<lparr>notransfer := nt, table_sections := ts\<rparr>"
  have s: "current_timestamp_of (db ?c) = Inr 3913056000000000"
    by (simp only: sample_config_fields sample_snapshot)
  have t: "table_sections ?c = ts" by simp
  have l: "containers (store sample_capture_world)
             (account_name (blobstore_landing sample_capture_config),
              container_name (blobstore_landing sample_capture_config)) \<noteq> None"
    by (simp add: sample_capture_config_def sample_capture_world_def sample_landing_def)
  show ?thesis
    using capture_job_tables [OF sample_config_fields(1) sample_config_fields(2) s,
        of sample_env sample_fsize sample_capture_world]
    unfolding sample_config_fields t
    by (auto simp add: l split: sum.splits)
qed

lemma sample_job_completes:
  "(case fst (capture_job sample_env sample_fsize sample_capture_config sample_capture_world) of
      Inl e \<Rightarrow> False | Inr history \<Rightarrow> True)"
proof -
  have c: "sample_capture_config\<lparr>notransfer := False, table_sections := [(''orders'', sample_table)]\<rparr> =
           sample_capture_config"
    by (simp add: sample_capture_config_def)
  show ?thesis
    using sample_job_run [of "[(''orders'', sample_table)]" False] sample_tables_complete
    unfolding c by (auto split: sum.splits)
qed

lemma sample_job_completes_notransfer:
  "(case fst (capture_job sample_env sample_fsize (sample_capture_config\<lparr>notransfer := True\<rparr>)
                sample_capture_world) of
      Inl e \<Rightarrow> False | Inr history \<Rightarrow> True)"
proof -
  have c: "sample_capture_config\<lparr>notransfer := True, table_sections := [(''orders'', sample_table)]\<rparr> =
           sample_capture_config\<lparr>notransfer := True\<rparr>"
    by (simp add: sample_capture_config_def)
  show ?thesis
    using sample_job_run [of "[(''orders'', sample_table)]" True] sample_tables_complete
    unfolding c by (auto split: sum.splits)
qed

lemma sample_job_raises:
  "fst (capture_job sample_env sample_fsize
          (sample_capture_config\<lparr>table_sections := [(''notes'', sample_table)]\<rparr>) sample_capture_world) =
     Inl (NameError ''current_timestamp'')"
proof -
  have c: "sample_capture_config\<lparr>notransfer := False, table_sections := [(''notes'', sample_table)]\<rparr> =
           sample_capture_config\<lparr>table_sections := [(''notes'', sample_table)]\<rparr>"
    by (simp add: sample_capture_config_def)
  show ?thesis
    using sample_job_run [of "[(''notes'', sample_table)]" False] sample_tables_raise
    unfolding c by (auto split: sum.splits)
qed

text \<open>
  The theorem on the sample source and the dataset \<open>sales\<close>, whose state folder is empty (job 1):
  a job over the table \<open>orders\<close> that is transferred, the same job in \<open>--notransfer\<close> mode, and a job
  over the table \<open>notes\<close>, which raises \<open>NameError\<close> during the extraction.
\<close>

theorem job_id_advances_on_transfer_only_witness:
  "map_option job_id (state_file (snd (CaptureDaemon_main sample_env sample_fsize sample_capture_config
                                         sample_capture_world))) = Some 2 \<and>
   fst (CaptureDaemon_main sample_env sample_fsize (sample_capture_config\<lparr>notransfer := True\<rparr>)
          sample_capture_world) = Inr () \<and>
   state_file (snd (CaptureDaemon_main sample_env sample_fsize (sample_capture_config\<lparr>notransfer := True\<rparr>)
                      sample_capture_world)) = None \<and>
   fst (CaptureDaemon_main sample_env sample_fsize
          (sample_capture_config\<lparr>table_sections := [(''notes'', sample_table)]\<rparr>) sample_capture_world) =
     Inl (NameError ''current_timestamp'') \<and>
   state_file (snd (CaptureDaemon_main sample_env sample_fsize
          (sample_capture_config\<lparr>table_sections := [(''notes'', sample_table)]\<rparr>) sample_capture_world)) = None"
proof -
  have w: "state_file sample_capture_world = None" by (simp add: sample_capture_world_def)
  have n: "\<not> notransfer sample_capture_config" by (simp add: sample_capture_config_def)
  have a: "map_option job_id (state_file (snd (CaptureDaemon_main sample_env sample_fsize
             sample_capture_config sample_capture_world))) = Some 2"
    using job_id_advances_on_transfer_only [of sample_env sample_fsize sample_capture_config
        sample_capture_world] sample_job_completes n
    by (auto simp add: w JobHistory_load_def JobHistory_def split: prod.splits sum.splits)
  have b: "fst (CaptureDaemon_main sample_env sample_fsize (sample_capture_config\<lparr>notransfer := True\<rparr>)
             sample_capture_world) = Inr () \<and>
           state_file (snd (CaptureDaemon_main sample_env sample_fsize
             (sample_capture_config\<lparr>notransfer := True\<rparr>) sample_capture_world)) = None"
    using job_id_advances_on_transfer_only [of sample_env sample_fsize
        "sample_capture_config\<lparr>notransfer := True\<rparr>" sample_capture_world]
      sample_job_completes_notransfer
    by (auto simp add: w split: prod.splits sum.splits)
  have c: "fst (CaptureDaemon_main sample_env sample_fsize
             (sample_capture_config\<lparr>table_sections := [(''notes'', sample_table)]\<rparr>)
             sample_capture_world) = Inl (NameError ''current_timestamp'') \<and>
           state_file (snd (CaptureDaemon_main sample_env sample_fsize
             (sample_capture_config\<lparr>table_sections := [(''notes'', sample_table)]\<rparr>)
             sample_capture_world)) = None"
    using job_id_advances_on_transfer_only [of sample_env sample_fsize
        "sample_capture_config\<lparr>table_sections := [(''notes'', sample_table)]\<rparr>" sample_capture_world]
      sample_job_raises
    by (auto simp add: w split: prod.splits sum.splits)
  show ?thesis using a b c by simp
qed

end
